theory Spec2Isabelle
  imports Complex_Main "HOL-Library.AList" "HOL-Library.Monad_Syntax"
begin

section \<open>Python values and errors\<close>

text \<open>
  The exceptions that the modelled functions of the repository can raise.  A function of the
  source that may raise returns a sum, with \<open>Inl\<close> for the exception.
\<close>

datatype py_error =
    IndexError | TypeError | AttributeError | ValueError | OverflowError | ValidationError
  | RequestException | APIError | RateLimitError | AuthenticationError | RetryError | IOError
  | KeyError

text \<open>
  The values a decoded JSON payload or a record dictionary holds.  A dictionary is an
  association list with string keys, read with \<open>map_of\<close>.  A Python \<open>float\<close> is
  modelled as a real number (no rounding, no \<open>nan\<close>, no infinities).
\<close>

datatype pyval =
    PNone | PBool bool | PInt int | PFloat real | PStr string
  | PList "pyval list" | PDict "(string \<times> pyval) list"

type_synonym pydict = "(string \<times> pyval) list"

text \<open>\<open>d.get(k)\<close> and \<open>d.get(k, default)\<close>.\<close>

definition dict_get :: "pydict \<Rightarrow> string \<Rightarrow> pyval" where
  "dict_get d k = (case map_of d k of None \<Rightarrow> PNone | Some v \<Rightarrow> v)"

definition dict_get_default :: "pydict \<Rightarrow> string \<Rightarrow> pyval \<Rightarrow> pyval" where
  "dict_get_default d k dflt = (case map_of d k of None \<Rightarrow> dflt | Some v \<Rightarrow> v)"

text \<open>\<open>d[k] = v\<close>: the value of an existing key is replaced in place, a new key is appended.\<close>

definition dict_set :: "pydict \<Rightarrow> string \<Rightarrow> pyval \<Rightarrow> pydict" where
  "dict_set d k v = AList.update k v d"

definition dict_set_any :: "(string \<times> 'v) list \<Rightarrow> string \<Rightarrow> 'v \<Rightarrow> (string \<times> 'v) list" where
  "dict_set_any d k v = AList.update k v d"

text \<open>The dictionary comprehension \<open>{k: v for k, v in d.items() if v is not None}\<close>.\<close>

definition drop_none :: "pydict \<Rightarrow> pydict" where
  "drop_none d = filter (\<lambda>kv. snd kv \<noteq> PNone) d"

text \<open>Truthiness, and \<open>a or b\<close>.\<close>

fun truthy :: "pyval \<Rightarrow> bool" where
  "truthy PNone = False"
| "truthy (PBool b) = b"
| "truthy (PInt i) = (i \<noteq> 0)"
| "truthy (PFloat x) = (x \<noteq> 0)"
| "truthy (PStr s) = (s \<noteq> [])"
| "truthy (PList xs) = (xs \<noteq> [])"
| "truthy (PDict d) = (d \<noteq> [])"

definition py_or :: "pyval \<Rightarrow> pyval \<Rightarrow> pyval" where
  "py_or a b = (if truthy a then a else b)"

text \<open>
  String methods, on ASCII strings: \<open>s.replace(c, "")\<close> for a one-character \<open>c\<close>,
  \<open>s.strip()\<close>, \<open>s.upper()\<close>, and the substring test \<open>sub in s\<close>.
\<close>

definition remove_char :: "char \<Rightarrow> string \<Rightarrow> string" where
  "remove_char c s = filter (\<lambda>x. x \<noteq> c) s"

definition is_space :: "char \<Rightarrow> bool" where
  "is_space c = (of_char c \<in> {9, 10, 11, 12, 13, 28, 29, 30, 31, 32 :: nat})"

definition py_strip :: "string \<Rightarrow> string" where
  "py_strip s = rev (dropWhile is_space (rev (dropWhile is_space s)))"

definition upper_char :: "char \<Rightarrow> char" where
  "upper_char c =
     (if 97 \<le> (of_char c :: nat) \<and> (of_char c :: nat) \<le> 122
      then char_of (of_char c - 32 :: nat) else c)"

definition py_upper :: "string \<Rightarrow> string" where
  "py_upper s = map upper_char s"

fun contains :: "string \<Rightarrow> string \<Rightarrow> bool" where
  "contains [] sub = (sub = [])"
| "contains (x # xs) sub = (take (length sub) (x # xs) = sub \<or> contains xs sub)"

text \<open>The decimal rendering of an integer, as \<open>str(n)\<close> and an f-string produce it.\<close>

fun str_of_nat :: "nat \<Rightarrow> string" where
  "str_of_nat n =
     (if n < 10 then [char_of (48 + n)]
      else str_of_nat (n div 10) @ [char_of (48 + n mod 10)])"

declare str_of_nat.simps [simp del]

definition str_of_int :: "int \<Rightarrow> string" where
  "str_of_int i = (if i < 0 then CHR ''-'' # str_of_nat (nat (- i)) else str_of_nat (nat i))"

text \<open>
  Library functions whose full behaviour is not part of the repository are parameters of
  the model, collected in one record: the built-in \<open>float\<close> on a string (\<open>None\<close> for
  \<open>ValueError\<close>) and on an \<open>int\<close> (\<open>None\<close> for \<open>OverflowError\<close>), the built-in
  \<open>str\<close> on a value that is not a string, and the coercions applied by the validation
  library to a \<open>float\<close> field, an \<open>int\<close> field and the field of type
  \<open>Union[int, str, datetime]\<close> (\<open>None\<close> when the value is refused), the
  floating-point value of \<open>sum(xs) / len(xs)\<close> for a non-empty list, and
  \<open>datetime.fromtimestamp\<close> (the date as a number of seconds, or the exception it
  raises).  Every theorem below holds for all choices of these functions.
\<close>

record pylib =
  float_of_str :: "string \<Rightarrow> real option"
  float_of_int :: "int \<Rightarrow> real option"
  str_of :: "pyval \<Rightarrow> string"
  val_float :: "pyval \<Rightarrow> real option"
  val_int :: "pyval \<Rightarrow> int option"
  val_stamp :: "pyval \<Rightarrow> pyval option"
  float_mean :: "real list \<Rightarrow> real"
  fromtimestamp :: "pyval \<Rightarrow> py_error + real"

text \<open>\<open>str(v)\<close>: a string is returned as it is.\<close>

definition py_str :: "pylib \<Rightarrow> pyval \<Rightarrow> string" where
  "py_str L v = (case v of PStr s \<Rightarrow> s | _ \<Rightarrow> str_of L v)"

text \<open>
  A reference choice of the library functions, used to run the model on concrete inputs:
  decimal literals with an optional sign and fraction, exact conversion of integers,
  coercions that accept numbers, booleans and numeric strings, and a time stamp of any
  size.
\<close>

definition digit_val :: "char \<Rightarrow> nat option" where
  "digit_val c =
     (if 48 \<le> (of_char c :: nat) \<and> (of_char c :: nat) \<le> 57
      then Some (of_char c - 48) else None)"

fun digits_val :: "nat \<Rightarrow> string \<Rightarrow> nat option" where
  "digits_val acc [] = Some acc"
| "digits_val acc (c # cs) =
     (case digit_val c of None \<Rightarrow> None | Some d \<Rightarrow> digits_val (10 * acc + d) cs)"

definition unsigned_decimal :: "string \<Rightarrow> real option" where
  "unsigned_decimal s =
     (let ip = takeWhile (\<lambda>c. c \<noteq> CHR ''.'') s;
          fp = drop 1 (dropWhile (\<lambda>c. c \<noteq> CHR ''.'') s)
      in if ip = [] \<and> fp = [] then None
         else (case (digits_val 0 ip, digits_val 0 fp) of
                 (Some a, Some b) \<Rightarrow> Some (real a + real b / 10 ^ length fp)
               | _ \<Rightarrow> None))"

definition decimal_float :: "string \<Rightarrow> real option" where
  "decimal_float s =
     (case py_strip s of
        [] \<Rightarrow> None
      | c # cs \<Rightarrow>
          if c = CHR ''-'' then map_option uminus (unsigned_decimal cs)
          else if c = CHR ''+'' then unsigned_decimal cs
          else unsigned_decimal (c # cs))"

definition decimal_int :: "string \<Rightarrow> int option" where
  "decimal_int s =
     (case py_strip s of
        [] \<Rightarrow> None
      | c # cs \<Rightarrow>
          if c = CHR ''-'' then (if cs = [] then None else map_option (\<lambda>n. - int n) (digits_val 0 cs))
          else if c = CHR ''+'' then (if cs = [] then None else map_option int (digits_val 0 cs))
          else map_option int (digits_val 0 (c # cs)))"

fun ref_val_float :: "pyval \<Rightarrow> real option" where
  "ref_val_float (PFloat x) = Some x"
| "ref_val_float (PInt i) = Some (of_int i)"
| "ref_val_float (PBool b) = Some (if b then 1 else 0)"
| "ref_val_float (PStr s) = decimal_float s"
| "ref_val_float _ = None"

fun ref_val_int :: "pyval \<Rightarrow> int option" where
  "ref_val_int (PInt i) = Some i"
| "ref_val_int (PBool b) = Some (if b then 1 else 0)"
| "ref_val_int (PFloat x) = (if x = of_int (floor x) then Some (floor x) else None)"
| "ref_val_int (PStr s) = decimal_int s"
| "ref_val_int _ = None"

fun ref_val_stamp :: "pyval \<Rightarrow> pyval option" where
  "ref_val_stamp (PInt i) = Some (PInt i)"
| "ref_val_stamp (PStr s) = Some (PStr s)"
| "ref_val_stamp (PFloat x) = Some (PFloat x)"
| "ref_val_stamp (PBool b) = Some (PInt (if b then 1 else 0))"
| "ref_val_stamp _ = None"

fun ref_str_of :: "pyval \<Rightarrow> string" where
  "ref_str_of PNone = ''None''"
| "ref_str_of (PBool b) = (if b then ''True'' else ''False'')"
| "ref_str_of (PInt i) = str_of_int i"
| "ref_str_of (PStr s) = s"
| "ref_str_of _ = ''<object>''"

fun ref_fromtimestamp :: "pyval \<Rightarrow> py_error + real" where
  "ref_fromtimestamp (PInt i) = Inr (of_int i)"
| "ref_fromtimestamp (PFloat x) = Inr x"
| "ref_fromtimestamp (PBool b) = Inr (if b then 1 else 0)"
| "ref_fromtimestamp _ = Inl TypeError"

definition ref_lib :: pylib where
  "ref_lib = \<lparr>float_of_str = decimal_float, float_of_int = (\<lambda>i. Some (of_int i)),
              str_of = ref_str_of, val_float = ref_val_float, val_int = ref_val_int,
              val_stamp = ref_val_stamp,
              float_mean = (\<lambda>xs. sum_list xs / real (length xs)),
              fromtimestamp = ref_fromtimestamp\<rparr>"

text \<open>A call that returns (it raises nothing).\<close>

definition no_raise :: "py_error + 'a \<Rightarrow> bool" where
  "no_raise r = (case r of Inl e \<Rightarrow> False | Inr v \<Rightarrow> True)"

section \<open>Rate limiter (\<open>src/api_client.py\<close>, class \<open>RateLimiter\<close>)\<close>

text \<open>
  The limiter keeps the list \<open>requests\<close> of the times of the recorded requests.  The
  value \<open>time.time()\<close> read at the start of a call is an input of the model (\<open>now\<close>);
  the time slept is an output.
\<close>

record RateLimiter =
  requests_per_minute :: int
  burst :: int
  requests :: "real list"

definition RateLimiter_init :: "int \<Rightarrow> int \<Rightarrow> RateLimiter" where
  "RateLimiter_init rpm b = \<lparr>requests_per_minute = rpm, burst = b, requests = []\<rparr>"

text \<open>
  \<open>wait_if_needed\<close> returns the limiter after the call and either the exception raised
  (\<open>self.requests[0]\<close> on an empty list) or the time slept (0 when it did not sleep).
  The pruned list is assigned to \<open>self.requests\<close> before the test, so it is kept also
  when the call raises.
\<close>

definition wait_if_needed :: "RateLimiter \<Rightarrow> real \<Rightarrow> RateLimiter \<times> (py_error + real)" where
  "wait_if_needed rl now =
     (let minute_ago = now - 60;
          reqs = filter (\<lambda>req_time. req_time > minute_ago) (requests rl)
      in if int (length reqs) \<ge> requests_per_minute rl then
           (case reqs of
              [] \<Rightarrow> (rl\<lparr>requests := reqs\<rparr>, Inl IndexError)
            | oldest # rest \<Rightarrow>
                (let sleep_time = 60 - (now - oldest)
                 in if sleep_time > 0
                    then (rl\<lparr>requests := rest @ [now]\<rparr>, Inr sleep_time)
                    else (rl\<lparr>requests := reqs @ [now]\<rparr>, Inr 0)))
         else (rl\<lparr>requests := reqs @ [now]\<rparr>, Inr 0))"

text \<open>The asynchronous variant runs the same statements under the lock.\<close>

definition async_wait_if_needed :: "RateLimiter \<Rightarrow> real \<Rightarrow> RateLimiter \<times> (py_error + real)" where
  "async_wait_if_needed rl now =
     (let minute_ago = now - 60;
          reqs = filter (\<lambda>req_time. req_time > minute_ago) (requests rl)
      in if int (length reqs) \<ge> requests_per_minute rl then
           (case reqs of
              [] \<Rightarrow> (rl\<lparr>requests := reqs\<rparr>, Inl IndexError)
            | oldest # rest \<Rightarrow>
                (let sleep_time = 60 - (now - oldest)
                 in if sleep_time > 0
                    then (rl\<lparr>requests := rest @ [now]\<rparr>, Inr sleep_time)
                    else (rl\<lparr>requests := reqs @ [now]\<rparr>, Inr 0)))
         else (rl\<lparr>requests := reqs @ [now]\<rparr>, Inr 0))"

text \<open>
  A sequence of acquisition calls: each call is synchronous or asynchronous and reads the
  clock value it carries.  \<open>acquire_all\<close> runs them in order and collects the outcomes.
\<close>

datatype acquire = Sync real | Async real

fun acquire_one :: "RateLimiter \<Rightarrow> acquire \<Rightarrow> RateLimiter \<times> (py_error + real)" where
  "acquire_one rl (Sync now) = wait_if_needed rl now"
| "acquire_one rl (Async now) = async_wait_if_needed rl now"

fun acquire_all :: "RateLimiter \<Rightarrow> acquire list \<Rightarrow> RateLimiter \<times> (py_error + real) list" where
  "acquire_all rl [] = (rl, [])"
| "acquire_all rl (c # cs) =
     (let (rl1, r) = acquire_one rl c; (rl2, rs) = acquire_all rl1 cs in (rl2, r # rs))"

definition in_window :: "real \<Rightarrow> RateLimiter \<Rightarrow> real list" where
  "in_window t rl = filter (\<lambda>req_time. req_time > t - 60) (requests rl)"

definition returned :: "py_error + real \<Rightarrow> bool" where
  "returned r = (case r of Inl e \<Rightarrow> False | Inr s \<Rightarrow> s \<ge> 0)"

section \<open>HTTP client (\<open>src/api_client.py\<close>, \<open>BaseAPIClient._make_request\<close>)\<close>

text \<open>
  What one HTTP exchange gives is an input of the model: a response with its status code
  and its \<open>Retry-After\<close> header (absent, an integer, or a value that \<open>int\<close> rejects), or
  a \<open>RequestException\<close> raised by \<open>requests.request\<close> (connection failure, timeout).
\<close>

datatype retry_after = NoHeader | Seconds int | Malformed

datatype http_outcome = Response int retry_after | ConnectionFailure

text \<open>
  The statements inside \<open>try\<close>.  \<open>time.sleep\<close> raises \<open>ValueError\<close> on a negative
  duration; \<open>raise_for_status\<close> raises \<open>HTTPError\<close>, a \<open>RequestException\<close>, for a status
  from 400 to 599.  The result is the exception or the status code of the response returned.
\<close>

definition try_body :: "http_outcome \<Rightarrow> py_error + int" where
  "try_body outcome =
     (case outcome of
        ConnectionFailure \<Rightarrow> Inl RequestException
      | Response status_code header \<Rightarrow>
          if status_code = 429 then
            (case header of
               Malformed \<Rightarrow> Inl ValueError
             | NoHeader \<Rightarrow> Inl RateLimitError
             | Seconds retry_after \<Rightarrow> (if retry_after < 0 then Inl ValueError else Inl RateLimitError))
          else if status_code = 401 then Inl AuthenticationError
          else if 400 \<le> status_code \<and> status_code < 600 then Inl RequestException
          else Inr status_code)"

text \<open>
  The clause \<open>except requests.exceptions.RequestException as e: raise APIError(...) from e\<close>:
  \<open>RateLimitError\<close> and \<open>AuthenticationError\<close> derive from \<open>APIError\<close>, not from
  \<open>RequestException\<close>, and pass through.
\<close>

definition except_clause :: "py_error + int \<Rightarrow> py_error + int" where
  "except_clause r =
     (case r of
        Inl e \<Rightarrow> (if e = RequestException then Inl APIError else Inl e)
      | Inr response \<Rightarrow> Inr response)"

text \<open>
  One execution of the body of \<open>_make_request\<close>: the rate limiter is consulted first,
  outside the \<open>try\<close> statement, at the clock value \<open>now\<close>.
\<close>

definition make_request_body ::
  "RateLimiter \<Rightarrow> real \<times> http_outcome \<Rightarrow> RateLimiter \<times> (py_error + int)" where
  "make_request_body rl exchange =
     (case wait_if_needed rl (fst exchange) of
        (rl1, Inl e) \<Rightarrow> (rl1, Inl e)
      | (rl1, Inr slept) \<Rightarrow> (rl1, except_clause (try_body (snd exchange))))"

text \<open>
  The decorator \<open>@retry(stop=stop_after_attempt(max_retries),
  wait=wait_exponential(multiplier=retry_delay),
  retry=retry_if_exception_type((RequestException, RateLimitError)))\<close>: an exception of
  one of the two listed classes is retried until the attempt number reaches
  \<open>max_retries\<close>, then \<open>RetryError\<close> is raised; any other exception is raised as it
  is; a returned response is returned.  \<open>exchanges n\<close> is what the \<open>n\<close>-th attempt meets.
  The run records the number of attempts and the waits between them.
\<close>

definition retry_if_exception_type :: "py_error \<Rightarrow> bool" where
  "retry_if_exception_type e = (e = RequestException \<or> e = RateLimitError)"

definition stop_after_attempt :: "int \<Rightarrow> nat \<Rightarrow> bool" where
  "stop_after_attempt max_retries attempt_number = (int attempt_number \<ge> max_retries)"

definition wait_exponential :: "real \<Rightarrow> nat \<Rightarrow> real" where
  "wait_exponential multiplier attempt_number = max 0 (multiplier * 2 ^ (attempt_number - 1))"

record request_run =
  result :: "py_error + int"
  attempts :: nat
  waits :: "real list"
  limiter :: RateLimiter

function retrying ::
  "int \<Rightarrow> real \<Rightarrow> (nat \<Rightarrow> real \<times> http_outcome) \<Rightarrow> RateLimiter \<Rightarrow> nat \<Rightarrow> real list \<Rightarrow> request_run" where
  "retrying max_retries retry_delay exchanges rl attempt_number ws =
     (case make_request_body rl (exchanges attempt_number) of
        (rl1, Inr response) \<Rightarrow>
          \<lparr>result = Inr response, attempts = attempt_number, waits = ws, limiter = rl1\<rparr>
      | (rl1, Inl e) \<Rightarrow>
          if retry_if_exception_type e then
            (if stop_after_attempt max_retries attempt_number
             then \<lparr>result = Inl RetryError, attempts = attempt_number, waits = ws, limiter = rl1\<rparr>
             else retrying max_retries retry_delay exchanges rl1 (Suc attempt_number)
                    (ws @ [wait_exponential retry_delay attempt_number]))
          else \<lparr>result = Inl e, attempts = attempt_number, waits = ws, limiter = rl1\<rparr>)"
  by pat_completeness auto
termination
  by (relation "measure (\<lambda>(max_retries, retry_delay, exchanges, rl, attempt_number, ws).
        nat (max_retries - int attempt_number))")
     (auto simp: stop_after_attempt_def)

definition make_request ::
  "int \<Rightarrow> real \<Rightarrow> (nat \<Rightarrow> real \<times> http_outcome) \<Rightarrow> RateLimiter \<Rightarrow> request_run" where
  "make_request max_retries retry_delay exchanges rl =
     retrying max_retries retry_delay exchanges rl 1 []"

section \<open>Typed records (\<open>src/stocks_models.py\<close>)\<close>

text \<open>
  The validated models \<open>Stock\<close> and \<open>StockQuote\<close>.  The fields \<open>scraped_at\<close> (the
  clock at construction) and \<open>source\<close> (a constant) are left out.  The fields of
  \<open>StockQuote\<close> carry the prefix \<open>q_\<close>.
\<close>

record Stock =
  symbol :: string
  name :: "string option"
  exchange :: "string option"
  sector :: "string option"
  industry :: "string option"
  market_cap :: "real option"
  currency :: string
  country :: "string option"
  website :: "string option"
  description :: "string option"

record StockQuote =
  q_symbol :: string
  q_name :: "string option"
  q_price :: "real option"
  q_previous_close :: "real option"
  q_open :: "real option"
  q_high :: "real option"
  q_low :: "real option"
  q_volume :: "int option"
  q_market_cap :: "real option"
  q_pe_ratio :: "real option"
  q_dividend_yield :: "real option"
  q_change :: "real option"
  q_change_percent :: "real option"
  q_currency :: string
  q_exchange :: "string option"
  q_quote_type :: "string option"
  q_timestamp :: "pyval option"

text \<open>
  Validation of the keyword arguments of a model.  A field of type \<open>str\<close> accepts a string
  only.  A required field must be present and valid; an optional field may be absent or
  \<open>None\<close>; a field with a default takes the default when absent.  The result \<open>None\<close>
  stands for \<open>ValidationError\<close>.
\<close>

fun val_str :: "pyval \<Rightarrow> string option" where
  "val_str (PStr s) = Some s"
| "val_str _ = None"

definition required :: "(pyval \<Rightarrow> 'a option) \<Rightarrow> pydict \<Rightarrow> string \<Rightarrow> 'a option" where
  "required v kwargs k = (case map_of kwargs k of None \<Rightarrow> None | Some x \<Rightarrow> v x)"

definition optional :: "(pyval \<Rightarrow> 'a option) \<Rightarrow> pydict \<Rightarrow> string \<Rightarrow> 'a option option" where
  "optional v kwargs k =
     (case map_of kwargs k of
        None \<Rightarrow> Some None
      | Some PNone \<Rightarrow> Some None
      | Some x \<Rightarrow> map_option Some (v x))"

definition defaulted :: "(pyval \<Rightarrow> 'a option) \<Rightarrow> 'a \<Rightarrow> pydict \<Rightarrow> string \<Rightarrow> 'a option" where
  "defaulted v dflt kwargs k = (case map_of kwargs k of None \<Rightarrow> Some dflt | Some x \<Rightarrow> v x)"

definition Stock_init :: "pylib \<Rightarrow> pydict \<Rightarrow> Stock option" where
  "Stock_init L kwargs =
     do {
       sy \<leftarrow> required val_str kwargs ''symbol'';
       na \<leftarrow> optional val_str kwargs ''name'';
       ex \<leftarrow> optional val_str kwargs ''exchange'';
       se \<leftarrow> optional val_str kwargs ''sector'';
       ind \<leftarrow> optional val_str kwargs ''industry'';
       mc \<leftarrow> optional (val_float L) kwargs ''market_cap'';
       cu \<leftarrow> defaulted val_str ''USD'' kwargs ''currency'';
       co \<leftarrow> optional val_str kwargs ''country'';
       we \<leftarrow> optional val_str kwargs ''website'';
       de \<leftarrow> optional val_str kwargs ''description'';
       Some \<lparr>symbol = sy, name = na, exchange = ex, sector = se, industry = ind,
             market_cap = mc, currency = cu, country = co, website = we, description = de\<rparr>
     }"

definition StockQuote_init :: "pylib \<Rightarrow> pydict \<Rightarrow> StockQuote option" where
  "StockQuote_init L kwargs =
     do {
       sy \<leftarrow> required val_str kwargs ''symbol'';
       na \<leftarrow> optional val_str kwargs ''name'';
       pr \<leftarrow> optional (val_float L) kwargs ''price'';
       pc \<leftarrow> optional (val_float L) kwargs ''previous_close'';
       op \<leftarrow> optional (val_float L) kwargs ''open'';
       hi \<leftarrow> optional (val_float L) kwargs ''high'';
       lo \<leftarrow> optional (val_float L) kwargs ''low'';
       vo \<leftarrow> optional (val_int L) kwargs ''volume'';
       mc \<leftarrow> optional (val_float L) kwargs ''market_cap'';
       pe \<leftarrow> optional (val_float L) kwargs ''pe_ratio'';
       dy \<leftarrow> optional (val_float L) kwargs ''dividend_yield'';
       ch \<leftarrow> optional (val_float L) kwargs ''change'';
       cp \<leftarrow> optional (val_float L) kwargs ''change_percent'';
       cu \<leftarrow> defaulted val_str ''USD'' kwargs ''currency'';
       ex \<leftarrow> optional val_str kwargs ''exchange'';
       qt \<leftarrow> optional val_str kwargs ''quote_type'';
       ts \<leftarrow> optional (val_stamp L) kwargs ''timestamp'';
       Some \<lparr>q_symbol = sy, q_name = na, q_price = pr, q_previous_close = pc, q_open = op,
             q_high = hi, q_low = lo, q_volume = vo, q_market_cap = mc, q_pe_ratio = pe,
             q_dividend_yield = dy, q_change = ch, q_change_percent = cp, q_currency = cu,
             q_exchange = ex, q_quote_type = qt, q_timestamp = ts\<rparr>
     }"

section \<open>Response parsers (\<open>src/updated_yahoo_client.py\<close>)\<close>

text \<open>
  \<open>parse_ticker_data\<close>: the call \<open>ticker_data.get\<close> raises \<open>AttributeError\<close> when
  the element is not a dictionary; a market cap given as a non-empty string is converted
  with \<open>float\<close> after the commas are removed, and replaced by \<open>None\<close> when that fails;
  the entries that are \<open>None\<close> are removed; the model constructor may raise
  \<open>ValidationError\<close>.  The \<open>except\<close> clause logs and raises the exception again.
\<close>

definition parse_ticker_data :: "pylib \<Rightarrow> pyval \<Rightarrow> py_error + Stock" where
  "parse_ticker_data L ticker_data =
     (case ticker_data of
        PDict d \<Rightarrow>
          (let market_cap0 = dict_get d ''marketCap'';
               market_cap =
                 (case market_cap0 of
                    PStr s \<Rightarrow>
                      (if truthy market_cap0
                       then (case float_of_str L (remove_char (CHR '','') s) of
                               Some x \<Rightarrow> PFloat x | None \<Rightarrow> PNone)
                       else market_cap0)
                  | _ \<Rightarrow> market_cap0);
               parsed_data =
                 [(''symbol'', dict_get d ''symbol''),
                  (''name'', dict_get d ''name''),
                  (''exchange'', dict_get d ''exchange''),
                  (''sector'', dict_get d ''sector''),
                  (''industry'', dict_get d ''industry''),
                  (''market_cap'', market_cap),
                  (''currency'', dict_get d ''currency''),
                  (''country'', dict_get d ''country''),
                  (''website'', dict_get d ''website''),
                  (''description'', dict_get d ''description'')]
           in (case Stock_init L (drop_none parsed_data) of
                 None \<Rightarrow> Inl ValidationError
               | Some stock \<Rightarrow> Inr stock))
      | _ \<Rightarrow> Inl AttributeError)"

definition parse_quote_data :: "pylib \<Rightarrow> pyval \<Rightarrow> py_error + StockQuote" where
  "parse_quote_data L quote_data =
     (case quote_data of
        PDict d \<Rightarrow>
          (let parsed_data =
                 [(''symbol'', dict_get d ''symbol''),
                  (''name'', py_or (dict_get d ''longName'') (dict_get d ''shortName'')),
                  (''price'', dict_get d ''regularMarketPrice''),
                  (''previous_close'', dict_get d ''regularMarketPreviousClose''),
                  (''open'', dict_get d ''regularMarketOpen''),
                  (''high'', dict_get d ''regularMarketDayHigh''),
                  (''low'', dict_get d ''regularMarketDayLow''),
                  (''volume'', dict_get d ''regularMarketVolume''),
                  (''market_cap'', dict_get d ''marketCap''),
                  (''pe_ratio'', dict_get d ''trailingPE''),
                  (''dividend_yield'', dict_get d ''dividendYield''),
                  (''change'', dict_get d ''regularMarketChange''),
                  (''change_percent'', dict_get d ''regularMarketChangePercent''),
                  (''currency'', dict_get_default d ''currency'' (PStr ''USD'')),
                  (''exchange'', dict_get d ''fullExchangeName''),
                  (''quote_type'', dict_get d ''quoteType''),
                  (''timestamp'', dict_get d ''regularMarketTime'')]
           in (case StockQuote_init L (drop_none parsed_data) of
                 None \<Rightarrow> Inl ValidationError
               | Some quote \<Rightarrow> Inr quote))
      | _ \<Rightarrow> Inl AttributeError)"

text \<open>
  The loop over the body: an element whose parse raises \<open>ValidationError\<close> is skipped,
  any other exception leaves the loop and the function.
\<close>

fun parse_tickers :: "pylib \<Rightarrow> pyval list \<Rightarrow> py_error + Stock list" where
  "parse_tickers L [] = Inr []"
| "parse_tickers L (ticker_data # rest) =
     (case parse_ticker_data L ticker_data of
        Inl e \<Rightarrow> (if e = ValidationError then parse_tickers L rest else Inl e)
      | Inr stock \<Rightarrow>
          (case parse_tickers L rest of Inl e \<Rightarrow> Inl e | Inr stocks \<Rightarrow> Inr (stock # stocks)))"

fun parse_quotes :: "pylib \<Rightarrow> pyval list \<Rightarrow> py_error + StockQuote list" where
  "parse_quotes L [] = Inr []"
| "parse_quotes L (quote_data # rest) =
     (case parse_quote_data L quote_data of
        Inl e \<Rightarrow> (if e = ValidationError then parse_quotes L rest else Inl e)
      | Inr quote \<Rightarrow>
          (case parse_quotes L rest of Inl e \<Rightarrow> Inl e | Inr quotes \<Rightarrow> Inr (quote # quotes)))"

text \<open>
  The test \<open>"body" in response_data and isinstance(response_data["body"], list)\<close>.  It
  gives the body list, or \<open>None\<close> when the test is false, or the \<open>TypeError\<close> that
  \<open>in\<close> raises on a value that is no container and that the subscript raises on a list
  or string that contains \<open>"body"\<close>.
\<close>

definition body_list :: "pyval \<Rightarrow> py_error + pyval list option" where
  "body_list response_data =
     (case response_data of
        PDict d \<Rightarrow>
          (case map_of d ''body'' of
             Some (PList body) \<Rightarrow> Inr (Some body)
           | _ \<Rightarrow> Inr None)
      | PList xs \<Rightarrow> (if PStr ''body'' \<in> set xs then Inl TypeError else Inr None)
      | PStr s \<Rightarrow> (if contains s ''body'' then Inl TypeError else Inr None)
      | _ \<Rightarrow> Inl TypeError)"

definition parse_tickers_response :: "pylib \<Rightarrow> pyval \<Rightarrow> py_error + Stock list" where
  "parse_tickers_response L response_data =
     (case body_list response_data of
        Inl e \<Rightarrow> Inl e
      | Inr None \<Rightarrow> Inr []
      | Inr (Some body) \<Rightarrow> parse_tickers L body)"

definition parse_quotes_response :: "pylib \<Rightarrow> pyval \<Rightarrow> py_error + StockQuote list" where
  "parse_quotes_response L response_data =
     (case body_list response_data of
        Inl e \<Rightarrow> Inl e
      | Inr None \<Rightarrow> Inr []
      | Inr (Some body) \<Rightarrow> parse_quotes L body)"

text \<open>
  The elements of the payload's body array (none when there is no such array), and the
  test that a string is stored under \<open>"symbol"\<close> in one of the given elements.
\<close>

definition body_elements :: "pyval \<Rightarrow> pyval list" where
  "body_elements response_data =
     (case response_data of
        PDict d \<Rightarrow> (case map_of d ''body'' of Some (PList body) \<Rightarrow> body | _ \<Rightarrow> [])
      | _ \<Rightarrow> [])"

definition is_dict :: "pyval \<Rightarrow> bool" where
  "is_dict v = (case v of PDict d \<Rightarrow> True | _ \<Rightarrow> False)"

definition symbol_is :: "string \<Rightarrow> pyval \<Rightarrow> bool" where
  "symbol_is s element =
     (case element of PDict d \<Rightarrow> map_of d ''symbol'' = Some (PStr s) | _ \<Rightarrow> False)"

definition has_str_symbol :: "pyval \<Rightarrow> bool" where
  "has_str_symbol element =
     (case element of
        PDict d \<Rightarrow> (case map_of d ''symbol'' of Some (PStr s) \<Rightarrow> True | _ \<Rightarrow> False)
      | _ \<Rightarrow> False)"

definition has_body_list :: "pydict \<Rightarrow> bool" where
  "has_body_list d = (case map_of d ''body'' of Some (PList body) \<Rightarrow> True | _ \<Rightarrow> False)"

text \<open>Sample payloads for the concrete runs of the parsers.\<close>

definition empty_symbol_payload :: pyval where
  "empty_symbol_payload = PDict [(''body'', PList [PDict [(''symbol'', PStr '''')]])]"

definition two_element_payload :: pyval where
  "two_element_payload =
     PDict [(''body'',
       PList [PDict [(''symbol'', PStr ''AAPL''), (''marketCap'', PInt 1234),
                     (''regularMarketPrice'', PFloat 150)],
              PDict [(''name'', PStr ''no symbol here'')]])]"

definition aapl_stock :: Stock where
  "aapl_stock = \<lparr>symbol = ''AAPL'', name = None, exchange = None, sector = None,
     industry = None, market_cap = Some 1234, currency = ''USD'', country = None,
     website = None, description = None\<rparr>"

definition aapl_quote :: StockQuote where
  "aapl_quote = \<lparr>q_symbol = ''AAPL'', q_name = None, q_price = Some 150,
     q_previous_close = None, q_open = None, q_high = None, q_low = None, q_volume = None,
     q_market_cap = Some 1234, q_pe_ratio = None, q_dividend_yield = None,
     q_change = None, q_change_percent = None, q_currency = ''USD'', q_exchange = None,
     q_quote_type = None, q_timestamp = None\<rparr>"

section \<open>Jobs and API responses (\<open>src/data_pipeline/models.py\<close>, \<open>src/stocks_models.py\<close>)\<close>

datatype DataSourceType =
  MARKET_TICKERS | STOCK_QUOTES | STOCK_HISTORY | MARKET_SCREENERS | STOCK_NEWS | STOCK_MODULES

datatype PipelineStatus = PENDING | RUNNING | COMPLETED | FAILED | CANCELLED

text \<open>
  \<open>PipelineJob\<close>, without its identifier, parameters and time stamps.  \<open>created_at\<close> is
  the clock value at construction; \<open>error_message\<close> holds the exception that was caught.
\<close>

record PipelineJob =
  job_type :: string
  data_source :: DataSourceType
  status :: PipelineStatus
  created_at :: real
  total_items :: "int option"
  processed_items :: int
  failed_items :: int
  error_message :: "py_error option"

text \<open>
  \<open>APIResponse\<close>: the client wrapper \<open>_make_api_call\<close> catches every exception and
  returns a response with \<open>success=False\<close>, so a sub-call never raises.
\<close>

record APIResponse =
  success :: bool
  data :: pyval
  error :: "string option"

text \<open>
  \<open>StockHistory\<close>, \<open>MarketScreener\<close> and \<open>StockNews\<close> of
  \<open>src/data_pipeline/models.py\<close>, without the fields of the base model; their fields
  carry the prefixes \<open>h_\<close>, \<open>s_\<close> and \<open>n_\<close>.  The \<open>date\<close> of a \<open>StockHistory\<close> is
  built by the caller and is given as a number of seconds.
\<close>

record StockHistory =
  h_symbol :: string
  h_date :: real
  h_open :: "real option"
  h_high :: "real option"
  h_low :: "real option"
  h_close :: "real option"
  h_volume :: "int option"
  h_adjusted_close :: "real option"
  h_interval :: string

definition StockHistory_init :: "pylib \<Rightarrow> real \<Rightarrow> pydict \<Rightarrow> StockHistory option" where
  "StockHistory_init L date kwargs =
     do {
       sy \<leftarrow> required val_str kwargs ''symbol'';
       op \<leftarrow> optional (val_float L) kwargs ''open'';
       hi \<leftarrow> optional (val_float L) kwargs ''high'';
       lo \<leftarrow> optional (val_float L) kwargs ''low'';
       cl \<leftarrow> optional (val_float L) kwargs ''close'';
       vo \<leftarrow> optional (val_int L) kwargs ''volume'';
       ac \<leftarrow> optional (val_float L) kwargs ''adjusted_close'';
       iv \<leftarrow> defaulted val_str ''1d'' kwargs ''interval'';
       Some \<lparr>h_symbol = sy, h_date = date, h_open = op, h_high = hi, h_low = lo,
             h_close = cl, h_volume = vo, h_adjusted_close = ac, h_interval = iv\<rparr>
     }"

record MarketScreener =
  s_symbol :: string
  s_name :: "string option"
  s_price :: "real option"
  s_change :: "real option"
  s_change_percent :: "real option"
  s_volume :: "int option"
  s_market_cap :: "real option"
  s_screener_type :: string
  s_rank :: "int option"

definition MarketScreener_init :: "pylib \<Rightarrow> pydict \<Rightarrow> MarketScreener option" where
  "MarketScreener_init L kwargs =
     do {
       sy \<leftarrow> required val_str kwargs ''symbol'';
       na \<leftarrow> optional val_str kwargs ''name'';
       pr \<leftarrow> optional (val_float L) kwargs ''price'';
       ch \<leftarrow> optional (val_float L) kwargs ''change'';
       cp \<leftarrow> optional (val_float L) kwargs ''change_percent'';
       vo \<leftarrow> optional (val_int L) kwargs ''volume'';
       mc \<leftarrow> optional (val_float L) kwargs ''market_cap'';
       st \<leftarrow> required val_str kwargs ''screener_type'';
       ra \<leftarrow> optional (val_int L) kwargs ''rank'';
       Some \<lparr>s_symbol = sy, s_name = na, s_price = pr, s_change = ch, s_change_percent = cp,
             s_volume = vo, s_market_cap = mc, s_screener_type = st, s_rank = ra\<rparr>
     }"

record StockNews =
  n_symbol :: string
  n_title :: string
  n_url :: string
  n_text :: "string option"
  n_source :: "string option"
  n_news_type :: "string option"
  n_image_url :: "string option"

definition StockNews_init :: "pydict \<Rightarrow> StockNews option" where
  "StockNews_init kwargs =
     do {
       sy \<leftarrow> required val_str kwargs ''symbol'';
       ti \<leftarrow> required val_str kwargs ''title'';
       ur \<leftarrow> required val_str kwargs ''url'';
       te \<leftarrow> optional val_str kwargs ''text'';
       so \<leftarrow> optional val_str kwargs ''source'';
       nt \<leftarrow> optional val_str kwargs ''news_type'';
       im \<leftarrow> optional val_str kwargs ''image_url'';
       Some \<lparr>n_symbol = sy, n_title = ti, n_url = ur, n_text = te, n_source = so,
             n_news_type = nt, n_image_url = im\<rparr>
     }"

section \<open>Extractors (\<open>src/data_pipeline/extractors.py\<close>)\<close>

text \<open>
  The environment of a run is an input of the model: \<open>now\<close> is the clock read by
  \<open>create_job\<close>, \<open>responses k\<close> is the \<open>APIResponse\<close> that the \<open>k\<close>-th sub-call of
  the run receives, and \<open>persist\<close> is the outcome of writing the two files (\<open>None\<close> when
  both are written, the exception otherwise).  The pauses between sub-calls have no effect
  on the job and are left out.
\<close>

definition create_job :: "real \<Rightarrow> string \<Rightarrow> DataSourceType \<Rightarrow> PipelineJob" where
  "create_job now jt ds =
     \<lparr>job_type = jt, data_source = ds, status = PENDING, created_at = now, total_items = None,
      processed_items = 0, failed_items = 0, error_message = None\<rparr>"

text \<open>
  The end of every \<open>extract\<close>: an exception raised in the loop is caught, the job becomes
  \<open>FAILED\<close>; otherwise \<open>total_items\<close> is set to the number of collected records, the
  files are written, and the job becomes \<open>COMPLETED\<close>, or \<open>FAILED\<close> when a write raises.
\<close>

definition finish_job ::
  "py_error option \<Rightarrow> (py_error \<times> PipelineJob) + (PipelineJob \<times> 'r list) \<Rightarrow> PipelineJob" where
  "finish_job persist outcome =
     (case outcome of
        Inl (e, job) \<Rightarrow> job\<lparr>status := FAILED, error_message := Some e\<rparr>
      | Inr (job, records) \<Rightarrow>
          (let job1 = job\<lparr>total_items := Some (int (length records))\<rparr>
           in case persist of
                Some e \<Rightarrow> job1\<lparr>status := FAILED, error_message := Some e\<rparr>
              | None \<Rightarrow> job1\<lparr>status := COMPLETED\<rparr>))"

subsection \<open>\<open>MarketTickersExtractor\<close>\<close>

fun tickers_loop ::
  "pylib \<Rightarrow> (nat \<Rightarrow> APIResponse) \<Rightarrow> nat \<Rightarrow> (int \<times> string) list \<Rightarrow> PipelineJob \<Rightarrow> Stock list
   \<Rightarrow> (py_error \<times> PipelineJob) + (PipelineJob \<times> Stock list)" where
  "tickers_loop L responses k [] job all_stocks = Inr (job, all_stocks)"
| "tickers_loop L responses k (page_type # rest) job all_stocks =
     (let response = responses k
      in if success response then
           (case parse_tickers_response L (data response) of
              Inl e \<Rightarrow> Inl (e, job)
            | Inr stocks \<Rightarrow>
                tickers_loop L responses (Suc k) rest
                  (job\<lparr>processed_items := processed_items job + int (length stocks)\<rparr>)
                  (all_stocks @ stocks))
         else tickers_loop L responses (Suc k) rest
                (job\<lparr>failed_items := failed_items job + 1\<rparr>) all_stocks)"

text \<open>
  The nested loops \<open>for page in range(1, pages + 1)\<close>, \<open>for ticker_type in types\<close>
  make one sub-call for each pair, in this order.
\<close>

definition tickers_sub_calls :: "int \<Rightarrow> string list \<Rightarrow> (int \<times> string) list" where
  "tickers_sub_calls pages types =
     concat (map (\<lambda>page. map (\<lambda>ticker_type. (page, ticker_type)) types) [1..pages])"

definition MarketTickersExtractor_extract ::
  "pylib \<Rightarrow> real \<Rightarrow> (nat \<Rightarrow> APIResponse) \<Rightarrow> py_error option \<Rightarrow> int \<Rightarrow> string list
   \<Rightarrow> PipelineJob" where
  "MarketTickersExtractor_extract L now responses persist pages types =
     (let job = create_job now ''extract'' MARKET_TICKERS;
          job = job\<lparr>status := RUNNING\<rparr>;
          sub_calls = tickers_sub_calls pages types
      in finish_job persist (tickers_loop L responses 0 sub_calls job []))"

subsection \<open>\<open>StockQuotesExtractor\<close>\<close>

text \<open>
  The slices \<open>symbols[i:i + batch_size]\<close> for \<open>i\<close> in \<open>range(0, len(symbols), batch_size)\<close>:
  \<open>range\<close> raises \<open>ValueError\<close> for a step of 0 and is empty for a negative step.
\<close>

function batches_of :: "nat \<Rightarrow> 'a list \<Rightarrow> 'a list list" where
  "batches_of n xs = (if n = 0 \<or> xs = [] then [] else take n xs # batches_of n (drop n xs))"
  by pat_completeness auto
termination
  by (relation "measure (\<lambda>(n, xs). length xs)") auto

definition symbol_batches :: "int \<Rightarrow> string list \<Rightarrow> py_error + string list list" where
  "symbol_batches batch_size symbols =
     (if batch_size = 0 then Inl ValueError
      else if batch_size < 0 then Inr []
      else Inr (batches_of (nat batch_size) symbols))"

fun quotes_loop ::
  "pylib \<Rightarrow> (nat \<Rightarrow> APIResponse) \<Rightarrow> nat \<Rightarrow> string list list \<Rightarrow> PipelineJob \<Rightarrow> StockQuote list
   \<Rightarrow> (py_error \<times> PipelineJob) + (PipelineJob \<times> StockQuote list)" where
  "quotes_loop L responses k [] job all_quotes = Inr (job, all_quotes)"
| "quotes_loop L responses k (batch_symbols # rest) job all_quotes =
     (let response = responses k
      in if success response then
           (case parse_quotes_response L (data response) of
              Inl e \<Rightarrow> Inl (e, job)
            | Inr quotes \<Rightarrow>
                quotes_loop L responses (Suc k) rest
                  (job\<lparr>processed_items := processed_items job + int (length quotes)\<rparr>)
                  (all_quotes @ quotes))
         else quotes_loop L responses (Suc k) rest
                (job\<lparr>failed_items := failed_items job + int (length batch_symbols)\<rparr>)
                all_quotes)"

definition StockQuotesExtractor_extract ::
  "pylib \<Rightarrow> real \<Rightarrow> (nat \<Rightarrow> APIResponse) \<Rightarrow> py_error option \<Rightarrow> int \<Rightarrow> string list
   \<Rightarrow> PipelineJob" where
  "StockQuotesExtractor_extract L now responses persist batch_size symbols =
     (let job = create_job now ''extract'' STOCK_QUOTES;
          job = job\<lparr>status := RUNNING\<rparr>
      in finish_job persist
           (case symbol_batches batch_size symbols of
              Inl e \<Rightarrow> Inl (e, job)
            | Inr batches \<Rightarrow> quotes_loop L responses 0 batches job []))"

subsection \<open>The body of a response\<close>

text \<open>
  The history, screener and news extractors read \<open>response.data.get("body", [])\<close> and
  loop over it.  A \<open>for\<close> statement iterates the elements of a list, the keys of a
  dictionary or the characters of a string, and raises \<open>TypeError\<close> on any other value;
  \<open>len\<close> of the three is the number of iterated items.  \<open>record[key]\<close> raises
  \<open>KeyError\<close> when the dictionary has no such key and \<open>TypeError\<close> when the record is
  not a dictionary (a string and a list take integer indices only).
\<close>

definition py_iter :: "pyval \<Rightarrow> py_error + pyval list" where
  "py_iter v =
     (case v of
        PList xs \<Rightarrow> Inr xs
      | PDict d \<Rightarrow> Inr (map (\<lambda>kv. PStr (fst kv)) d)
      | PStr s \<Rightarrow> Inr (map (\<lambda>c. PStr [c]) s)
      | _ \<Rightarrow> Inl TypeError)"

definition subscript :: "pyval \<Rightarrow> string \<Rightarrow> py_error + pyval" where
  "subscript v k =
     (case v of
        PDict d \<Rightarrow> (case map_of d k of None \<Rightarrow> Inl KeyError | Some x \<Rightarrow> Inr x)
      | _ \<Rightarrow> Inl TypeError)"

subsection \<open>\<open>StockHistoryExtractor\<close>\<close>

text \<open>
  The inner loop: the arguments of \<open>StockHistory(...)\<close> are evaluated from left to right,
  \<open>record["timestamp_unix"]\<close> and \<open>datetime.fromtimestamp\<close> first.  No exception is
  caught here.  The result of a response is the list of records and \<open>len(history_data)\<close>.
\<close>

fun history_of_records ::
  "pylib \<Rightarrow> string \<Rightarrow> string \<Rightarrow> pyval list \<Rightarrow> py_error + StockHistory list" where
  "history_of_records L symb interval [] = Inr []"
| "history_of_records L symb interval (record # rest) =
     (case subscript record ''timestamp_unix'' of
        Inl e \<Rightarrow> Inl e
      | Inr timestamp_unix \<Rightarrow>
          (case fromtimestamp L timestamp_unix of
             Inl e \<Rightarrow> Inl e
           | Inr date \<Rightarrow>
               (case record of
                  PDict r \<Rightarrow>
                    (case StockHistory_init L date
                            [(''symbol'', PStr symb),
                             (''open'', dict_get r ''open''),
                             (''high'', dict_get r ''high''),
                             (''low'', dict_get r ''low''),
                             (''close'', dict_get r ''close''),
                             (''volume'', dict_get r ''volume''),
                             (''interval'', PStr interval)] of
                       None \<Rightarrow> Inl ValidationError
                     | Some history \<Rightarrow>
                         (case history_of_records L symb interval rest of
                            Inl e \<Rightarrow> Inl e
                          | Inr others \<Rightarrow> Inr (history # others)))
                | _ \<Rightarrow> Inl AttributeError)))"

definition history_of_response ::
  "pylib \<Rightarrow> string \<Rightarrow> string \<Rightarrow> pyval \<Rightarrow> py_error + (StockHistory list \<times> int)" where
  "history_of_response L symb interval response_data =
     (case response_data of
        PDict d \<Rightarrow>
          (case py_iter (dict_get_default d ''body'' (PList [])) of
             Inl e \<Rightarrow> Inl e
           | Inr history_data \<Rightarrow>
               (case history_of_records L symb interval history_data of
                  Inl e \<Rightarrow> Inl e
                | Inr history \<Rightarrow> Inr (history, int (length history_data))))
      | _ \<Rightarrow> Inl AttributeError)"

fun history_loop ::
  "pylib \<Rightarrow> (nat \<Rightarrow> APIResponse) \<Rightarrow> nat \<Rightarrow> (string \<times> string) list \<Rightarrow> PipelineJob
   \<Rightarrow> StockHistory list \<Rightarrow> (py_error \<times> PipelineJob) + (PipelineJob \<times> StockHistory list)" where
  "history_loop L responses k [] job all_history = Inr (job, all_history)"
| "history_loop L responses k (symbol_interval # rest) job all_history =
     (let response = responses k
      in if success response then
           (case history_of_response L (fst symbol_interval) (snd symbol_interval)
                   (data response) of
              Inl e \<Rightarrow> Inl (e, job)
            | Inr (history, n) \<Rightarrow>
                history_loop L responses (Suc k) rest
                  (job\<lparr>processed_items := processed_items job + n\<rparr>) (all_history @ history))
         else history_loop L responses (Suc k) rest
                (job\<lparr>failed_items := failed_items job + 1\<rparr>) all_history)"

text \<open>
  The nested loops \<open>for symbol in symbols\<close>, \<open>for interval in intervals\<close> make one
  sub-call for each pair, in this order.
\<close>

definition history_sub_calls :: "string list \<Rightarrow> string list \<Rightarrow> (string \<times> string) list" where
  "history_sub_calls symbols intervals =
     concat (map (\<lambda>symb. map (\<lambda>interval. (symb, interval)) intervals) symbols)"

definition StockHistoryExtractor_extract ::
  "pylib \<Rightarrow> real \<Rightarrow> (nat \<Rightarrow> APIResponse) \<Rightarrow> py_error option \<Rightarrow> string list \<Rightarrow> string list
   \<Rightarrow> PipelineJob" where
  "StockHistoryExtractor_extract L now responses persist symbols intervals =
     (let job = create_job now ''extract'' STOCK_HISTORY;
          job = job\<lparr>status := RUNNING\<rparr>;
          sub_calls = history_sub_calls symbols intervals
      in finish_job persist (history_loop L responses 0 sub_calls job []))"

subsection \<open>\<open>MarketScreenerExtractor\<close>\<close>

text \<open>
  The inner loop over \<open>enumerate(screener_data)\<close>; \<open>record.get\<close> raises
  \<open>AttributeError\<close> when the record is not a dictionary.
\<close>

fun screeners_of_records ::
  "pylib \<Rightarrow> string \<Rightarrow> int \<Rightarrow> pyval list \<Rightarrow> py_error + MarketScreener list" where
  "screeners_of_records L screener_type i [] = Inr []"
| "screeners_of_records L screener_type i (record # rest) =
     (case record of
        PDict r \<Rightarrow>
          (case MarketScreener_init L
                  [(''symbol'', dict_get r ''symbol''),
                   (''name'', py_or (dict_get r ''longName'') (dict_get r ''shortName'')),
                   (''price'', dict_get r ''regularMarketPrice''),
                   (''change'', dict_get r ''regularMarketChange''),
                   (''change_percent'', dict_get r ''regularMarketChangePercent''),
                   (''volume'', dict_get r ''regularMarketVolume''),
                   (''market_cap'', dict_get r ''marketCap''),
                   (''screener_type'', PStr screener_type),
                   (''rank'', PInt (i + 1))] of
             None \<Rightarrow> Inl ValidationError
           | Some screener \<Rightarrow>
               (case screeners_of_records L screener_type (i + 1) rest of
                  Inl e \<Rightarrow> Inl e
                | Inr others \<Rightarrow> Inr (screener # others)))
      | _ \<Rightarrow> Inl AttributeError)"

definition screeners_of_response ::
  "pylib \<Rightarrow> string \<Rightarrow> pyval \<Rightarrow> py_error + (MarketScreener list \<times> int)" where
  "screeners_of_response L screener_type response_data =
     (case response_data of
        PDict d \<Rightarrow>
          (case py_iter (dict_get_default d ''body'' (PList [])) of
             Inl e \<Rightarrow> Inl e
           | Inr screener_data \<Rightarrow>
               (case screeners_of_records L screener_type 0 screener_data of
                  Inl e \<Rightarrow> Inl e
                | Inr screeners \<Rightarrow> Inr (screeners, int (length screener_data))))
      | _ \<Rightarrow> Inl AttributeError)"

fun screener_loop ::
  "pylib \<Rightarrow> (nat \<Rightarrow> APIResponse) \<Rightarrow> nat \<Rightarrow> string list \<Rightarrow> PipelineJob \<Rightarrow> MarketScreener list
   \<Rightarrow> (py_error \<times> PipelineJob) + (PipelineJob \<times> MarketScreener list)" where
  "screener_loop L responses k [] job all_screeners = Inr (job, all_screeners)"
| "screener_loop L responses k (screener_type # rest) job all_screeners =
     (let response = responses k
      in if success response then
           (case screeners_of_response L screener_type (data response) of
              Inl e \<Rightarrow> Inl (e, job)
            | Inr (screeners, n) \<Rightarrow>
                screener_loop L responses (Suc k) rest
                  (job\<lparr>processed_items := processed_items job + n\<rparr>)
                  (all_screeners @ screeners))
         else screener_loop L responses (Suc k) rest
                (job\<lparr>failed_items := failed_items job + 1\<rparr>) all_screeners)"

definition MarketScreenerExtractor_extract ::
  "pylib \<Rightarrow> real \<Rightarrow> (nat \<Rightarrow> APIResponse) \<Rightarrow> py_error option \<Rightarrow> string list \<Rightarrow> PipelineJob" where
  "MarketScreenerExtractor_extract L now responses persist screener_lists =
     (let job = create_job now ''extract'' MARKET_SCREENERS;
          job = job\<lparr>status := RUNNING\<rparr>
      in finish_job persist (screener_loop L responses 0 screener_lists job []))"

subsection \<open>\<open>StockNewsExtractor\<close>\<close>

text \<open>
  The inner loop; \<open>record.get\<close> raises \<open>AttributeError\<close> when the record is not a
  dictionary, and \<open>ValidationError\<close> is not caught here.  The result of a response is
  the list of records and \<open>len(news_data)\<close>.
\<close>

fun news_of_records :: "string \<Rightarrow> pyval list \<Rightarrow> py_error + StockNews list" where
  "news_of_records symb [] = Inr []"
| "news_of_records symb (record # rest) =
     (case record of
        PDict r \<Rightarrow>
          (case StockNews_init
                  [(''symbol'', PStr symb),
                   (''title'', dict_get r ''title''),
                   (''url'', dict_get r ''url''),
                   (''text'', dict_get r ''text''),
                   (''source'', dict_get r ''source''),
                   (''news_type'', dict_get r ''type''),
                   (''image_url'', dict_get r ''img'')] of
             None \<Rightarrow> Inl ValidationError
           | Some news \<Rightarrow>
               (case news_of_records symb rest of
                  Inl e \<Rightarrow> Inl e
                | Inr others \<Rightarrow> Inr (news # others)))
      | _ \<Rightarrow> Inl AttributeError)"

definition news_of_response :: "string \<Rightarrow> pyval \<Rightarrow> py_error + (StockNews list \<times> int)" where
  "news_of_response symb response_data =
     (case response_data of
        PDict d \<Rightarrow>
          (case py_iter (dict_get_default d ''body'' (PList [])) of
             Inl e \<Rightarrow> Inl e
           | Inr news_data \<Rightarrow>
               (case news_of_records symb news_data of
                  Inl e \<Rightarrow> Inl e
                | Inr news \<Rightarrow> Inr (news, int (length news_data))))
      | _ \<Rightarrow> Inl AttributeError)"

fun news_loop ::
  "(nat \<Rightarrow> APIResponse) \<Rightarrow> nat \<Rightarrow> string list \<Rightarrow> PipelineJob \<Rightarrow> StockNews list
   \<Rightarrow> (py_error \<times> PipelineJob) + (PipelineJob \<times> StockNews list)" where
  "news_loop responses k [] job all_news = Inr (job, all_news)"
| "news_loop responses k (symb # rest) job all_news =
     (let response = responses k
      in if success response then
           (case news_of_response symb (data response) of
              Inl e \<Rightarrow> Inl (e, job)
            | Inr (news, n) \<Rightarrow>
                news_loop responses (Suc k) rest
                  (job\<lparr>processed_items := processed_items job + n\<rparr>) (all_news @ news))
         else news_loop responses (Suc k) rest
                (job\<lparr>failed_items := failed_items job + 1\<rparr>) all_news)"

definition StockNewsExtractor_extract ::
  "real \<Rightarrow> (nat \<Rightarrow> APIResponse) \<Rightarrow> py_error option \<Rightarrow> string list \<Rightarrow> PipelineJob" where
  "StockNewsExtractor_extract now responses persist symbols =
     (let job = create_job now ''extract'' STOCK_NEWS;
          job = job\<lparr>status := RUNNING\<rparr>
      in finish_job persist (news_loop responses 0 symbols job []))"

text \<open>
  Notions used to state the properties of a run: the sub-calls of a run raise nothing
  (every successful response is parsed without an exception), the number of symbols of the
  batches whose call was unsuccessful, and a successful response that yields exactly one
  record.
\<close>

fun news_calls_ok :: "(nat \<Rightarrow> APIResponse) \<Rightarrow> nat \<Rightarrow> string list \<Rightarrow> bool" where
  "news_calls_ok responses k [] = True"
| "news_calls_ok responses k (symb # rest) =
     ((\<not> success (responses k) \<or> no_raise (news_of_response symb (data (responses k))))
      \<and> news_calls_ok responses (Suc k) rest)"

fun quotes_calls_ok :: "pylib \<Rightarrow> (nat \<Rightarrow> APIResponse) \<Rightarrow> nat \<Rightarrow> string list list \<Rightarrow> bool" where
  "quotes_calls_ok L responses k [] = True"
| "quotes_calls_ok L responses k (batch_symbols # rest) =
     ((\<not> success (responses k) \<or> no_raise (parse_quotes_response L (data (responses k))))
      \<and> quotes_calls_ok L responses (Suc k) rest)"

fun tickers_calls_ok ::
  "pylib \<Rightarrow> (nat \<Rightarrow> APIResponse) \<Rightarrow> nat \<Rightarrow> (int \<times> string) list \<Rightarrow> bool" where
  "tickers_calls_ok L responses k [] = True"
| "tickers_calls_ok L responses k (page_type # rest) =
     ((\<not> success (responses k) \<or> no_raise (parse_tickers_response L (data (responses k))))
      \<and> tickers_calls_ok L responses (Suc k) rest)"

fun history_calls_ok ::
  "pylib \<Rightarrow> (nat \<Rightarrow> APIResponse) \<Rightarrow> nat \<Rightarrow> (string \<times> string) list \<Rightarrow> bool" where
  "history_calls_ok L responses k [] = True"
| "history_calls_ok L responses k (symbol_interval # rest) =
     ((\<not> success (responses k)
       \<or> no_raise (history_of_response L (fst symbol_interval) (snd symbol_interval)
            (data (responses k))))
      \<and> history_calls_ok L responses (Suc k) rest)"

fun screener_calls_ok ::
  "pylib \<Rightarrow> (nat \<Rightarrow> APIResponse) \<Rightarrow> nat \<Rightarrow> string list \<Rightarrow> bool" where
  "screener_calls_ok L responses k [] = True"
| "screener_calls_ok L responses k (screener_type # rest) =
     ((\<not> success (responses k)
       \<or> no_raise (screeners_of_response L screener_type (data (responses k))))
      \<and> screener_calls_ok L responses (Suc k) rest)"

definition unsuccessful :: "(nat \<Rightarrow> APIResponse) \<Rightarrow> nat \<Rightarrow> nat \<Rightarrow> nat list" where
  "unsuccessful responses k n = filter (\<lambda>i. \<not> success (responses i)) [k..<k + n]"

fun failed_symbols :: "(nat \<Rightarrow> APIResponse) \<Rightarrow> nat \<Rightarrow> string list list \<Rightarrow> int" where
  "failed_symbols responses k [] = 0"
| "failed_symbols responses k (batch_symbols # rest) =
     (if success (responses k) then 0 else int (length batch_symbols))
     + failed_symbols responses (Suc k) rest"

fun news_processed :: "(nat \<Rightarrow> APIResponse) \<Rightarrow> nat \<Rightarrow> string list \<Rightarrow> int" where
  "news_processed responses k [] = 0"
| "news_processed responses k (symb # rest) =
     (if success (responses k)
      then (case news_of_response symb (data (responses k)) of
              Inl e \<Rightarrow> 0 | Inr (news, n) \<Rightarrow> int (length news))
      else 0)
     + news_processed responses (Suc k) rest"

fun quotes_processed :: "pylib \<Rightarrow> (nat \<Rightarrow> APIResponse) \<Rightarrow> nat \<Rightarrow> string list list \<Rightarrow> int" where
  "quotes_processed L responses k [] = 0"
| "quotes_processed L responses k (batch_symbols # rest) =
     (if success (responses k)
      then (case parse_quotes_response L (data (responses k)) of
              Inl e \<Rightarrow> 0 | Inr quotes \<Rightarrow> int (length quotes))
      else 0)
     + quotes_processed L responses (Suc k) rest"

fun tickers_processed ::
  "pylib \<Rightarrow> (nat \<Rightarrow> APIResponse) \<Rightarrow> nat \<Rightarrow> (int \<times> string) list \<Rightarrow> int" where
  "tickers_processed L responses k [] = 0"
| "tickers_processed L responses k (page_type # rest) =
     (if success (responses k)
      then (case parse_tickers_response L (data (responses k)) of
              Inl e \<Rightarrow> 0 | Inr stocks \<Rightarrow> int (length stocks))
      else 0)
     + tickers_processed L responses (Suc k) rest"

fun history_processed ::
  "pylib \<Rightarrow> (nat \<Rightarrow> APIResponse) \<Rightarrow> nat \<Rightarrow> (string \<times> string) list \<Rightarrow> int" where
  "history_processed L responses k [] = 0"
| "history_processed L responses k (symbol_interval # rest) =
     (if success (responses k)
      then (case history_of_response L (fst symbol_interval) (snd symbol_interval)
                   (data (responses k)) of
              Inl e \<Rightarrow> 0 | Inr (history, n) \<Rightarrow> int (length history))
      else 0)
     + history_processed L responses (Suc k) rest"

fun screener_processed ::
  "pylib \<Rightarrow> (nat \<Rightarrow> APIResponse) \<Rightarrow> nat \<Rightarrow> string list \<Rightarrow> int" where
  "screener_processed L responses k [] = 0"
| "screener_processed L responses k (screener_type # rest) =
     (if success (responses k)
      then (case screeners_of_response L screener_type (data (responses k)) of
              Inl e \<Rightarrow> 0 | Inr (screeners, n) \<Rightarrow> int (length screeners))
      else 0)
     + screener_processed L responses (Suc k) rest"

definition one_news :: "string \<Rightarrow> APIResponse \<Rightarrow> bool" where
  "one_news symb response =
     (case news_of_response symb (data response) of
        Inl e \<Rightarrow> False
      | Inr (news, n) \<Rightarrow> length news = 1 \<and> n = 1)"

definition one_history :: "pylib \<Rightarrow> string \<Rightarrow> string \<Rightarrow> APIResponse \<Rightarrow> bool" where
  "one_history L symb interval response =
     (case history_of_response L symb interval (data response) of
        Inl e \<Rightarrow> False
      | Inr (history, n) \<Rightarrow> length history = 1 \<and> n = 1)"

definition one_quote :: "pylib \<Rightarrow> APIResponse \<Rightarrow> bool" where
  "one_quote L response =
     (case parse_quotes_response L (data response) of
        Inl e \<Rightarrow> False
      | Inr quotes \<Rightarrow> length quotes = 1)"

text \<open>Sample responses for the concrete runs of the extractors.\<close>

definition failed_response :: APIResponse where
  "failed_response = \<lparr>success = False, data = PNone, error = Some ''HTTP 500''\<rparr>"

definition news_response :: "nat \<Rightarrow> APIResponse" where
  "news_response n =
     \<lparr>success = True,
      data = PDict [(''body'',
        PList (replicate n (PDict [(''title'', PStr ''Headline''), (''url'', PStr ''http://x'')])))],
      error = None\<rparr>"

definition quote_response :: "string \<Rightarrow> APIResponse" where
  "quote_response symb =
     \<lparr>success = True,
      data = PDict [(''body'', PList [PDict [(''symbol'', PStr symb)]])],
      error = None\<rparr>"

definition history_response :: APIResponse where
  "history_response =
     \<lparr>success = True,
      data = PDict [(''body'',
        PList [PDict [(''timestamp_unix'', PInt 86400), (''close'', PInt 10)]])],
      error = None\<rparr>"

definition mixed_news_responses :: "nat \<Rightarrow> APIResponse" where
  "mixed_news_responses k =
     (if k = 0 then news_response 2 else if k = 1 then failed_response else news_response 1)"

definition one_each_news_responses :: "nat \<Rightarrow> APIResponse" where
  "one_each_news_responses k = (if k = 1 then failed_response else news_response 1)"

definition one_each_quote_responses :: "nat \<Rightarrow> APIResponse" where
  "one_each_quote_responses k = (if k = 1 then failed_response else quote_response ''MSFT'')"

definition one_each_history_responses :: "nat \<Rightarrow> APIResponse" where
  "one_each_history_responses k = (if k = 1 then failed_response else history_response)"

definition three_symbols :: "string list" where
  "three_symbols = [''AAPL'', ''MSFT'', ''GOOGL'']"

section \<open>Completeness check (\<open>src/data_pipeline/transformers.py\<close>, \<open>DataValidator\<close>)\<close>

datatype DataQualityStatus = VALID | WARNING | ERROR | UNKNOWN

text \<open>
  \<open>DataQualityCheck\<close>, without its identifier (built from the clock).  The message is
  kept as the text pattern and the number formatted into it.  The entries of \<open>details\<close>
  are fields of the record; the check on an empty batch stores \<open>record_count\<close> only.
  The percentage is computed in exact arithmetic.
\<close>

datatype message_text = NoDataFound | MissingPercentage real | OtherMessage string

record DataQualityCheck =
  check_data_source :: string
  check_type :: string
  check_status :: DataQualityStatus
  check_message :: message_text
  record_count :: int
  missing_fields :: "string list option"
  missing_percentage :: "real option"

definition get_required_fields :: "string \<Rightarrow> string list" where
  "get_required_fields data_type =
     (if data_type = ''market_tickers'' then [''symbol'', ''name'']
      else if data_type = ''stock_quotes'' then [''symbol'', ''price'']
      else if data_type = ''stock_history'' then [''symbol'', ''date'', ''close'']
      else if data_type = ''market_screeners'' then [''symbol'', ''screener_type'']
      else if data_type = ''stock_news'' then [''symbol'', ''title'', ''url'']
      else [''symbol''])"

text \<open>The test \<open>field not in record or record[field] is None\<close>.\<close>

definition lacks :: "pydict \<Rightarrow> string \<Rightarrow> bool" where
  "lacks record field = (map_of record field = None \<or> map_of record field = Some PNone)"

definition check_completeness :: "pydict list \<Rightarrow> string \<Rightarrow> DataQualityCheck" where
  "check_completeness records data_type =
     (if records = [] then
        \<lparr>check_data_source = data_type, check_type = ''completeness'', check_status = ERROR,
         check_message = NoDataFound, record_count = 0, missing_fields = None,
         missing_percentage = None\<rparr>
      else
        (let required_fields = get_required_fields data_type;
             missing = concat (map (\<lambda>record. filter (lacks record) required_fields) records);
             percentage = real (length missing)
                            / real (length records * length required_fields) * 100;
             st = (if percentage > 20 then ERROR
                   else if percentage > 10 then WARNING
                   else VALID)
         in \<lparr>check_data_source = data_type, check_type = ''completeness'', check_status = st,
             check_message = MissingPercentage percentage,
             record_count = int (length records), missing_fields = Some missing,
             missing_percentage = Some percentage\<rparr>))"

text \<open>
  Notions used to state the thresholds: the number of (record, required field) pairs where
  the field is missing, the records that lack every required field, and the records that
  lack none.
\<close>

definition missing_entries :: "pydict list \<Rightarrow> string list \<Rightarrow> nat" where
  "missing_entries records req_fields = sum_list (map (\<lambda>record. length (filter (lacks record) req_fields)) records)"

definition lacks_all :: "string list \<Rightarrow> pydict \<Rightarrow> bool" where
  "lacks_all req_fields record = list_all (lacks record) req_fields"

definition lacks_none :: "string list \<Rightarrow> pydict \<Rightarrow> bool" where
  "lacks_none req_fields record = list_all (\<lambda>field. \<not> lacks record field) req_fields"

definition all_or_none :: "string list \<Rightarrow> pydict list \<Rightarrow> bool" where
  "all_or_none req_fields records =
     list_all (\<lambda>record. lacks_all req_fields record \<or> lacks_none req_fields record) records"

text \<open>Sample batches of quote records: complete ones, and ones without a price or without both fields.\<close>

definition full_quote :: pydict where
  "full_quote = [(''symbol'', PStr ''AAPL''), (''price'', PFloat 150)]"

definition quote_without_price :: pydict where
  "quote_without_price = [(''symbol'', PStr ''MSFT''), (''price'', PNone)]"

definition empty_quote :: pydict where
  "empty_quote = [(''currency'', PStr ''USD'')]"

section \<open>Cleaning (\<open>src/data_pipeline/transformers.py\<close>, \<open>DataCleaner\<close>)\<close>

text \<open>
  \<open>_parse_numeric\<close>: a number is converted with \<open>float\<close> (\<open>bool\<close> is a subclass of
  \<open>int\<close>; \<open>OverflowError\<close> is not among the exceptions caught here), a string is
  converted after the characters \<open>,\<close> \<open>$\<close> \<open>%\<close> and the surrounding white space
  are removed, with \<open>None\<close> when \<open>float\<close> rejects it; any other value gives \<open>None\<close>.
\<close>

definition parse_numeric :: "pylib \<Rightarrow> pyval \<Rightarrow> py_error + pyval" where
  "parse_numeric L v =
     (case v of
        PNone \<Rightarrow> Inr PNone
      | PBool b \<Rightarrow> Inr (PFloat (if b then 1 else 0))
      | PInt i \<Rightarrow> (case float_of_int L i of None \<Rightarrow> Inl OverflowError | Some x \<Rightarrow> Inr (PFloat x))
      | PFloat x \<Rightarrow> Inr (PFloat x)
      | PStr s \<Rightarrow>
          (case float_of_str L
                  (py_strip (remove_char (CHR ''%'') (remove_char (CHR ''$'') (remove_char (CHR '','') s)))) of
             None \<Rightarrow> Inr PNone
           | Some x \<Rightarrow> Inr (PFloat x))
      | _ \<Rightarrow> Inr PNone)"

text \<open>\<open>_parse_market_cap\<close>, called on strings only.\<close>

definition parse_market_cap :: "pylib \<Rightarrow> string \<Rightarrow> pyval" where
  "parse_market_cap L market_cap_str =
     (case float_of_str L (remove_char (CHR '','') market_cap_str) of
        None \<Rightarrow> PNone
      | Some x \<Rightarrow> PFloat x)"

definition numeric_fields :: "string list" where
  "numeric_fields = [''price'', ''previous_close'', ''open'', ''high'', ''low'', ''volume'',
     ''market_cap'', ''pe_ratio'', ''dividend_yield'', ''change'', ''change_percent'']"

text \<open>The loop \<open>for field in numeric_fields: if field in cleaned: ...\<close>.\<close>

fun clean_numeric_fields :: "pylib \<Rightarrow> string list \<Rightarrow> pydict \<Rightarrow> py_error + pydict" where
  "clean_numeric_fields L [] cleaned = Inr cleaned"
| "clean_numeric_fields L (field # rest) cleaned =
     (case map_of cleaned field of
        None \<Rightarrow> clean_numeric_fields L rest cleaned
      | Some v \<Rightarrow>
          (case parse_numeric L v of
             Inl e \<Rightarrow> Inl e
           | Inr parsed \<Rightarrow> clean_numeric_fields L rest (dict_set cleaned field parsed)))"

text \<open>
  \<open>_clean_quote_record\<close> and \<open>_clean_stock_record\<close>, with one function for each
  step on the dictionary \<open>cleaned\<close>: the symbol, the name, the market cap (parsed when
  it is a string) and the currency.  The result \<open>None\<close> is the \<open>return None\<close> of the
  \<open>except\<close> clause.
\<close>

definition clean_symbol :: "pylib \<Rightarrow> pydict \<Rightarrow> pydict" where
  "clean_symbol L cleaned =
     (case map_of cleaned ''symbol'' of
        None \<Rightarrow> cleaned
      | Some v \<Rightarrow> dict_set cleaned ''symbol'' (PStr (py_upper (py_strip (py_str L v)))))"

definition clean_currency :: "pydict \<Rightarrow> pydict" where
  "clean_currency cleaned =
     (case map_of cleaned ''currency'' of
        None \<Rightarrow> dict_set cleaned ''currency'' (PStr ''USD'')
      | Some v \<Rightarrow> cleaned)"

definition clean_quote_record :: "pylib \<Rightarrow> pydict \<Rightarrow> pydict option" where
  "clean_quote_record L quote =
     (let cleaned = drop_none quote;
          cleaned = clean_symbol L cleaned
      in case clean_numeric_fields L numeric_fields cleaned of
           Inl e \<Rightarrow> None
         | Inr cleaned \<Rightarrow> Some (clean_currency cleaned))"

definition clean_name :: "pylib \<Rightarrow> pydict \<Rightarrow> pydict" where
  "clean_name L cleaned =
     (case map_of cleaned ''name'' of
        None \<Rightarrow> cleaned
      | Some v \<Rightarrow> dict_set cleaned ''name'' (PStr (py_strip (py_str L v))))"

definition clean_market_cap :: "pylib \<Rightarrow> pydict \<Rightarrow> pydict" where
  "clean_market_cap L cleaned =
     (case map_of cleaned ''market_cap'' of
        Some (PStr s) \<Rightarrow> dict_set cleaned ''market_cap'' (parse_market_cap L s)
      | _ \<Rightarrow> cleaned)"

definition clean_stock_record :: "pylib \<Rightarrow> pydict \<Rightarrow> pydict option" where
  "clean_stock_record L stock =
     (let cleaned = drop_none stock;
          cleaned = clean_symbol L cleaned;
          cleaned = clean_name L cleaned;
          cleaned = clean_market_cap L cleaned
      in Some (clean_currency cleaned))"

text \<open>
  \<open>clean_quote_data\<close> and \<open>clean_stock_data\<close> keep the cleaned records that are
  truthy, that is, neither \<open>None\<close> nor an empty dictionary.
\<close>

fun clean_quote_data :: "pylib \<Rightarrow> pydict list \<Rightarrow> pydict list" where
  "clean_quote_data L [] = []"
| "clean_quote_data L (quote # rest) =
     (case clean_quote_record L quote of
        None \<Rightarrow> clean_quote_data L rest
      | Some cleaned_quote \<Rightarrow>
          if cleaned_quote \<noteq> [] then cleaned_quote # clean_quote_data L rest
          else clean_quote_data L rest)"

fun clean_stock_data :: "pylib \<Rightarrow> pydict list \<Rightarrow> pydict list" where
  "clean_stock_data L [] = []"
| "clean_stock_data L (stock # rest) =
     (case clean_stock_record L stock of
        None \<Rightarrow> clean_stock_data L rest
      | Some cleaned_stock \<Rightarrow>
          if cleaned_stock \<noteq> [] then cleaned_stock # clean_stock_data L rest
          else clean_stock_data L rest)"

text \<open>A batch of records none of which holds \<open>None\<close> under any key.\<close>

definition no_none_values :: "pydict list \<Rightarrow> bool" where
  "no_none_values records = list_all (\<lambda>record. list_all (\<lambda>kv. snd kv \<noteq> PNone) record) records"

section \<open>Job store of the scheduler (\<open>src/data_pipeline/scheduler.py\<close>)\<close>

text \<open>
  The dictionary \<open>self.jobs\<close> is an association list from job identifiers to jobs.  Times
  are seconds since the epoch.  \<open>timedelta(days=days)\<close> raises \<open>OverflowError\<close> beyond
  999999999 days, and so does the subtraction when the result is not a date of the years 1
  to 9999.
\<close>

type_synonym job_store = "(string \<times> PipelineJob) list"

definition timedelta_days :: "int \<Rightarrow> py_error + real" where
  "timedelta_days days =
     (if days < - 999999999 \<or> 999999999 < days then Inl OverflowError
      else Inr (real_of_int days * 86400))"

definition datetime_min :: real where
  "datetime_min = - 62135596800"

definition datetime_max :: real where
  "datetime_max = 253402300800"

definition cutoff_date :: "real \<Rightarrow> int \<Rightarrow> py_error + real" where
  "cutoff_date now days =
     (case timedelta_days days of
        Inl e \<Rightarrow> Inl e
      | Inr delta \<Rightarrow>
          if now - delta < datetime_min \<or> datetime_max \<le> now - delta then Inl OverflowError
          else Inr (now - delta))"

text \<open>
  \<open>cleanup_old_jobs\<close>: the identifiers of the jobs created before the cutoff are
  collected first, then each of them is deleted from the dictionary.
\<close>

definition cleanup_old_jobs :: "real \<Rightarrow> int \<Rightarrow> job_store \<Rightarrow> py_error + job_store" where
  "cleanup_old_jobs now days jobs =
     (case cutoff_date now days of
        Inl e \<Rightarrow> Inl e
      | Inr cutoff \<Rightarrow>
          (let old_jobs = map fst (filter (\<lambda>(job_id, job). created_at job < cutoff) jobs)
           in Inr (fold AList.delete old_jobs jobs)))"

text \<open>Sample jobs: created at time 0, the clock of the examples being ten days later.\<close>

definition old_job :: "PipelineStatus \<Rightarrow> PipelineJob" where
  "old_job st =
     \<lparr>job_type = ''extract'', data_source = STOCK_QUOTES, status = st, created_at = 0,
      total_items = None, processed_items = 0, failed_items = 0, error_message = None\<rparr>"

definition recent_job :: "PipelineStatus \<Rightarrow> PipelineJob" where
  "recent_job st =
     \<lparr>job_type = ''extract'', data_source = STOCK_QUOTES, status = st, created_at = 800000,
      total_items = Some 1, processed_items = 1, failed_items = 0, error_message = None\<rparr>"

section \<open>Alerts of the monitor (\<open>src/data_pipeline/monitoring.py\<close>)\<close>

text \<open>
  \<open>Alert\<close>, without its creation time.  The title is a text; the message is kept as the
  text pattern and the values formatted into it.
\<close>

datatype alert_message = CheckMessage string message_text | AverageScore real

record Alert =
  alert_id :: string
  alert_type :: string
  severity :: string
  title :: string
  message :: alert_message
  alert_data_source :: "string option"
  resolved :: bool

type_synonym alert_store = "(string \<times> Alert) list"

text \<open>
  \<open>_create_alert\<close>: the identifier is the alert type, an underscore and
  \<open>int(datetime.utcnow().timestamp())\<close>; \<open>int\<close> truncates towards zero.  The time
  stamp read by the call is the argument \<open>now\<close>.
\<close>

definition int_of_float :: "real \<Rightarrow> int" where
  "int_of_float x = (if 0 \<le> x then \<lfloor>x\<rfloor> else \<lceil>x\<rceil>)"

definition create_alert ::
  "real \<Rightarrow> string \<Rightarrow> string \<Rightarrow> string \<Rightarrow> alert_message \<Rightarrow> string option \<Rightarrow> Alert" where
  "create_alert now a_type sev ttl msg src =
     \<lparr>alert_id = a_type @ ''_'' @ str_of_int (int_of_float now), alert_type = a_type,
      severity = sev, title = ttl, message = msg, alert_data_source = src, resolved = False\<rparr>"

text \<open>\<open>_calculate_average_quality_score\<close>, and the threshold \<open>data_quality_score\<close>.\<close>

definition status_score :: "DataQualityStatus \<Rightarrow> real" where
  "status_score st =
     (case st of VALID \<Rightarrow> 1 | WARNING \<Rightarrow> 7 / 10 | ERROR \<Rightarrow> 3 / 10 | UNKNOWN \<Rightarrow> 1 / 2)"

definition calculate_average_quality_score :: "pylib \<Rightarrow> DataQualityCheck list \<Rightarrow> real" where
  "calculate_average_quality_score L quality_checks =
     (if quality_checks = [] then 1
      else float_mean L (map (\<lambda>check. status_score (check_status check)) quality_checks))"

definition data_quality_score_threshold :: real where
  "data_quality_score_threshold = 8 / 10"

text \<open>
  \<open>monitor_data_quality\<close>: \<open>clock i\<close> is the time stamp read by the \<open>i\<close>-th call of
  \<open>_create_alert\<close> of the run.  The loop appends one alert for each check that is not
  valid; one more follows when the average score is under the threshold; then every alert
  is stored under its identifier.  The result is the returned list and the new store.
\<close>

fun check_alerts :: "(nat \<Rightarrow> real) \<Rightarrow> nat \<Rightarrow> DataQualityCheck list \<Rightarrow> Alert list" where
  "check_alerts clock i [] = []"
| "check_alerts clock i (check # rest) =
     (if check_status check = ERROR then
        create_alert (clock i) ''error'' ''high''
          (''Data Quality Error: '' @ check_data_source check)
          (CheckMessage (check_type check) (check_message check))
          (Some (check_data_source check))
        # check_alerts clock (Suc i) rest
      else if check_status check = WARNING then
        create_alert (clock i) ''warning'' ''medium''
          (''Data Quality Warning: '' @ check_data_source check)
          (CheckMessage (check_type check) (check_message check))
          (Some (check_data_source check))
        # check_alerts clock (Suc i) rest
      else check_alerts clock i rest)"

definition store_alerts :: "Alert list \<Rightarrow> alert_store \<Rightarrow> alert_store" where
  "store_alerts alerts store = fold (\<lambda>alert st. dict_set_any st (alert_id alert) alert) alerts store"

definition monitor_data_quality ::
  "pylib \<Rightarrow> (nat \<Rightarrow> real) \<Rightarrow> alert_store \<Rightarrow> DataQualityCheck list \<Rightarrow> Alert list \<times> alert_store" where
  "monitor_data_quality L clock store quality_checks =
     (let alerts = check_alerts clock 0 quality_checks;
          avg_quality_score = calculate_average_quality_score L quality_checks;
          alerts =
            (if avg_quality_score < data_quality_score_threshold
             then alerts @ [create_alert (clock (length alerts)) ''warning'' ''medium''
                              ''Low Data Quality Score'' (AverageScore avg_quality_score) None]
             else alerts)
      in (alerts, store_alerts alerts store))"

text \<open>The alerts of a list that carry a given identifier.\<close>

definition with_id :: "string \<Rightarrow> Alert list \<Rightarrow> Alert list" where
  "with_id aid alerts = filter (\<lambda>alert. alert_id alert = aid) alerts"

text \<open>Two failed checks of one batch, for the concrete run.\<close>

definition failed_completeness :: DataQualityCheck where
  "failed_completeness =
     \<lparr>check_data_source = ''stock_quotes'', check_type = ''completeness'', check_status = ERROR,
      check_message = NoDataFound, record_count = 0, missing_fields = None,
      missing_percentage = None\<rparr>"

definition failed_validity :: DataQualityCheck where
  "failed_validity =
     \<lparr>check_data_source = ''stock_quotes'', check_type = ''validity'', check_status = ERROR,
      check_message = OtherMessage ''all records have invalid values'', record_count = 0,
      missing_fields = None, missing_percentage = None\<rparr>"

definition completeness_alert :: Alert where
  "completeness_alert =
     \<lparr>alert_id = ''error_1700000000'', alert_type = ''error'', severity = ''high'',
      title = ''Data Quality Error: stock_quotes'',
      message = CheckMessage ''completeness'' NoDataFound,
      alert_data_source = Some ''stock_quotes'', resolved = False\<rparr>"

definition validity_alert :: Alert where
  "validity_alert =
     \<lparr>alert_id = ''error_1700000000'', alert_type = ''error'', severity = ''high'',
      title = ''Data Quality Error: stock_quotes'',
      message = CheckMessage ''validity'' (OtherMessage ''all records have invalid values''),
      alert_data_source = Some ''stock_quotes'', resolved = False\<rparr>"

definition low_score_alert :: Alert where
  "low_score_alert =
     \<lparr>alert_id = ''warning_1700000000'', alert_type = ''warning'', severity = ''medium'',
      title = ''Low Data Quality Score'', message = AverageScore (3 / 10),
      alert_data_source = None, resolved = False\<rparr>"

section \<open>Rate limiter: the bound on the recorded timestamps\<close>

lemma async_is_sync: "async_wait_if_needed rl now = wait_if_needed rl now"
  by (simp add: async_wait_if_needed_def wait_if_needed_def)

lemma wait_if_needed_rpm:
  "requests_per_minute (fst (wait_if_needed rl now)) = requests_per_minute rl"
  by (simp add: wait_if_needed_def Let_def split: list.split)

lemma wait_if_needed_bound:
  assumes "1 \<le> requests_per_minute rl"
    and "int (length (requests rl)) \<le> requests_per_minute rl"
  shows "int (length (requests (fst (wait_if_needed rl now)))) \<le> requests_per_minute rl
       \<and> returned (snd (wait_if_needed rl now))"
proof -
  let ?reqs = "filter (\<lambda>req_time. req_time > now - 60) (requests rl)"
  have len: "length ?reqs \<le> length (requests rl)"
    by (rule length_filter_le)
  show ?thesis
  proof (cases "int (length ?reqs) \<ge> requests_per_minute rl")
    case False
    then show ?thesis
      by (simp add: wait_if_needed_def Let_def returned_def)
  next
    case True
    with assms(1) obtain oldest rest where eq: "?reqs = oldest # rest"
      by (cases ?reqs) auto
    have "oldest \<in> set ?reqs"
      by (simp add: eq)
    then have pos: "60 - (now - oldest) > 0"
      by simp
    from len assms(2) eq have "int (length rest) + 1 \<le> requests_per_minute rl"
      by simp
    with True eq pos show ?thesis
      by (simp add: wait_if_needed_def Let_def returned_def)
  qed
qed

lemma acquire_one_bound:
  assumes "1 \<le> requests_per_minute rl"
    and "int (length (requests rl)) \<le> requests_per_minute rl"
  shows "int (length (requests (fst (acquire_one rl c)))) \<le> requests_per_minute rl
       \<and> returned (snd (acquire_one rl c))
       \<and> requests_per_minute (fst (acquire_one rl c)) = requests_per_minute rl"
  using wait_if_needed_bound [OF assms] wait_if_needed_rpm
  by (cases c) (simp_all add: async_is_sync)

lemma acquire_all_bound:
  assumes "1 \<le> requests_per_minute rl"
    and "int (length (requests rl)) \<le> requests_per_minute rl"
  shows "int (length (requests (fst (acquire_all rl cs)))) \<le> requests_per_minute rl
       \<and> list_all returned (snd (acquire_all rl cs))
       \<and> requests_per_minute (fst (acquire_all rl cs)) = requests_per_minute rl"
  using assms
proof (induction cs arbitrary: rl)
  case Nil
  then show ?case by simp
next
  case (Cons c cs)
  let ?rl1 = "fst (acquire_one rl c)"
  from acquire_one_bound [OF Cons.prems, of c]
  have one: "int (length (requests ?rl1)) \<le> requests_per_minute ?rl1"
      "returned (snd (acquire_one rl c))" "requests_per_minute ?rl1 = requests_per_minute rl"
    by simp_all
  from Cons.prems(1) one(3) have "1 \<le> requests_per_minute ?rl1"
    by simp
  from Cons.IH [OF this one(1)] one show ?case
    by (simp add: split_beta Let_def)
qed

text \<open>
  Claim C6.  A limiter created with a limit of at least 1 and used through any sequence of
  \<open>wait_if_needed\<close> and \<open>async_wait_if_needed\<close> calls (with any clock values) raises in
  none of them, every call reports a wait of at least 0, and after the calls the recorded
  timestamps inside the 60-second window that ends at any time \<open>t\<close> number at most the
  limit.  As the sequence is arbitrary, this holds after each call.
\<close>

theorem rate_limiter_window_bound:
  assumes "1 \<le> rpm"
  shows "int (length (in_window t (fst (acquire_all (RateLimiter_init rpm b) cs)))) \<le> rpm
       \<and> list_all returned (snd (acquire_all (RateLimiter_init rpm b) cs))"
proof -
  let ?rl = "RateLimiter_init rpm b"
  have "1 \<le> requests_per_minute ?rl" "int (length (requests ?rl)) \<le> requests_per_minute ?rl"
    using assms by (simp_all add: RateLimiter_init_def)
  from acquire_all_bound [OF this, of cs]
  have "int (length (requests (fst (acquire_all ?rl cs)))) \<le> rpm"
      "list_all returned (snd (acquire_all ?rl cs))"
    by (simp_all add: RateLimiter_init_def)
  moreover have "length (in_window t (fst (acquire_all ?rl cs)))
      \<le> length (requests (fst (acquire_all ?rl cs)))"
    unfolding in_window_def by (rule length_filter_le)
  ultimately show ?thesis by simp
qed

theorem rate_limiter_window_bound_witness:
  "(1::int) \<le> 2
   \<and> in_window 30 (fst (acquire_all (RateLimiter_init 2 10) [Sync 0, Async 10, Sync 20])) = [10, 20]
   \<and> snd (acquire_all (RateLimiter_init 2 10) [Sync 0, Async 10, Sync 20]) = [Inr 0, Inr 0, Inr 40]
   \<and> int (length (in_window 30 (fst (acquire_all (RateLimiter_init 2 10) [Sync 0, Async 10, Sync 20])))) \<le> 2"
proof -
  have h: "(1::int) \<le> 2" by simp
  show ?thesis
    using rate_limiter_window_bound [OF h, of 30 10 "[Sync 0, Async 10, Sync 20]"]
    by (simp add: RateLimiter_init_def wait_if_needed_def async_wait_if_needed_def
        in_window_def Let_def)
qed

section \<open>HTTP client: which failures are retried\<close>

lemma wait_if_needed_returns:
  assumes "1 \<le> requests_per_minute rl"
    and "int (length (requests rl)) \<le> requests_per_minute rl"
  shows "\<exists>rl1 slept. wait_if_needed rl now = (rl1, Inr slept)"
proof -
  from wait_if_needed_bound [OF assms, of now]
  have "returned (snd (wait_if_needed rl now))"
    by simp
  then show ?thesis
    by (cases "wait_if_needed rl now") (auto simp: returned_def split: sum.splits)
qed

lemma http_error_becomes_APIError:
  assumes "400 \<le> status_code" and "status_code < 600"
    and "status_code \<noteq> 401" and "status_code \<noteq> 429"
  shows "except_clause (try_body (Response status_code header)) = Inl APIError"
  using assms by (simp add: try_body_def except_clause_def)

lemma connection_failure_becomes_APIError:
  "except_clause (try_body ConnectionFailure) = Inl APIError"
  by (simp add: try_body_def except_clause_def)

lemma APIError_not_retried: "\<not> retry_if_exception_type APIError"
  by (simp add: retry_if_exception_type_def)

lemma retrying_http_error:
  assumes "except_clause (try_body (snd (exchanges n))) = Inl APIError"
    and "1 \<le> requests_per_minute rl"
    and "int (length (requests rl)) \<le> requests_per_minute rl"
  shows "result (retrying max_retries retry_delay exchanges rl n ws) = Inl APIError
    \<and> attempts (retrying max_retries retry_delay exchanges rl n ws) = n
    \<and> waits (retrying max_retries retry_delay exchanges rl n ws) = ws"
proof -
  from wait_if_needed_returns [OF assms(2,3), of "fst (exchanges n)"]
  obtain rl1 slept where "wait_if_needed rl (fst (exchanges n)) = (rl1, Inr slept)"
    by blast
  with assms(1) have "make_request_body rl (exchanges n) = (rl1, Inl APIError)"
    by (simp add: make_request_body_def)
  then show ?thesis
    by (subst (1 2 3) retrying.simps) (simp add: APIError_not_retried)
qed

text \<open>
  Claim C3 against the code.  With the configured three attempts, a response with status
  500 and a connection failure are both raised as \<open>APIError\<close> after the first attempt,
  with no wait and no second attempt: the \<open>except\<close> clause turns every
  \<open>RequestException\<close> into \<open>APIError\<close> before the retry decorator sees it, and
  \<open>APIError\<close> is not in the decorator's list.  A 429 response is retried up to the
  third attempt and ends in \<open>RetryError\<close>; a 401 response raises
  \<open>AuthenticationError\<close> at once.
\<close>

theorem http_error_raised_without_retry:
  "result (make_request 3 1 (\<lambda>n. (0, Response 500 NoHeader)) (RateLimiter_init 60 10))
     = Inl APIError
   \<and> attempts (make_request 3 1 (\<lambda>n. (0, Response 500 NoHeader)) (RateLimiter_init 60 10)) = 1
   \<and> waits (make_request 3 1 (\<lambda>n. (0, Response 500 NoHeader)) (RateLimiter_init 60 10)) = []
   \<and> result (make_request 3 1 (\<lambda>n. (0, ConnectionFailure)) (RateLimiter_init 60 10))
     = Inl APIError
   \<and> attempts (make_request 3 1 (\<lambda>n. (0, ConnectionFailure)) (RateLimiter_init 60 10)) = 1
   \<and> result (make_request 3 1 (\<lambda>n. (0, Response 429 (Seconds 5))) (RateLimiter_init 60 10))
     = Inl RetryError
   \<and> attempts (make_request 3 1 (\<lambda>n. (0, Response 429 (Seconds 5))) (RateLimiter_init 60 10)) = 3
   \<and> result (make_request 3 1 (\<lambda>n. (0, Response 401 NoHeader)) (RateLimiter_init 60 10))
     = Inl AuthenticationError
   \<and> attempts (make_request 3 1 (\<lambda>n. (0, Response 401 NoHeader)) (RateLimiter_init 60 10)) = 1"
proof -
  let ?rl = "RateLimiter_init 60 10"
  have rl: "1 \<le> requests_per_minute ?rl" "int (length (requests ?rl)) \<le> requests_per_minute ?rl"
    by (simp_all add: RateLimiter_init_def)
  have a: "result (make_request 3 1 (\<lambda>n. (0, Response 500 NoHeader)) ?rl) = Inl APIError
     \<and> attempts (make_request 3 1 (\<lambda>n. (0, Response 500 NoHeader)) ?rl) = 1
     \<and> waits (make_request 3 1 (\<lambda>n. (0, Response 500 NoHeader)) ?rl) = []"
    unfolding make_request_def
    by (rule retrying_http_error [where exchanges = "\<lambda>n. (0, Response 500 NoHeader)"])
       (simp_all add: http_error_becomes_APIError rl)
  have b: "result (make_request 3 1 (\<lambda>n. (0, ConnectionFailure)) ?rl) = Inl APIError
     \<and> attempts (make_request 3 1 (\<lambda>n. (0, ConnectionFailure)) ?rl) = 1
     \<and> waits (make_request 3 1 (\<lambda>n. (0, ConnectionFailure)) ?rl) = []"
    unfolding make_request_def
    by (rule retrying_http_error [where exchanges = "\<lambda>n. (0, ConnectionFailure)"])
       (simp_all add: connection_failure_becomes_APIError rl)
  have c: "result (make_request 3 1 (\<lambda>n. (0, Response 429 (Seconds 5))) ?rl) = Inl RetryError
     \<and> attempts (make_request 3 1 (\<lambda>n. (0, Response 429 (Seconds 5))) ?rl) = 3"
    by code_simp
  have d: "result (make_request 3 1 (\<lambda>n. (0, Response 401 NoHeader)) ?rl) = Inl AuthenticationError
     \<and> attempts (make_request 3 1 (\<lambda>n. (0, Response 401 NoHeader)) ?rl) = 1"
    by code_simp
  from a b c d show ?thesis
    by simp
qed

section \<open>Parsers: record count and identifying key\<close>

lemma map_of_drop_none:
  "map_of (drop_none kv) k = Some v \<longleftrightarrow> map_of (filter (\<lambda>p. snd p \<noteq> PNone) kv) k = Some v"
  by (simp add: drop_none_def)

lemma val_str_Some: "val_str v = Some s \<longleftrightarrow> v = PStr s"
  by (cases v) auto

lemma required_str_Some:
  "required val_str kwargs k = Some s \<longleftrightarrow> map_of kwargs k = Some (PStr s)"
  by (auto simp: required_def val_str_Some split: option.splits)

lemma Stock_init_symbol:
  assumes "Stock_init L kwargs = Some stock"
  shows "map_of kwargs ''symbol'' = Some (PStr (symbol stock))"
proof -
  from assms obtain sy where sy: "required val_str kwargs ''symbol'' = Some sy"
    and "symbol stock = sy"
    unfolding Stock_init_def by (auto simp: bind_eq_Some_conv)
  then show ?thesis
    by (simp add: required_str_Some)
qed

lemma StockQuote_init_symbol:
  assumes "StockQuote_init L kwargs = Some quote"
  shows "map_of kwargs ''symbol'' = Some (PStr (q_symbol quote))"
proof -
  from assms obtain sy where sy: "required val_str kwargs ''symbol'' = Some sy"
    and "q_symbol quote = sy"
    unfolding StockQuote_init_def by (auto simp: bind_eq_Some_conv)
  then show ?thesis
    by (simp add: required_str_Some)
qed

lemma Stock_init_no_symbol:
  "(\<forall>s. map_of kwargs ''symbol'' \<noteq> Some (PStr s)) \<Longrightarrow> Stock_init L kwargs = None"
  using Stock_init_symbol [of L kwargs] by (cases "Stock_init L kwargs") auto

lemma StockQuote_init_no_symbol:
  "(\<forall>s. map_of kwargs ''symbol'' \<noteq> Some (PStr s)) \<Longrightarrow> StockQuote_init L kwargs = None"
  using StockQuote_init_symbol [of L kwargs] by (cases "StockQuote_init L kwargs") auto

lemma symbol_first:
  "map_of (drop_none ((''symbol'', v) # rest)) ''symbol'' = Some (PStr s)
   \<Longrightarrow> ''symbol'' \<notin> fst ` set rest \<Longrightarrow> v = PStr s"
proof -
  assume a: "map_of (drop_none ((''symbol'', v) # rest)) ''symbol'' = Some (PStr s)"
    and b: "''symbol'' \<notin> fst ` set rest"
  have "map_of (filter (\<lambda>p. snd p \<noteq> PNone) rest) ''symbol'' = None"
    using b by (auto simp: map_of_eq_None_iff)
  with a show ?thesis
    by (auto simp: drop_none_def split: if_splits)
qed

lemma symbol_first_conv:
  "''symbol'' \<notin> fst ` set rest \<Longrightarrow>
   map_of (drop_none ((''symbol'', v) # rest)) ''symbol'' = Some (PStr s) \<longleftrightarrow> v = PStr s"
  using symbol_first [of v rest s] by (auto simp: drop_none_def)

lemma dict_get_PStr: "dict_get d k = PStr s \<longleftrightarrow> map_of d k = Some (PStr s)"
  by (auto simp: dict_get_def split: option.splits)

lemma parse_ticker_data_Inr:
  assumes "parse_ticker_data L element = Inr stock"
  shows "symbol_is (symbol stock) element"
proof (cases element)
  case (PDict d)
  with assms obtain kwargs where
    "map_of (drop_none ((''symbol'', dict_get d ''symbol'') # kwargs)) ''symbol''
       = Some (PStr (symbol stock))" and "''symbol'' \<notin> fst ` set kwargs"
    by (auto simp: parse_ticker_data_def Let_def split: option.splits
        dest!: Stock_init_symbol)
  then have "dict_get d ''symbol'' = PStr (symbol stock)"
    by (rule symbol_first)
  with PDict show ?thesis
    by (simp add: symbol_is_def dict_get_PStr)
qed (use assms in \<open>simp_all add: parse_ticker_data_def\<close>)

lemma parse_quote_data_Inr:
  assumes "parse_quote_data L element = Inr quote"
  shows "symbol_is (q_symbol quote) element"
proof (cases element)
  case (PDict d)
  with assms obtain kwargs where
    "map_of (drop_none ((''symbol'', dict_get d ''symbol'') # kwargs)) ''symbol''
       = Some (PStr (q_symbol quote))" and "''symbol'' \<notin> fst ` set kwargs"
    by (auto simp: parse_quote_data_def Let_def split: option.splits
        dest!: StockQuote_init_symbol)
  then have "dict_get d ''symbol'' = PStr (q_symbol quote)"
    by (rule symbol_first)
  with PDict show ?thesis
    by (simp add: symbol_is_def dict_get_PStr)
qed (use assms in \<open>simp_all add: parse_quote_data_def\<close>)

lemma parse_ticker_data_dropped:
  assumes "is_dict element" and "\<not> has_str_symbol element"
  shows "parse_ticker_data L element = Inl ValidationError"
proof -
  from assms(1) obtain d where d: "element = PDict d"
    by (cases element) (simp_all add: is_dict_def)
  have no: "parse_ticker_data L element \<noteq> Inr stock" for stock
    using parse_ticker_data_Inr [of L element stock] assms(2) d
    by (auto simp: symbol_is_def has_str_symbol_def)
  show ?thesis
  proof (cases "parse_ticker_data L element")
    case (Inl e)
    with d show ?thesis
      by (simp add: parse_ticker_data_def Let_def split: option.splits)
  next
    case (Inr r)
    with no [of r] show ?thesis by simp
  qed
qed

lemma parse_quote_data_dropped:
  assumes "is_dict element" and "\<not> has_str_symbol element"
  shows "parse_quote_data L element = Inl ValidationError"
proof -
  from assms(1) obtain d where d: "element = PDict d"
    by (cases element) (simp_all add: is_dict_def)
  have no: "parse_quote_data L element \<noteq> Inr quote" for quote
    using parse_quote_data_Inr [of L element quote] assms(2) d
    by (auto simp: symbol_is_def has_str_symbol_def)
  show ?thesis
  proof (cases "parse_quote_data L element")
    case (Inl e)
    with d show ?thesis
      by (simp add: parse_quote_data_def Let_def split: option.splits)
  next
    case (Inr r)
    with no [of r] show ?thesis by simp
  qed
qed

lemma parse_tickers_Inr:
  "parse_tickers L body = Inr stocks \<Longrightarrow>
   length stocks \<le> length body \<and> list_all (\<lambda>s. list_ex (symbol_is (symbol s)) body) stocks"
proof (induction body arbitrary: stocks)
  case Nil
  then show ?case by simp
next
  case (Cons element rest)
  show ?case
  proof (cases "parse_ticker_data L element")
    case (Inl e)
    with Cons.prems have "parse_tickers L rest = Inr stocks"
      by (simp split: if_splits)
    from Cons.IH [OF this] show ?thesis
      by (auto simp: list_all_iff)
  next
    case (Inr stock)
    with Cons.prems obtain stocks' where rest: "parse_tickers L rest = Inr stocks'"
      and eq: "stocks = stock # stocks'"
      by (auto split: sum.splits)
    from Cons.IH [OF rest] parse_ticker_data_Inr [OF Inr] eq show ?thesis
      by (auto simp: list_all_iff)
  qed
qed

lemma parse_quotes_Inr:
  "parse_quotes L body = Inr quotes \<Longrightarrow>
   length quotes \<le> length body \<and> list_all (\<lambda>q. list_ex (symbol_is (q_symbol q)) body) quotes"
proof (induction body arbitrary: quotes)
  case Nil
  then show ?case by simp
next
  case (Cons element rest)
  show ?case
  proof (cases "parse_quote_data L element")
    case (Inl e)
    with Cons.prems have "parse_quotes L rest = Inr quotes"
      by (simp split: if_splits)
    from Cons.IH [OF this] show ?thesis
      by (auto simp: list_all_iff)
  next
    case (Inr quote)
    with Cons.prems obtain quotes' where rest: "parse_quotes L rest = Inr quotes'"
      and eq: "quotes = quote # quotes'"
      by (auto split: sum.splits)
    from Cons.IH [OF rest] parse_quote_data_Inr [OF Inr] eq show ?thesis
      by (auto simp: list_all_iff)
  qed
qed

lemma parse_tickers_response_body:
  "parse_tickers_response L payload = Inr stocks \<Longrightarrow>
   stocks = [] \<or> parse_tickers L (body_elements payload) = Inr stocks"
  by (auto simp: parse_tickers_response_def body_list_def body_elements_def
      split: pyval.splits option.splits if_splits sum.splits)

lemma parse_quotes_response_body:
  "parse_quotes_response L payload = Inr quotes \<Longrightarrow>
   quotes = [] \<or> parse_quotes L (body_elements payload) = Inr quotes"
  by (auto simp: parse_quotes_response_def body_list_def body_elements_def
      split: pyval.splits option.splits if_splits sum.splits)

text \<open>
  Claim C4, as amended.  Whenever a parser returns, it returns at most as many records as
  the body array has elements, and the symbol of every returned record is the string that
  one of the elements stores under \<open>"symbol"\<close>: the key is present, but nothing makes
  it non-empty.  A dictionary element whose symbol is missing, \<open>None\<close> or not a string
  is dropped without raising.
\<close>

theorem parsers_count_and_symbol:
  "(parse_tickers_response L payload = Inr stocks \<longrightarrow>
      length stocks \<le> length (body_elements payload) \<and>
      list_all (\<lambda>s. list_ex (symbol_is (symbol s)) (body_elements payload)) stocks)
   \<and> (parse_quotes_response L payload = Inr quotes \<longrightarrow>
      length quotes \<le> length (body_elements payload) \<and>
      list_all (\<lambda>q. list_ex (symbol_is (q_symbol q)) (body_elements payload)) quotes)
   \<and> (is_dict element \<and> \<not> has_str_symbol element \<longrightarrow>
      parse_tickers L (element # rest) = parse_tickers L rest \<and>
      parse_quotes L (element # rest) = parse_quotes L rest)"
proof (intro conjI impI)
  assume "parse_tickers_response L payload = Inr stocks"
  then consider "stocks = []" | "parse_tickers L (body_elements payload) = Inr stocks"
    using parse_tickers_response_body by blast
  then show "length stocks \<le> length (body_elements payload)"
    and "list_all (\<lambda>s. list_ex (symbol_is (symbol s)) (body_elements payload)) stocks"
    by (cases; simp add: parse_tickers_Inr)+
next
  assume "parse_quotes_response L payload = Inr quotes"
  then consider "quotes = []" | "parse_quotes L (body_elements payload) = Inr quotes"
    using parse_quotes_response_body by blast
  then show "length quotes \<le> length (body_elements payload)"
    and "list_all (\<lambda>q. list_ex (symbol_is (q_symbol q)) (body_elements payload)) quotes"
    by (cases; simp add: parse_quotes_Inr)+
next
  assume "is_dict element \<and> \<not> has_str_symbol element"
  then show "parse_tickers L (element # rest) = parse_tickers L rest"
    and "parse_quotes L (element # rest) = parse_quotes L rest"
    by (simp_all add: parse_ticker_data_dropped parse_quote_data_dropped)
qed

theorem parsers_count_and_symbol_witness:
  "parse_tickers_response ref_lib two_element_payload = Inr [aapl_stock]
   \<and> length [aapl_stock] \<le> length (body_elements two_element_payload)
   \<and> list_all (\<lambda>s. list_ex (symbol_is (symbol s)) (body_elements two_element_payload))
        [aapl_stock]
   \<and> parse_quotes_response ref_lib two_element_payload = Inr [aapl_quote]
   \<and> length [aapl_quote] \<le> length (body_elements two_element_payload)
   \<and> list_all (\<lambda>q. list_ex (symbol_is (q_symbol q)) (body_elements two_element_payload))
        [aapl_quote]
   \<and> is_dict (PDict [(''name'', PStr ''no symbol here'')])
   \<and> \<not> has_str_symbol (PDict [(''name'', PStr ''no symbol here'')])
   \<and> parse_tickers ref_lib [PDict [(''name'', PStr ''no symbol here'')]] = parse_tickers ref_lib []
   \<and> parse_quotes ref_lib [PDict [(''name'', PStr ''no symbol here'')]] = parse_quotes ref_lib []"
proof -
  have h1: "parse_tickers_response ref_lib two_element_payload = Inr [aapl_stock]"
    by code_simp
  have h2: "parse_quotes_response ref_lib two_element_payload = Inr [aapl_quote]"
    by code_simp
  have h3: "is_dict (PDict [(''name'', PStr ''no symbol here'')])
      \<and> \<not> has_str_symbol (PDict [(''name'', PStr ''no symbol here'')])"
    by code_simp
  from parsers_count_and_symbol [of ref_lib two_element_payload "[aapl_stock]" "[aapl_quote]"
      "PDict [(''name'', PStr ''no symbol here'')]" "[]"] h1 h2 h3
  show ?thesis by blast
qed

text \<open>
  Claim C4 as stated fails: an element whose symbol is the empty string passes validation,
  and both parsers return a record with an empty identifying key.
\<close>

theorem parsers_empty_symbol_counterexample:
  "parse_tickers_response ref_lib empty_symbol_payload =
     Inr [\<lparr>symbol = '''', name = None, exchange = None, sector = None, industry = None,
           market_cap = None, currency = ''USD'', country = None, website = None,
           description = None\<rparr>]
   \<and> parse_quotes_response ref_lib empty_symbol_payload =
     Inr [\<lparr>q_symbol = '''', q_name = None, q_price = None, q_previous_close = None,
           q_open = None, q_high = None, q_low = None, q_volume = None, q_market_cap = None,
           q_pe_ratio = None, q_dividend_yield = None, q_change = None,
           q_change_percent = None, q_currency = ''USD'', q_exchange = None,
           q_quote_type = None, q_timestamp = None\<rparr>]"
  by code_simp

section \<open>Parsers: a payload without a body array\<close>

lemma parse_tickers_Inl:
  "parse_tickers L body = Inl e \<Longrightarrow> e = AttributeError \<and> list_ex (\<lambda>x. \<not> is_dict x) body"
proof (induction body)
  case Nil
  then show ?case by simp
next
  case (Cons element rest)
  show ?case
  proof (cases "is_dict element")
    case True
    then obtain d where d: "element = PDict d"
      by (cases element) (simp_all add: is_dict_def)
    have "parse_ticker_data L element = Inl e' \<Longrightarrow> e' = ValidationError" for e'
      using d by (auto simp: parse_ticker_data_def Let_def split: option.splits)
    with Cons.prems have "parse_tickers L rest = Inl e"
      by (auto split: sum.splits if_splits)
    from Cons.IH [OF this] show ?thesis by simp
  next
    case False
    then have "parse_ticker_data L element = Inl AttributeError"
      by (cases element) (simp_all add: is_dict_def parse_ticker_data_def)
    with Cons.prems False show ?thesis by simp
  qed
qed

lemma parse_quotes_Inl:
  "parse_quotes L body = Inl e \<Longrightarrow> e = AttributeError \<and> list_ex (\<lambda>x. \<not> is_dict x) body"
proof (induction body)
  case Nil
  then show ?case by simp
next
  case (Cons element rest)
  show ?case
  proof (cases "is_dict element")
    case True
    then obtain d where d: "element = PDict d"
      by (cases element) (simp_all add: is_dict_def)
    have "parse_quote_data L element = Inl e' \<Longrightarrow> e' = ValidationError" for e'
      using d by (auto simp: parse_quote_data_def Let_def split: option.splits)
    with Cons.prems have "parse_quotes L rest = Inl e"
      by (auto split: sum.splits if_splits)
    from Cons.IH [OF this] show ?thesis by simp
  next
    case False
    then have "parse_quote_data L element = Inl AttributeError"
      by (cases element) (simp_all add: is_dict_def parse_quote_data_def)
    with Cons.prems False show ?thesis by simp
  qed
qed

lemma body_list_dict:
  "body_list (PDict d) = (if has_body_list d then Inr (Some (body_elements (PDict d))) else Inr None)"
  by (simp add: body_list_def has_body_list_def body_elements_def
      split: option.splits pyval.splits)

lemma body_list_Inl: "body_list payload = Inl e \<Longrightarrow> e = TypeError \<and> \<not> is_dict payload"
  by (cases payload) (auto simp: body_list_def is_dict_def split: option.splits pyval.splits if_splits)

lemma body_list_Some: "body_list payload = Inr (Some body) \<Longrightarrow> is_dict payload \<and> body = body_elements payload"
  by (cases payload) (auto simp: body_list_def is_dict_def body_elements_def
      split: option.splits pyval.splits if_splits)

text \<open>
  Claim C5, as amended.  For a dictionary payload whose \<open>body\<close> is missing or is not a
  list, both parsers return the empty list, which is also what they return for an empty
  body array: the caller cannot tell the two apart.  A parser raises only when the payload
  is not a dictionary (\<open>TypeError\<close>) or when an element of the body array is not a
  dictionary (\<open>AttributeError\<close>).
\<close>

theorem parsers_missing_body_is_empty_result:
  "(\<not> has_body_list d \<longrightarrow>
      parse_tickers_response L (PDict d) = Inr []
      \<and> parse_quotes_response L (PDict d) = Inr []
      \<and> parse_tickers_response L (PDict d) = parse_tickers_response L (PDict [(''body'', PList [])])
      \<and> parse_quotes_response L (PDict d) = parse_quotes_response L (PDict [(''body'', PList [])]))
   \<and> (parse_tickers_response L payload = Inl e \<longrightarrow>
      (e = TypeError \<and> \<not> is_dict payload)
      \<or> (e = AttributeError \<and> is_dict payload \<and> list_ex (\<lambda>x. \<not> is_dict x) (body_elements payload)))
   \<and> (parse_quotes_response L payload = Inl e \<longrightarrow>
      (e = TypeError \<and> \<not> is_dict payload)
      \<or> (e = AttributeError \<and> is_dict payload \<and> list_ex (\<lambda>x. \<not> is_dict x) (body_elements payload)))"
proof (intro conjI impI)
  assume "\<not> has_body_list d"
  then show "parse_tickers_response L (PDict d) = Inr []"
    and "parse_quotes_response L (PDict d) = Inr []"
    and "parse_tickers_response L (PDict d) = parse_tickers_response L (PDict [(''body'', PList [])])"
    and "parse_quotes_response L (PDict d) = parse_quotes_response L (PDict [(''body'', PList [])])"
    by (simp_all add: parse_tickers_response_def parse_quotes_response_def body_list_dict
        has_body_list_def body_elements_def)
next
  assume a: "parse_tickers_response L payload = Inl e"
  show "(e = TypeError \<and> \<not> is_dict payload)
      \<or> (e = AttributeError \<and> is_dict payload \<and> list_ex (\<lambda>x. \<not> is_dict x) (body_elements payload))"
  proof (cases "body_list payload")
    case (Inl e')
    with a body_list_Inl [OF Inl] show ?thesis
      by (simp add: parse_tickers_response_def)
  next
    case (Inr r)
    with a obtain body where r: "r = Some body" and "parse_tickers L body = Inl e"
      by (cases r) (simp_all add: parse_tickers_response_def)
    with parse_tickers_Inl [of L body e] body_list_Some [of payload body] Inr show ?thesis
      by simp
  qed
next
  assume a: "parse_quotes_response L payload = Inl e"
  show "(e = TypeError \<and> \<not> is_dict payload)
      \<or> (e = AttributeError \<and> is_dict payload \<and> list_ex (\<lambda>x. \<not> is_dict x) (body_elements payload))"
  proof (cases "body_list payload")
    case (Inl e')
    with a body_list_Inl [OF Inl] show ?thesis
      by (simp add: parse_quotes_response_def)
  next
    case (Inr r)
    with a obtain body where r: "r = Some body" and "parse_quotes L body = Inl e"
      by (cases r) (simp_all add: parse_quotes_response_def)
    with parse_quotes_Inl [of L body e] body_list_Some [of payload body] Inr show ?thesis
      by simp
  qed
qed

theorem parsers_missing_body_is_empty_result_witness:
  "\<not> has_body_list [(''error'', PStr ''upstream failure'')]
   \<and> parse_tickers_response ref_lib (PDict [(''error'', PStr ''upstream failure'')]) = Inr []
   \<and> parse_quotes_response ref_lib (PDict [(''error'', PStr ''upstream failure'')]) = Inr []
   \<and> parse_tickers_response ref_lib (PInt 7) = Inl TypeError
   \<and> \<not> is_dict (PInt 7)
   \<and> parse_quotes_response ref_lib (PDict [(''body'', PList [PInt 7])]) = Inl AttributeError
   \<and> is_dict (PDict [(''body'', PList [PInt 7])])
   \<and> list_ex (\<lambda>x. \<not> is_dict x) (body_elements (PDict [(''body'', PList [PInt 7])]))"
proof -
  have h1: "\<not> has_body_list [(''error'', PStr ''upstream failure'')]"
    by code_simp
  have h2: "parse_tickers_response ref_lib (PInt 7) = Inl TypeError"
    by code_simp
  have h3: "parse_quotes_response ref_lib (PDict [(''body'', PList [PInt 7])]) = Inl AttributeError"
    by code_simp
  have h4: "\<not> is_dict (PInt 7)"
    by code_simp
  from parsers_missing_body_is_empty_result
         [of "[(''error'', PStr ''upstream failure'')]" ref_lib "PInt 7" TypeError] h1 h2
       parsers_missing_body_is_empty_result
         [of "[(''error'', PStr ''upstream failure'')]" ref_lib
             "PDict [(''body'', PList [PInt 7])]" AttributeError] h3 h4
  show ?thesis by blast
qed

text \<open>
  Claim C5 as stated fails: a payload without \<open>body\<close>, a payload whose \<open>body\<close> is
  a string and a payload with an empty body array all give the same empty list, and no
  failure is reported.
\<close>

theorem parsers_missing_body_counterexample:
  "parse_tickers_response ref_lib (PDict [(''error'', PStr ''upstream failure'')]) = Inr []
   \<and> parse_tickers_response ref_lib (PDict [(''body'', PStr ''not a list'')]) = Inr []
   \<and> parse_tickers_response ref_lib (PDict [(''body'', PList [])]) = Inr []
   \<and> parse_quotes_response ref_lib (PDict [(''error'', PStr ''upstream failure'')]) = Inr []
   \<and> parse_quotes_response ref_lib (PDict [(''body'', PStr ''not a list'')]) = Inr []
   \<and> parse_quotes_response ref_lib (PDict [(''body'', PList [])]) = Inr []"
  by code_simp

section \<open>Extractors: counters and status of the returned job\<close>

lemma unsuccessful_Cons:
  "unsuccessful rs k (Suc n) =
     (if success (rs k) then unsuccessful rs (Suc k) n else k # unsuccessful rs (Suc k) n)"
proof -
  have "[k..<k + Suc n] = k # [Suc k..<Suc k + n]"
    by (subst upt_rec) simp
  then show ?thesis
    by (simp add: unsuccessful_def del: upt_Suc)
qed

lemma tickers_loop_Inr:
  "tickers_loop L rs k calls job acc = Inr (job', acc') \<Longrightarrow>
   processed_items job' - int (length acc') = processed_items job - int (length acc)
   \<and> failed_items job' = failed_items job + int (length (unsuccessful rs k (length calls)))
   \<and> total_items job' = total_items job \<and> status job' = status job"
proof (induction calls arbitrary: k job acc)
  case Nil
  then show ?case by (simp add: unsuccessful_def)
next
  case (Cons c calls)
  show ?case
  proof (cases "success (rs k)")
    case True
    with Cons.prems obtain stocks where
      "tickers_loop L rs (Suc k) calls
         (job\<lparr>processed_items := processed_items job + int (length stocks)\<rparr>) (acc @ stocks)
       = Inr (job', acc')"
      by (auto simp: Let_def split: sum.splits)
    from Cons.IH [OF this] True show ?thesis by (simp add: unsuccessful_Cons)
  next
    case False
    with Cons.prems have
      "tickers_loop L rs (Suc k) calls (job\<lparr>failed_items := failed_items job + 1\<rparr>) acc
       = Inr (job', acc')"
      by (simp add: Let_def)
    from Cons.IH [OF this] False show ?thesis by (simp add: unsuccessful_Cons)
  qed
qed

lemma tickers_loop_Inl:
  "tickers_loop L rs k calls job acc = Inl (e, job') \<Longrightarrow> total_items job' = total_items job"
proof (induction calls arbitrary: k job acc)
  case Nil
  then show ?case by simp
next
  case (Cons c calls)
  show ?case
  proof (cases "success (rs k)")
    case True
    show ?thesis
    proof (cases "parse_tickers_response L (data (rs k))")
      case (Inl e')
      with True Cons.prems show ?thesis by (simp add: Let_def)
    next
      case (Inr stocks)
      with True Cons.prems have
        "tickers_loop L rs (Suc k) calls
           (job\<lparr>processed_items := processed_items job + int (length stocks)\<rparr>) (acc @ stocks)
         = Inl (e, job')"
        by (simp add: Let_def)
      from Cons.IH [OF this] show ?thesis by simp
    qed
  next
    case False
    with Cons.prems have
      "tickers_loop L rs (Suc k) calls (job\<lparr>failed_items := failed_items job + 1\<rparr>) acc
       = Inl (e, job')"
      by (simp add: Let_def)
    from Cons.IH [OF this] show ?thesis by simp
  qed
qed

lemma quotes_loop_Inr:
  "quotes_loop L rs k batches job acc = Inr (job', acc') \<Longrightarrow>
   processed_items job' - int (length acc') = processed_items job - int (length acc)
   \<and> failed_items job' = failed_items job + failed_symbols rs k batches
   \<and> total_items job' = total_items job \<and> status job' = status job"
proof (induction batches arbitrary: k job acc)
  case Nil
  then show ?case by simp
next
  case (Cons b batches)
  show ?case
  proof (cases "success (rs k)")
    case True
    with Cons.prems obtain quotes where
      "quotes_loop L rs (Suc k) batches
         (job\<lparr>processed_items := processed_items job + int (length quotes)\<rparr>) (acc @ quotes)
       = Inr (job', acc')"
      by (auto simp: Let_def split: sum.splits)
    from Cons.IH [OF this] True show ?thesis by simp
  next
    case False
    with Cons.prems have
      "quotes_loop L rs (Suc k) batches
         (job\<lparr>failed_items := failed_items job + int (length b)\<rparr>) acc
       = Inr (job', acc')"
      by (simp add: Let_def)
    from Cons.IH [OF this] False show ?thesis by simp
  qed
qed

lemma quotes_loop_Inl:
  "quotes_loop L rs k batches job acc = Inl (e, job') \<Longrightarrow> total_items job' = total_items job"
proof (induction batches arbitrary: k job acc)
  case Nil
  then show ?case by simp
next
  case (Cons b batches)
  show ?case
  proof (cases "success (rs k)")
    case True
    show ?thesis
    proof (cases "parse_quotes_response L (data (rs k))")
      case (Inl e')
      with True Cons.prems show ?thesis by (simp add: Let_def)
    next
      case (Inr quotes)
      with True Cons.prems have
        "quotes_loop L rs (Suc k) batches
           (job\<lparr>processed_items := processed_items job + int (length quotes)\<rparr>) (acc @ quotes)
         = Inl (e, job')"
        by (simp add: Let_def)
      from Cons.IH [OF this] show ?thesis by simp
    qed
  next
    case False
    with Cons.prems have
      "quotes_loop L rs (Suc k) batches
         (job\<lparr>failed_items := failed_items job + int (length b)\<rparr>) acc
       = Inl (e, job')"
      by (simp add: Let_def)
    from Cons.IH [OF this] show ?thesis by simp
  qed
qed

lemma news_of_records_length:
  "news_of_records symb records = Inr news \<Longrightarrow> length news = length records"
proof (induction records arbitrary: news)
  case Nil
  then show ?case by simp
next
  case (Cons r records)
  then show ?case
    by (auto split: pyval.splits option.splits sum.splits)
qed

lemma news_of_response_count:
  "news_of_response symb payload = Inr (news, n) \<Longrightarrow> n = int (length news)"
  by (auto simp: news_of_response_def dest: news_of_records_length
      split: pyval.splits sum.splits if_splits)

lemma news_loop_Inr:
  "news_loop rs k symbols job acc = Inr (job', acc') \<Longrightarrow>
   processed_items job' - int (length acc') = processed_items job - int (length acc)
   \<and> failed_items job' = failed_items job + int (length (unsuccessful rs k (length symbols)))
   \<and> total_items job' = total_items job \<and> status job' = status job"
proof (induction symbols arbitrary: k job acc)
  case Nil
  then show ?case by (simp add: unsuccessful_def)
next
  case (Cons s symbols)
  show ?case
  proof (cases "success (rs k)")
    case True
    with Cons.prems obtain news n where ok: "news_of_response s (data (rs k)) = Inr (news, n)"
      and "news_loop rs (Suc k) symbols
         (job\<lparr>processed_items := processed_items job + n\<rparr>) (acc @ news) = Inr (job', acc')"
      by (auto simp: Let_def split: sum.splits)
    from Cons.IH [OF this(2)] news_of_response_count [OF ok] True show ?thesis
      by (simp add: unsuccessful_Cons)
  next
    case False
    with Cons.prems have
      "news_loop rs (Suc k) symbols (job\<lparr>failed_items := failed_items job + 1\<rparr>) acc
       = Inr (job', acc')"
      by (simp add: Let_def)
    from Cons.IH [OF this] False show ?thesis
      by (simp add: unsuccessful_Cons)
  qed
qed

lemma news_loop_Inl:
  "news_loop rs k symbols job acc = Inl (e, job') \<Longrightarrow> total_items job' = total_items job"
proof (induction symbols arbitrary: k job acc)
  case Nil
  then show ?case by simp
next
  case (Cons s symbols)
  show ?case
  proof (cases "success (rs k)")
    case True
    show ?thesis
    proof (cases "news_of_response s (data (rs k))")
      case (Inl e')
      with True Cons.prems show ?thesis by (simp add: Let_def)
    next
      case (Inr r)
      with True Cons.prems have
        "news_loop rs (Suc k) symbols
           (job\<lparr>processed_items := processed_items job + snd r\<rparr>) (acc @ fst r)
         = Inl (e, job')"
        by (simp add: Let_def split_beta)
      from Cons.IH [OF this] show ?thesis by simp
    qed
  next
    case False
    with Cons.prems have
      "news_loop rs (Suc k) symbols (job\<lparr>failed_items := failed_items job + 1\<rparr>) acc
       = Inl (e, job')"
      by (simp add: Let_def)
    from Cons.IH [OF this] show ?thesis by simp
  qed
qed

lemma history_of_records_length:
  "history_of_records L symb iv records = Inr history \<Longrightarrow> length history = length records"
proof (induction records arbitrary: history)
  case Nil
  then show ?case by simp
next
  case (Cons r records)
  then show ?case
    by (auto split: pyval.splits option.splits sum.splits)
qed

lemma history_of_response_count:
  "history_of_response L symb iv payload = Inr (history, n) \<Longrightarrow> n = int (length history)"
  by (auto simp: history_of_response_def dest: history_of_records_length
      split: pyval.splits sum.splits if_splits)

lemma history_loop_Inr:
  "history_loop L rs k symbols job acc = Inr (job', acc') \<Longrightarrow>
   processed_items job' - int (length acc') = processed_items job - int (length acc)
   \<and> failed_items job' = failed_items job + int (length (unsuccessful rs k (length symbols)))
   \<and> total_items job' = total_items job \<and> status job' = status job"
proof (induction symbols arbitrary: k job acc)
  case Nil
  then show ?case by (simp add: unsuccessful_def)
next
  case (Cons s symbols)
  show ?case
  proof (cases "success (rs k)")
    case True
    with Cons.prems obtain history n where ok: "history_of_response L (fst s) (snd s) (data (rs k)) = Inr (history, n)"
      and "history_loop L rs (Suc k) symbols
         (job\<lparr>processed_items := processed_items job + n\<rparr>) (acc @ history) = Inr (job', acc')"
      by (auto simp: Let_def split: sum.splits)
    from Cons.IH [OF this(2)] history_of_response_count [OF ok] True show ?thesis
      by (simp add: unsuccessful_Cons)
  next
    case False
    with Cons.prems have
      "history_loop L rs (Suc k) symbols (job\<lparr>failed_items := failed_items job + 1\<rparr>) acc
       = Inr (job', acc')"
      by (simp add: Let_def)
    from Cons.IH [OF this] False show ?thesis
      by (simp add: unsuccessful_Cons)
  qed
qed

lemma history_loop_Inl:
  "history_loop L rs k symbols job acc = Inl (e, job') \<Longrightarrow> total_items job' = total_items job"
proof (induction symbols arbitrary: k job acc)
  case Nil
  then show ?case by simp
next
  case (Cons s symbols)
  show ?case
  proof (cases "success (rs k)")
    case True
    show ?thesis
    proof (cases "history_of_response L (fst s) (snd s) (data (rs k))")
      case (Inl e')
      with True Cons.prems show ?thesis by (simp add: Let_def)
    next
      case (Inr r)
      with True Cons.prems have
        "history_loop L rs (Suc k) symbols
           (job\<lparr>processed_items := processed_items job + snd r\<rparr>) (acc @ fst r)
         = Inl (e, job')"
        by (simp add: Let_def split_beta)
      from Cons.IH [OF this] show ?thesis by simp
    qed
  next
    case False
    with Cons.prems have
      "history_loop L rs (Suc k) symbols (job\<lparr>failed_items := failed_items job + 1\<rparr>) acc
       = Inl (e, job')"
      by (simp add: Let_def)
    from Cons.IH [OF this] show ?thesis by simp
  qed
qed

lemma screeners_of_records_length:
  "screeners_of_records L ty i records = Inr screeners \<Longrightarrow> length screeners = length records"
proof (induction records arbitrary: screeners i)
  case Nil
  then show ?case by simp
next
  case (Cons r records)
  then show ?case
    by (auto split: pyval.splits option.splits sum.splits)
qed

lemma screeners_of_response_count:
  "screeners_of_response L ty payload = Inr (screeners, n) \<Longrightarrow> n = int (length screeners)"
  by (auto simp: screeners_of_response_def dest: screeners_of_records_length
      split: pyval.splits sum.splits if_splits)

lemma screener_loop_Inr:
  "screener_loop L rs k symbols job acc = Inr (job', acc') \<Longrightarrow>
   processed_items job' - int (length acc') = processed_items job - int (length acc)
   \<and> failed_items job' = failed_items job + int (length (unsuccessful rs k (length symbols)))
   \<and> total_items job' = total_items job \<and> status job' = status job"
proof (induction symbols arbitrary: k job acc)
  case Nil
  then show ?case by (simp add: unsuccessful_def)
next
  case (Cons s symbols)
  show ?case
  proof (cases "success (rs k)")
    case True
    with Cons.prems obtain screeners n where ok: "screeners_of_response L s (data (rs k)) = Inr (screeners, n)"
      and "screener_loop L rs (Suc k) symbols
         (job\<lparr>processed_items := processed_items job + n\<rparr>) (acc @ screeners) = Inr (job', acc')"
      by (auto simp: Let_def split: sum.splits)
    from Cons.IH [OF this(2)] screeners_of_response_count [OF ok] True show ?thesis
      by (simp add: unsuccessful_Cons)
  next
    case False
    with Cons.prems have
      "screener_loop L rs (Suc k) symbols (job\<lparr>failed_items := failed_items job + 1\<rparr>) acc
       = Inr (job', acc')"
      by (simp add: Let_def)
    from Cons.IH [OF this] False show ?thesis
      by (simp add: unsuccessful_Cons)
  qed
qed

lemma screener_loop_Inl:
  "screener_loop L rs k symbols job acc = Inl (e, job') \<Longrightarrow> total_items job' = total_items job"
proof (induction symbols arbitrary: k job acc)
  case Nil
  then show ?case by simp
next
  case (Cons s symbols)
  show ?case
  proof (cases "success (rs k)")
    case True
    show ?thesis
    proof (cases "screeners_of_response L s (data (rs k))")
      case (Inl e')
      with True Cons.prems show ?thesis by (simp add: Let_def)
    next
      case (Inr r)
      with True Cons.prems have
        "screener_loop L rs (Suc k) symbols
           (job\<lparr>processed_items := processed_items job + snd r\<rparr>) (acc @ fst r)
         = Inl (e, job')"
        by (simp add: Let_def split_beta)
      from Cons.IH [OF this] show ?thesis by simp
    qed
  next
    case False
    with Cons.prems have
      "screener_loop L rs (Suc k) symbols (job\<lparr>failed_items := failed_items job + 1\<rparr>) acc
       = Inl (e, job')"
      by (simp add: Let_def)
    from Cons.IH [OF this] show ?thesis by simp
  qed
qed

lemma news_loop_finishes:
  "news_calls_ok rs k symbols \<Longrightarrow> \<exists>job' acc'. news_loop rs k symbols job acc = Inr (job', acc')"
proof (induction symbols arbitrary: k job acc)
  case Nil
  then show ?case by simp
next
  case (Cons s symbols)
  then show ?case
    by (cases "news_of_response s (data (rs k))") (auto simp: Let_def no_raise_def)
qed

lemma quotes_loop_finishes:
  "quotes_calls_ok L rs k batches \<Longrightarrow>
   \<exists>job' acc'. quotes_loop L rs k batches job acc = Inr (job', acc')"
proof (induction batches arbitrary: k job acc)
  case Nil
  then show ?case by simp
next
  case (Cons b batches)
  then show ?case
    by (cases "parse_quotes_response L (data (rs k))") (auto simp: Let_def no_raise_def)
qed

lemma failed_symbols_nonneg: "0 \<le> failed_symbols rs k batches"
  by (induction batches arbitrary: k) auto

lemma news_loop_processed:
  "news_loop rs k symbols job acc = Inr (job', acc') \<Longrightarrow>
   processed_items job' = processed_items job + news_processed rs k symbols"
proof (induction symbols arbitrary: k job acc)
  case Nil
  then show ?case by simp
next
  case (Cons s symbols)
  show ?case
  proof (cases "success (rs k)")
    case True
    with Cons.prems obtain news n where ok: "news_of_response s (data (rs k)) = Inr (news, n)"
      and "news_loop rs (Suc k) symbols
         (job\<lparr>processed_items := processed_items job + n\<rparr>) (acc @ news) = Inr (job', acc')"
      by (auto simp: Let_def split: sum.splits)
    from Cons.IH [OF this(2)] news_of_response_count [OF ok] ok True show ?thesis
      by simp
  next
    case False
    with Cons.prems have
      "news_loop rs (Suc k) symbols (job\<lparr>failed_items := failed_items job + 1\<rparr>) acc
       = Inr (job', acc')"
      by (simp add: Let_def)
    from Cons.IH [OF this] False show ?thesis
      by simp
  qed
qed

lemma quotes_loop_processed:
  "quotes_loop L rs k batches job acc = Inr (job', acc') \<Longrightarrow>
   processed_items job' = processed_items job + quotes_processed L rs k batches"
proof (induction batches arbitrary: k job acc)
  case Nil
  then show ?case by simp
next
  case (Cons b batches)
  show ?case
  proof (cases "success (rs k)")
    case True
    with Cons.prems obtain quotes where ok: "parse_quotes_response L (data (rs k)) = Inr quotes"
      and "quotes_loop L rs (Suc k) batches
         (job\<lparr>processed_items := processed_items job + int (length quotes)\<rparr>) (acc @ quotes)
       = Inr (job', acc')"
      by (auto simp: Let_def split: sum.splits)
    from Cons.IH [OF this(2)] ok True show ?thesis by simp
  next
    case False
    with Cons.prems have
      "quotes_loop L rs (Suc k) batches
         (job\<lparr>failed_items := failed_items job + int (length b)\<rparr>) acc
       = Inr (job', acc')"
      by (simp add: Let_def)
    from Cons.IH [OF this] False show ?thesis by simp
  qed
qed

lemma tickers_loop_finishes:
  "tickers_calls_ok L rs k calls \<Longrightarrow>
   \<exists>job' acc'. tickers_loop L rs k calls job acc = Inr (job', acc')"
proof (induction calls arbitrary: k job acc)
  case Nil
  then show ?case by simp
next
  case (Cons c calls)
  then show ?case
    by (cases "parse_tickers_response L (data (rs k))") (auto simp: Let_def no_raise_def)
qed

lemma history_loop_finishes:
  "history_calls_ok L rs k calls \<Longrightarrow> \<exists>job' acc'. history_loop L rs k calls job acc = Inr (job', acc')"
proof (induction calls arbitrary: k job acc)
  case Nil
  then show ?case by simp
next
  case (Cons s calls)
  then show ?case
    by (cases "history_of_response L (fst s) (snd s) (data (rs k))") (auto simp: Let_def no_raise_def)
qed

lemma screener_loop_finishes:
  "screener_calls_ok L rs k calls \<Longrightarrow> \<exists>job' acc'. screener_loop L rs k calls job acc = Inr (job', acc')"
proof (induction calls arbitrary: k job acc)
  case Nil
  then show ?case by simp
next
  case (Cons s calls)
  then show ?case
    by (cases "screeners_of_response L s (data (rs k))") (auto simp: Let_def no_raise_def)
qed

lemma tickers_loop_processed:
  "tickers_loop L rs k calls job acc = Inr (job', acc') \<Longrightarrow>
   processed_items job' = processed_items job + tickers_processed L rs k calls"
proof (induction calls arbitrary: k job acc)
  case Nil
  then show ?case by simp
next
  case (Cons c calls)
  show ?case
  proof (cases "success (rs k)")
    case True
    with Cons.prems obtain stocks where ok: "parse_tickers_response L (data (rs k)) = Inr stocks"
      and "tickers_loop L rs (Suc k) calls
         (job\<lparr>processed_items := processed_items job + int (length stocks)\<rparr>) (acc @ stocks)
       = Inr (job', acc')"
      by (auto simp: Let_def split: sum.splits)
    from Cons.IH [OF this(2)] ok True show ?thesis by simp
  next
    case False
    with Cons.prems have
      "tickers_loop L rs (Suc k) calls
         (job\<lparr>failed_items := failed_items job + 1\<rparr>) acc
       = Inr (job', acc')"
      by (simp add: Let_def)
    from Cons.IH [OF this] False show ?thesis by simp
  qed
qed

lemma history_loop_processed:
  "history_loop L rs k calls job acc = Inr (job', acc') \<Longrightarrow>
   processed_items job' = processed_items job + history_processed L rs k calls"
proof (induction calls arbitrary: k job acc)
  case Nil
  then show ?case by simp
next
  case (Cons s calls)
  show ?case
  proof (cases "success (rs k)")
    case True
    with Cons.prems obtain history n where ok: "history_of_response L (fst s) (snd s) (data (rs k)) = Inr (history, n)"
      and "history_loop L rs (Suc k) calls
         (job\<lparr>processed_items := processed_items job + n\<rparr>) (acc @ history) = Inr (job', acc')"
      by (auto simp: Let_def split: sum.splits)
    from Cons.IH [OF this(2)] history_of_response_count [OF ok] ok True show ?thesis
      by simp
  next
    case False
    with Cons.prems have
      "history_loop L rs (Suc k) calls (job\<lparr>failed_items := failed_items job + 1\<rparr>) acc
       = Inr (job', acc')"
      by (simp add: Let_def)
    from Cons.IH [OF this] False show ?thesis
      by simp
  qed
qed

lemma screener_loop_processed:
  "screener_loop L rs k calls job acc = Inr (job', acc') \<Longrightarrow>
   processed_items job' = processed_items job + screener_processed L rs k calls"
proof (induction calls arbitrary: k job acc)
  case Nil
  then show ?case by simp
next
  case (Cons s calls)
  show ?case
  proof (cases "success (rs k)")
    case True
    with Cons.prems obtain screeners n where ok: "screeners_of_response L s (data (rs k)) = Inr (screeners, n)"
      and "screener_loop L rs (Suc k) calls
         (job\<lparr>processed_items := processed_items job + n\<rparr>) (acc @ screeners) = Inr (job', acc')"
      by (auto simp: Let_def split: sum.splits)
    from Cons.IH [OF this(2)] screeners_of_response_count [OF ok] ok True show ?thesis
      by simp
  next
    case False
    with Cons.prems have
      "screener_loop L rs (Suc k) calls (job\<lparr>failed_items := failed_items job + 1\<rparr>) acc
       = Inr (job', acc')"
      by (simp add: Let_def)
    from Cons.IH [OF this] False show ?thesis
      by simp
  qed
qed

lemma news_extract_completed:
  assumes "news_calls_ok rs 0 symbols"
  shows "status (StockNewsExtractor_extract now rs None symbols) = COMPLETED
    \<and> failed_items (StockNewsExtractor_extract now rs None symbols)
        = int (length (unsuccessful rs 0 (length symbols)))
    \<and> processed_items (StockNewsExtractor_extract now rs None symbols)
        = news_processed rs 0 symbols"
proof -
  let ?job = "(create_job now ''extract'' STOCK_NEWS)\<lparr>status := RUNNING\<rparr>"
  from news_loop_finishes [OF assms] obtain job' acc'
    where run: "news_loop rs 0 symbols ?job [] = Inr (job', acc')"
    by blast
  from news_loop_Inr [OF run] news_loop_processed [OF run] run show ?thesis
    by (simp add: StockNewsExtractor_extract_def finish_job_def create_job_def Let_def)
qed

lemma quotes_extract_completed:
  assumes "symbol_batches batch_size symbols = Inr bs" and "quotes_calls_ok L rs 0 bs"
  shows "status (StockQuotesExtractor_extract L now rs None batch_size symbols) = COMPLETED
    \<and> failed_items (StockQuotesExtractor_extract L now rs None batch_size symbols)
        = failed_symbols rs 0 bs
    \<and> processed_items (StockQuotesExtractor_extract L now rs None batch_size symbols)
        = quotes_processed L rs 0 bs"
proof -
  let ?job = "(create_job now ''extract'' STOCK_QUOTES)\<lparr>status := RUNNING\<rparr>"
  from quotes_loop_finishes [OF assms(2)] obtain job' acc'
    where run: "quotes_loop L rs 0 bs ?job [] = Inr (job', acc')"
    by blast
  from quotes_loop_Inr [OF run] quotes_loop_processed [OF run] run assms(1) show ?thesis
    by (simp add: StockQuotesExtractor_extract_def finish_job_def create_job_def Let_def)
qed

lemma tickers_extract_completed:
  assumes "tickers_calls_ok L rs 0 (tickers_sub_calls pages types)"
  shows "status (MarketTickersExtractor_extract L now rs None pages types) = COMPLETED
    \<and> failed_items (MarketTickersExtractor_extract L now rs None pages types)
        = int (length (unsuccessful rs 0
            (length (tickers_sub_calls pages types))))
    \<and> processed_items (MarketTickersExtractor_extract L now rs None pages types)
        = tickers_processed L rs 0 (tickers_sub_calls pages types)"
proof -
  let ?job = "(create_job now ''extract'' MARKET_TICKERS)\<lparr>status := RUNNING\<rparr>"
  let ?calls = "tickers_sub_calls pages types"
  from tickers_loop_finishes [OF assms] obtain job' acc'
    where run: "tickers_loop L rs 0 ?calls ?job [] = Inr (job', acc')"
    by blast
  from tickers_loop_Inr [OF run] tickers_loop_processed [OF run] run show ?thesis
    by (simp add: MarketTickersExtractor_extract_def finish_job_def create_job_def Let_def)
qed

lemma history_extract_completed:
  assumes "history_calls_ok L rs 0 (history_sub_calls symbols intervals)"
  shows "status (StockHistoryExtractor_extract L now rs None symbols intervals) = COMPLETED
    \<and> failed_items (StockHistoryExtractor_extract L now rs None symbols intervals)
        = int (length (unsuccessful rs 0
            (length (history_sub_calls symbols intervals))))
    \<and> processed_items (StockHistoryExtractor_extract L now rs None symbols intervals)
        = history_processed L rs 0 (history_sub_calls symbols intervals)"
proof -
  let ?job = "(create_job now ''extract'' STOCK_HISTORY)\<lparr>status := RUNNING\<rparr>"
  let ?calls = "history_sub_calls symbols intervals"
  from history_loop_finishes [OF assms] obtain job' acc'
    where run: "history_loop L rs 0 ?calls ?job [] = Inr (job', acc')"
    by blast
  from history_loop_Inr [OF run] history_loop_processed [OF run] run show ?thesis
    by (simp add: StockHistoryExtractor_extract_def finish_job_def create_job_def Let_def)
qed

lemma screener_extract_completed:
  assumes "screener_calls_ok L rs 0 screener_lists"
  shows "status (MarketScreenerExtractor_extract L now rs None screener_lists) = COMPLETED
    \<and> failed_items (MarketScreenerExtractor_extract L now rs None screener_lists)
        = int (length (unsuccessful rs 0 (length screener_lists)))
    \<and> processed_items (MarketScreenerExtractor_extract L now rs None screener_lists)
        = screener_processed L rs 0 screener_lists"
proof -
  let ?job = "(create_job now ''extract'' MARKET_SCREENERS)\<lparr>status := RUNNING\<rparr>"
  from screener_loop_finishes [OF assms] obtain job' acc'
    where run: "screener_loop L rs 0 screener_lists ?job [] = Inr (job', acc')"
    by blast
  from screener_loop_Inr [OF run] screener_loop_processed [OF run] run show ?thesis
    by (simp add: MarketScreenerExtractor_extract_def finish_job_def create_job_def Let_def)
qed

lemma one_news_D:
  "one_news s r \<Longrightarrow> \<exists>news. news_of_response s (data r) = Inr (news, 1) \<and> length news = 1"
  by (auto simp: one_news_def split: sum.splits)

lemma one_quote_D:
  "one_quote L r \<Longrightarrow> \<exists>quotes. parse_quotes_response L (data r) = Inr quotes \<and> length quotes = 1"
  by (auto simp: one_quote_def split: sum.splits)

lemma three_calls: "unsuccessful rs 0 3 = filter (\<lambda>i. \<not> success (rs i)) [0, 1, 2]"
proof -
  have "[0..<3] = [0, 1, 2]"
    by (simp add: upt_rec)
  then show ?thesis
    by (simp add: unsuccessful_def)
qed

lemma three_batches: "symbol_batches 1 [a, b, c] = Inr [[a], [b], [c]]"
  by (simp add: symbol_batches_def)

lemma news_scenario:
  assumes one: "length (unsuccessful rs 0 3) = 1"
    and others: "list_all (\<lambda>(i, s). \<not> success (rs i) \<or> one_news s (rs i)) [(0, a), (1, b), (2, c)]"
  shows "status (StockNewsExtractor_extract now rs None [a, b, c]) = COMPLETED
    \<and> processed_items (StockNewsExtractor_extract now rs None [a, b, c]) = 2
    \<and> failed_items (StockNewsExtractor_extract now rs None [a, b, c]) = 1"
proof -
  from others have ok: "news_calls_ok rs 0 [a, b, c]"
    by (auto simp: no_raise_def numeral_2_eq_2 dest!: one_news_D)
  have "news_processed rs 0 [a, b, c] = 2"
    using one others unfolding three_calls
    by (auto simp: numeral_2_eq_2 dest!: one_news_D split: if_splits)
  moreover have "length [a, b, c] = 3"
    by simp
  ultimately show ?thesis
    using news_extract_completed [OF ok, of now] one by (simp del: list.size)
qed

lemma quotes_scenario:
  assumes one: "length (unsuccessful rs 0 3) = 1"
    and others: "list_all (\<lambda>i. \<not> success (rs i) \<or> one_quote L (rs i)) [0, 1, 2]"
  shows "status (StockQuotesExtractor_extract L now rs None 1 [a, b, c]) = COMPLETED
    \<and> processed_items (StockQuotesExtractor_extract L now rs None 1 [a, b, c]) = 2
    \<and> failed_items (StockQuotesExtractor_extract L now rs None 1 [a, b, c]) = 1"
proof -
  from others have ok: "quotes_calls_ok L rs 0 [[a], [b], [c]]"
    by (auto simp: no_raise_def numeral_2_eq_2 dest!: one_quote_D)
  have "quotes_processed L rs 0 [[a], [b], [c]] = 2"
    using one others unfolding three_calls
    by (auto simp: numeral_2_eq_2 dest!: one_quote_D split: if_splits)
  moreover have "failed_symbols rs 0 [[a], [b], [c]] = 1"
    using one unfolding three_calls
    by (auto simp: numeral_2_eq_2 split: if_splits)
  ultimately show ?thesis
    using quotes_extract_completed [OF three_batches ok, of now] by simp
qed

lemma one_history_D:
  "one_history L s iv r \<Longrightarrow>
   \<exists>history. history_of_response L s iv (data r) = Inr (history, 1) \<and> length history = 1"
  by (auto simp: one_history_def split: sum.splits)

lemma three_history_calls: "history_sub_calls [a, b, c] [iv] = [(a, iv), (b, iv), (c, iv)]"
  by (simp add: history_sub_calls_def)

lemma history_scenario:
  assumes one: "length (unsuccessful rs 0 3) = 1"
    and others: "list_all (\<lambda>(i, s). \<not> success (rs i) \<or> one_history L s iv (rs i))
            [(0, a), (1, b), (2, c)]"
  shows "status (StockHistoryExtractor_extract L now rs None [a, b, c] [iv]) = COMPLETED
    \<and> processed_items (StockHistoryExtractor_extract L now rs None [a, b, c] [iv]) = 2
    \<and> failed_items (StockHistoryExtractor_extract L now rs None [a, b, c] [iv]) = 1"
proof -
  from others have ok: "history_calls_ok L rs 0 (history_sub_calls [a, b, c] [iv])"
    unfolding three_history_calls
    by (auto simp: no_raise_def numeral_2_eq_2 dest!: one_history_D)
  have "history_processed L rs 0 (history_sub_calls [a, b, c] [iv]) = 2"
    using one others unfolding three_calls three_history_calls
    by (auto simp: numeral_2_eq_2 dest!: one_history_D split: if_splits)
  moreover have "length (history_sub_calls [a, b, c] [iv]) = 3"
    unfolding three_history_calls by simp
  ultimately show ?thesis
    using history_extract_completed [OF ok, of now] one by simp
qed

text \<open>
  Claim C1, as amended.  In each of the five extractors an unsuccessful response adds to
  \<open>failed_items\<close> (the size of the batch in the quotes extractor, 1 in the others) and
  the loop goes on with the next sub-call.  When no successful response makes the parsing
  raise and the files are written, the returned job is \<open>COMPLETED\<close>, whatever the number
  of unsuccessful sub-calls; \<open>failed_items\<close> counts them.  \<open>processed_items\<close> counts
  parsed records, not calls: over three symbols with one call each (the quotes extractor
  with a batch size of 1, the history extractor with one interval, the news extractor),
  where exactly one call is unsuccessful and each of the two others yields exactly one
  record, the job is \<open>COMPLETED\<close> with \<open>processed_items = 2\<close> and \<open>failed_items = 1\<close>.
\<close>

theorem sub_call_failure_does_not_abort:
  "(\<not> success (responses k) \<longrightarrow>
      tickers_loop L responses k (page_type # pages_rest) job all_stocks =
        tickers_loop L responses (Suc k) pages_rest
          (job\<lparr>failed_items := failed_items job + 1\<rparr>) all_stocks
      \<and> quotes_loop L responses k (batch # batches) job all_quotes =
        quotes_loop L responses (Suc k) batches
          (job\<lparr>failed_items := failed_items job + int (length batch)\<rparr>) all_quotes
      \<and> history_loop L responses k (symbol_interval # history_rest) job all_history =
        history_loop L responses (Suc k) history_rest
          (job\<lparr>failed_items := failed_items job + 1\<rparr>) all_history
      \<and> screener_loop L responses k (screener_type # screeners_rest) job all_screeners =
        screener_loop L responses (Suc k) screeners_rest
          (job\<lparr>failed_items := failed_items job + 1\<rparr>) all_screeners
      \<and> news_loop responses k (symb # rest) job all_news =
        news_loop responses (Suc k) rest
          (job\<lparr>failed_items := failed_items job + 1\<rparr>) all_news)
   \<and> (tickers_calls_ok L responses 0 (tickers_sub_calls pages types) \<longrightarrow>
      status (MarketTickersExtractor_extract L now responses None pages types) = COMPLETED
      \<and> failed_items (MarketTickersExtractor_extract L now responses None pages types)
          = int (length (unsuccessful responses 0 (length (tickers_sub_calls pages types))))
      \<and> processed_items (MarketTickersExtractor_extract L now responses None pages types)
          = tickers_processed L responses 0 (tickers_sub_calls pages types))
   \<and> (symbol_batches batch_size symbols = Inr bs \<and> quotes_calls_ok L responses 0 bs \<longrightarrow>
      status (StockQuotesExtractor_extract L now responses None batch_size symbols) = COMPLETED
      \<and> failed_items (StockQuotesExtractor_extract L now responses None batch_size symbols)
          = failed_symbols responses 0 bs
      \<and> processed_items (StockQuotesExtractor_extract L now responses None batch_size symbols)
          = quotes_processed L responses 0 bs)
   \<and> (history_calls_ok L responses 0 (history_sub_calls symbols intervals) \<longrightarrow>
      status (StockHistoryExtractor_extract L now responses None symbols intervals) = COMPLETED
      \<and> failed_items (StockHistoryExtractor_extract L now responses None symbols intervals)
          = int (length (unsuccessful responses 0 (length (history_sub_calls symbols intervals))))
      \<and> processed_items (StockHistoryExtractor_extract L now responses None symbols intervals)
          = history_processed L responses 0 (history_sub_calls symbols intervals))
   \<and> (screener_calls_ok L responses 0 screener_lists \<longrightarrow>
      status (MarketScreenerExtractor_extract L now responses None screener_lists) = COMPLETED
      \<and> failed_items (MarketScreenerExtractor_extract L now responses None screener_lists)
          = int (length (unsuccessful responses 0 (length screener_lists)))
      \<and> processed_items (MarketScreenerExtractor_extract L now responses None screener_lists)
          = screener_processed L responses 0 screener_lists)
   \<and> (news_calls_ok responses 0 symbols \<longrightarrow>
      status (StockNewsExtractor_extract now responses None symbols) = COMPLETED
      \<and> failed_items (StockNewsExtractor_extract now responses None symbols)
          = int (length (unsuccessful responses 0 (length symbols)))
      \<and> processed_items (StockNewsExtractor_extract now responses None symbols)
          = news_processed responses 0 symbols)
   \<and> (length (unsuccessful responses 0 3) = 1
       \<and> list_all (\<lambda>i. \<not> success (responses i) \<or> one_quote L (responses i)) [0, 1, 2] \<longrightarrow>
      status (StockQuotesExtractor_extract L now responses None 1 [a, b, c]) = COMPLETED
      \<and> processed_items (StockQuotesExtractor_extract L now responses None 1 [a, b, c]) = 2
      \<and> failed_items (StockQuotesExtractor_extract L now responses None 1 [a, b, c]) = 1)
   \<and> (length (unsuccessful responses 0 3) = 1
       \<and> list_all (\<lambda>(i, s). \<not> success (responses i) \<or> one_history L s iv (responses i))
            [(0, a), (1, b), (2, c)] \<longrightarrow>
      status (StockHistoryExtractor_extract L now responses None [a, b, c] [iv]) = COMPLETED
      \<and> processed_items (StockHistoryExtractor_extract L now responses None [a, b, c] [iv]) = 2
      \<and> failed_items (StockHistoryExtractor_extract L now responses None [a, b, c] [iv]) = 1)
   \<and> (length (unsuccessful responses 0 3) = 1
       \<and> list_all (\<lambda>(i, s). \<not> success (responses i) \<or> one_news s (responses i))
            [(0, a), (1, b), (2, c)] \<longrightarrow>
      status (StockNewsExtractor_extract now responses None [a, b, c]) = COMPLETED
      \<and> processed_items (StockNewsExtractor_extract now responses None [a, b, c]) = 2
      \<and> failed_items (StockNewsExtractor_extract now responses None [a, b, c]) = 1)"
proof (intro conjI impI)
  assume "\<not> success (responses k)"
  then show "tickers_loop L responses k (page_type # pages_rest) job all_stocks =
        tickers_loop L responses (Suc k) pages_rest
          (job\<lparr>failed_items := failed_items job + 1\<rparr>) all_stocks"
    and "quotes_loop L responses k (batch # batches) job all_quotes =
        quotes_loop L responses (Suc k) batches
          (job\<lparr>failed_items := failed_items job + int (length batch)\<rparr>) all_quotes"
    and "history_loop L responses k (symbol_interval # history_rest) job all_history =
        history_loop L responses (Suc k) history_rest
          (job\<lparr>failed_items := failed_items job + 1\<rparr>) all_history"
    and "screener_loop L responses k (screener_type # screeners_rest) job all_screeners =
        screener_loop L responses (Suc k) screeners_rest
          (job\<lparr>failed_items := failed_items job + 1\<rparr>) all_screeners"
    and "news_loop responses k (symb # rest) job all_news =
        news_loop responses (Suc k) rest
          (job\<lparr>failed_items := failed_items job + 1\<rparr>) all_news"
    by (simp_all add: Let_def)
next
  assume ok: "tickers_calls_ok L responses 0 (tickers_sub_calls pages types)"
  from tickers_extract_completed [OF ok, of now]
  show "status (MarketTickersExtractor_extract L now responses None pages types) = COMPLETED"
    and "failed_items (MarketTickersExtractor_extract L now responses None pages types)
          = int (length (unsuccessful responses 0 (length (tickers_sub_calls pages types))))"
    and "processed_items (MarketTickersExtractor_extract L now responses None pages types)
          = tickers_processed L responses 0 (tickers_sub_calls pages types)"
    by simp_all
next
  assume "symbol_batches batch_size symbols = Inr bs \<and> quotes_calls_ok L responses 0 bs"
  then have b: "symbol_batches batch_size symbols = Inr bs" and ok: "quotes_calls_ok L responses 0 bs"
    by simp_all
  from quotes_extract_completed [OF b ok, of now]
  show "status (StockQuotesExtractor_extract L now responses None batch_size symbols) = COMPLETED"
    and "failed_items (StockQuotesExtractor_extract L now responses None batch_size symbols)
          = failed_symbols responses 0 bs"
    and "processed_items (StockQuotesExtractor_extract L now responses None batch_size symbols)
          = quotes_processed L responses 0 bs"
    by simp_all
next
  assume ok: "history_calls_ok L responses 0 (history_sub_calls symbols intervals)"
  from history_extract_completed [OF ok, of now]
  show "status (StockHistoryExtractor_extract L now responses None symbols intervals) = COMPLETED"
    and "failed_items (StockHistoryExtractor_extract L now responses None symbols intervals)
          = int (length (unsuccessful responses 0 (length (history_sub_calls symbols intervals))))"
    and "processed_items (StockHistoryExtractor_extract L now responses None symbols intervals)
          = history_processed L responses 0 (history_sub_calls symbols intervals)"
    by simp_all
next
  assume ok: "screener_calls_ok L responses 0 screener_lists"
  from screener_extract_completed [OF ok, of now]
  show "status (MarketScreenerExtractor_extract L now responses None screener_lists) = COMPLETED"
    and "failed_items (MarketScreenerExtractor_extract L now responses None screener_lists)
          = int (length (unsuccessful responses 0 (length screener_lists)))"
    and "processed_items (MarketScreenerExtractor_extract L now responses None screener_lists)
          = screener_processed L responses 0 screener_lists"
    by simp_all
next
  assume ok: "news_calls_ok responses 0 symbols"
  from news_extract_completed [OF ok, of now]
  show "status (StockNewsExtractor_extract now responses None symbols) = COMPLETED"
    and "failed_items (StockNewsExtractor_extract now responses None symbols)
          = int (length (unsuccessful responses 0 (length symbols)))"
    and "processed_items (StockNewsExtractor_extract now responses None symbols)
          = news_processed responses 0 symbols"
    by simp_all
next
  assume "length (unsuccessful responses 0 3) = 1
       \<and> list_all (\<lambda>i. \<not> success (responses i) \<or> one_quote L (responses i)) [0, 1, 2]"
  then have one: "length (unsuccessful responses 0 3) = 1"
    and others: "list_all (\<lambda>i. \<not> success (responses i) \<or> one_quote L (responses i)) [0, 1, 2]"
    by simp_all
  from quotes_scenario [OF one others, of now a b c]
  show "status (StockQuotesExtractor_extract L now responses None 1 [a, b, c]) = COMPLETED"
    and "processed_items (StockQuotesExtractor_extract L now responses None 1 [a, b, c]) = 2"
    and "failed_items (StockQuotesExtractor_extract L now responses None 1 [a, b, c]) = 1"
    by simp_all
next
  assume "length (unsuccessful responses 0 3) = 1
       \<and> list_all (\<lambda>(i, s). \<not> success (responses i) \<or> one_history L s iv (responses i))
            [(0, a), (1, b), (2, c)]"
  then have one: "length (unsuccessful responses 0 3) = 1"
    and others: "list_all (\<lambda>(i, s). \<not> success (responses i) \<or> one_history L s iv (responses i))
            [(0, a), (1, b), (2, c)]"
    by simp_all
  from history_scenario [OF one others, of now]
  show "status (StockHistoryExtractor_extract L now responses None [a, b, c] [iv]) = COMPLETED"
    and "processed_items (StockHistoryExtractor_extract L now responses None [a, b, c] [iv]) = 2"
    and "failed_items (StockHistoryExtractor_extract L now responses None [a, b, c] [iv]) = 1"
    by simp_all
next
  assume "length (unsuccessful responses 0 3) = 1
       \<and> list_all (\<lambda>(i, s). \<not> success (responses i) \<or> one_news s (responses i))
            [(0, a), (1, b), (2, c)]"
  then have one: "length (unsuccessful responses 0 3) = 1"
    and others: "list_all (\<lambda>(i, s). \<not> success (responses i) \<or> one_news s (responses i))
            [(0, a), (1, b), (2, c)]"
    by simp_all
  from news_scenario [OF one others, of now]
  show "status (StockNewsExtractor_extract now responses None [a, b, c]) = COMPLETED"
    and "processed_items (StockNewsExtractor_extract now responses None [a, b, c]) = 2"
    and "failed_items (StockNewsExtractor_extract now responses None [a, b, c]) = 1"
    by simp_all
qed

theorem sub_call_failure_does_not_abort_witness:
  "\<not> success (one_each_news_responses 1)
   \<and> tickers_calls_ok ref_lib (\<lambda>k. quote_response ''AAPL'') 0 (tickers_sub_calls 2 [''STOCKS''])
   \<and> symbol_batches 1 [''AAPL'', ''MSFT'', ''GOOGL''] = Inr [[''AAPL''], [''MSFT''], [''GOOGL'']]
   \<and> quotes_calls_ok ref_lib one_each_quote_responses 0 [[''AAPL''], [''MSFT''], [''GOOGL'']]
   \<and> length (unsuccessful one_each_quote_responses 0 3) = 1
   \<and> list_all (\<lambda>i. \<not> success (one_each_quote_responses i) \<or> one_quote ref_lib (one_each_quote_responses i))
        [0, 1, 2]
   \<and> history_calls_ok ref_lib one_each_history_responses 0 (history_sub_calls [''AAPL'', ''MSFT'', ''GOOGL''] [''1d''])
   \<and> length (unsuccessful one_each_history_responses 0 3) = 1
   \<and> list_all (\<lambda>(i, s). \<not> success (one_each_history_responses i)
          \<or> one_history ref_lib s ''1d'' (one_each_history_responses i))
        [(0, ''AAPL''), (1, ''MSFT''), (2, ''GOOGL'')]
   \<and> screener_calls_ok ref_lib one_each_quote_responses 0 [''day_gainers'', ''day_losers'', ''most_actives'']
   \<and> news_calls_ok one_each_news_responses 0 [''AAPL'', ''MSFT'', ''GOOGL'']
   \<and> length (unsuccessful one_each_news_responses 0 3) = 1
   \<and> list_all (\<lambda>(i, s). \<not> success (one_each_news_responses i) \<or> one_news s (one_each_news_responses i))
        [(0, ''AAPL''), (1, ''MSFT''), (2, ''GOOGL'')]
   \<and> news_loop one_each_news_responses 1 [''MSFT'', ''GOOGL''] (create_job 0 ''extract'' STOCK_NEWS) []
     = news_loop one_each_news_responses 2 [''GOOGL'']
         ((create_job 0 ''extract'' STOCK_NEWS)\<lparr>failed_items := 1\<rparr>) []
   \<and> status (MarketTickersExtractor_extract ref_lib 0 (\<lambda>k. quote_response ''AAPL'') None 2 [''STOCKS'']) = COMPLETED
   \<and> status (MarketScreenerExtractor_extract ref_lib 0 one_each_quote_responses None
        [''day_gainers'', ''day_losers'', ''most_actives'']) = COMPLETED
   \<and> status (StockQuotesExtractor_extract ref_lib 0 one_each_quote_responses None 1
        [''AAPL'', ''MSFT'', ''GOOGL'']) = COMPLETED
   \<and> processed_items (StockQuotesExtractor_extract ref_lib 0 one_each_quote_responses None 1
        [''AAPL'', ''MSFT'', ''GOOGL'']) = 2
   \<and> failed_items (StockQuotesExtractor_extract ref_lib 0 one_each_quote_responses None 1
        [''AAPL'', ''MSFT'', ''GOOGL'']) = 1
   \<and> status (StockHistoryExtractor_extract ref_lib 0 one_each_history_responses None
        [''AAPL'', ''MSFT'', ''GOOGL''] [''1d'']) = COMPLETED
   \<and> processed_items (StockHistoryExtractor_extract ref_lib 0 one_each_history_responses None
        [''AAPL'', ''MSFT'', ''GOOGL''] [''1d'']) = 2
   \<and> failed_items (StockHistoryExtractor_extract ref_lib 0 one_each_history_responses None
        [''AAPL'', ''MSFT'', ''GOOGL''] [''1d'']) = 1
   \<and> status (StockNewsExtractor_extract 0 one_each_news_responses None
        [''AAPL'', ''MSFT'', ''GOOGL'']) = COMPLETED
   \<and> processed_items (StockNewsExtractor_extract 0 one_each_news_responses None
        [''AAPL'', ''MSFT'', ''GOOGL'']) = 2
   \<and> failed_items (StockNewsExtractor_extract 0 one_each_news_responses None
        [''AAPL'', ''MSFT'', ''GOOGL'']) = 1"
proof -
  have n1: "\<not> success (one_each_news_responses 1)"
    by code_simp
  have t2: "tickers_calls_ok ref_lib (\<lambda>k. quote_response ''AAPL'') 0 (tickers_sub_calls 2 [''STOCKS''])"
    by code_simp
  have q1: "symbol_batches 1 [''AAPL'', ''MSFT'', ''GOOGL''] = Inr [[''AAPL''], [''MSFT''], [''GOOGL'']]"
    by (rule three_batches)
  have q2: "quotes_calls_ok ref_lib one_each_quote_responses 0 [[''AAPL''], [''MSFT''], [''GOOGL'']]"
    by code_simp
  have q3: "length (unsuccessful one_each_quote_responses 0 3) = 1"
    by code_simp
  have q4: "list_all (\<lambda>i. \<not> success (one_each_quote_responses i) \<or> one_quote ref_lib (one_each_quote_responses i))
        [0, 1, 2]"
    by code_simp
  have h2: "history_calls_ok ref_lib one_each_history_responses 0 (history_sub_calls [''AAPL'', ''MSFT'', ''GOOGL''] [''1d''])"
    by code_simp
  have h3: "length (unsuccessful one_each_history_responses 0 3) = 1"
    by code_simp
  have h4: "list_all (\<lambda>(i, s). \<not> success (one_each_history_responses i)
          \<or> one_history ref_lib s ''1d'' (one_each_history_responses i))
        [(0, ''AAPL''), (1, ''MSFT''), (2, ''GOOGL'')]"
    by code_simp
  have s2: "screener_calls_ok ref_lib one_each_quote_responses 0 [''day_gainers'', ''day_losers'', ''most_actives'']"
    by code_simp
  have n2: "news_calls_ok one_each_news_responses 0 [''AAPL'', ''MSFT'', ''GOOGL'']"
    by code_simp
  have n3: "length (unsuccessful one_each_news_responses 0 3) = 1"
    by code_simp
  have n4: "list_all (\<lambda>(i, s). \<not> success (one_each_news_responses i) \<or> one_news s (one_each_news_responses i))
        [(0, ''AAPL''), (1, ''MSFT''), (2, ''GOOGL'')]"
    by code_simp
  from sub_call_failure_does_not_abort
         [where responses = one_each_news_responses and k = 1 and symb = "''MSFT''"
            and rest = "[''GOOGL'']" and job = "create_job 0 ''extract'' STOCK_NEWS"
            and all_news = "[]", THEN conjunct1] n1
  have step: "news_loop one_each_news_responses 1 [''MSFT'', ''GOOGL''] (create_job 0 ''extract'' STOCK_NEWS) []
     = news_loop one_each_news_responses 2 [''GOOGL'']
         ((create_job 0 ''extract'' STOCK_NEWS)\<lparr>failed_items := 1\<rparr>) []"
    by (simp add: create_job_def numeral_2_eq_2)
  from sub_call_failure_does_not_abort
         [where responses = "\<lambda>k. quote_response ''AAPL''" and L = ref_lib and now = 0
            and pages = 2 and types = "[''STOCKS'']", THEN conjunct2, THEN conjunct1] t2
  have tickers: "status (MarketTickersExtractor_extract ref_lib 0 (\<lambda>k. quote_response ''AAPL'') None 2 [''STOCKS'']) = COMPLETED"
    by simp
  from sub_call_failure_does_not_abort
         [where responses = one_each_quote_responses and L = ref_lib and now = 0
            and screener_lists = "[''day_gainers'', ''day_losers'', ''most_actives'']",
          THEN conjunct2, THEN conjunct2, THEN conjunct2, THEN conjunct2, THEN conjunct1] s2
  have screeners: "status (MarketScreenerExtractor_extract ref_lib 0 one_each_quote_responses None
        [''day_gainers'', ''day_losers'', ''most_actives'']) = COMPLETED"
    by simp
  from sub_call_failure_does_not_abort
         [where responses = one_each_quote_responses and now = 0 and L = ref_lib
            and a = "''AAPL''" and b = "''MSFT''" and c = "''GOOGL''", THEN conjunct2, THEN conjunct2, THEN conjunct2, THEN conjunct2, THEN conjunct2, THEN conjunct2, THEN conjunct1] q3 q4
  have quotes: "status (StockQuotesExtractor_extract ref_lib 0 one_each_quote_responses None 1
        [''AAPL'', ''MSFT'', ''GOOGL'']) = COMPLETED
     \<and> processed_items (StockQuotesExtractor_extract ref_lib 0 one_each_quote_responses None 1
        [''AAPL'', ''MSFT'', ''GOOGL'']) = 2
     \<and> failed_items (StockQuotesExtractor_extract ref_lib 0 one_each_quote_responses None 1
        [''AAPL'', ''MSFT'', ''GOOGL'']) = 1"
    by simp
  from sub_call_failure_does_not_abort
         [where responses = one_each_history_responses and now = 0 and L = ref_lib
            and a = "''AAPL''" and b = "''MSFT''" and c = "''GOOGL''" and iv = "''1d''",
          THEN conjunct2, THEN conjunct2, THEN conjunct2, THEN conjunct2, THEN conjunct2, THEN conjunct2, THEN conjunct2, THEN conjunct1] h3 h4
  have history: "status (StockHistoryExtractor_extract ref_lib 0 one_each_history_responses None
        [''AAPL'', ''MSFT'', ''GOOGL''] [''1d'']) = COMPLETED
     \<and> processed_items (StockHistoryExtractor_extract ref_lib 0 one_each_history_responses None
        [''AAPL'', ''MSFT'', ''GOOGL''] [''1d'']) = 2
     \<and> failed_items (StockHistoryExtractor_extract ref_lib 0 one_each_history_responses None
        [''AAPL'', ''MSFT'', ''GOOGL''] [''1d'']) = 1"
    by simp
  from sub_call_failure_does_not_abort
         [where responses = one_each_news_responses and now = 0
            and a = "''AAPL''" and b = "''MSFT''" and c = "''GOOGL''", THEN conjunct2, THEN conjunct2, THEN conjunct2, THEN conjunct2, THEN conjunct2, THEN conjunct2, THEN conjunct2, THEN conjunct2] n3 n4
  have news: "status (StockNewsExtractor_extract 0 one_each_news_responses None
        [''AAPL'', ''MSFT'', ''GOOGL'']) = COMPLETED
     \<and> processed_items (StockNewsExtractor_extract 0 one_each_news_responses None
        [''AAPL'', ''MSFT'', ''GOOGL'']) = 2
     \<and> failed_items (StockNewsExtractor_extract 0 one_each_news_responses None
        [''AAPL'', ''MSFT'', ''GOOGL'']) = 1"
    by simp
  from n1 t2 q1 q2 q3 q4 h2 h3 h4 s2 n2 n3 n4 step tickers screeners quotes history news
  show ?thesis
    by (intro conjI) simp_all
qed

text \<open>
  Claim C1 as stated fails: over three symbols with one call each, where exactly one call
  is unsuccessful, the first call returns two news items and the third returns one; the
  job is \<open>COMPLETED\<close> with \<open>failed_items = 1\<close>, but \<open>processed_items\<close> is 3, not 2.
\<close>

theorem processed_items_counts_records_counterexample:
  "length (unsuccessful mixed_news_responses 0 3) = 1
   \<and> status (StockNewsExtractor_extract 0 mixed_news_responses None
        [''AAPL'', ''MSFT'', ''GOOGL'']) = COMPLETED
   \<and> failed_items (StockNewsExtractor_extract 0 mixed_news_responses None
        [''AAPL'', ''MSFT'', ''GOOGL'']) = 1
   \<and> processed_items (StockNewsExtractor_extract 0 mixed_news_responses None
        [''AAPL'', ''MSFT'', ''GOOGL'']) = 3"
  by code_simp

section \<open>Extractors: \<open>processed_items\<close>, \<open>failed_items\<close> and \<open>total_items\<close>\<close>

lemma finish_job_total:
  assumes "\<And>job' acc'. outcome = Inr (job', acc') \<Longrightarrow>
             processed_items job' = int (length acc') \<and> 0 \<le> failed_items job'"
    and "\<And>e job'. outcome = Inl (e, job') \<Longrightarrow> total_items job' = None"
    and "total_items (finish_job persist outcome) = Some t"
  shows "processed_items (finish_job persist outcome) = t
    \<and> 0 \<le> failed_items (finish_job persist outcome)"
proof (cases outcome)
  case (Inl p)
  obtain e job' where "p = (e, job')"
    by (cases p)
  with Inl assms(2) [of e job'] assms(3) show ?thesis
    by (simp add: finish_job_def)
next
  case (Inr p)
  obtain job' acc' where "p = (job', acc')"
    by (cases p)
  with Inr assms(1) [of job' acc'] assms(3) show ?thesis
    by (auto simp: finish_job_def Let_def split: option.splits)
qed

lemma tickers_total:
  assumes "total_items (MarketTickersExtractor_extract L now rs persist pages types) = Some t"
  shows "processed_items (MarketTickersExtractor_extract L now rs persist pages types) = t
    \<and> 0 \<le> failed_items (MarketTickersExtractor_extract L now rs persist pages types)"
  using assms unfolding MarketTickersExtractor_extract_def Let_def
proof (rule finish_job_total [rotated 2])
  fix job' acc'
  assume "tickers_loop L rs 0
      (tickers_sub_calls pages types)
      ((create_job now ''extract'' MARKET_TICKERS)\<lparr>status := RUNNING\<rparr>) [] = Inr (job', acc')"
  from tickers_loop_Inr [OF this]
  show "processed_items job' = int (length acc') \<and> 0 \<le> failed_items job'"
    by (simp add: create_job_def)
next
  fix e job'
  assume "tickers_loop L rs 0
      (tickers_sub_calls pages types)
      ((create_job now ''extract'' MARKET_TICKERS)\<lparr>status := RUNNING\<rparr>) [] = Inl (e, job')"
  from tickers_loop_Inl [OF this] show "total_items job' = None"
    by (simp add: create_job_def)
qed

lemma quotes_total:
  assumes "total_items (StockQuotesExtractor_extract L now rs persist batch_size symbols) = Some t"
  shows "processed_items (StockQuotesExtractor_extract L now rs persist batch_size symbols) = t
    \<and> 0 \<le> failed_items (StockQuotesExtractor_extract L now rs persist batch_size symbols)"
  using assms unfolding StockQuotesExtractor_extract_def Let_def
proof (rule finish_job_total [rotated 2])
  let ?job = "(create_job now ''extract'' STOCK_QUOTES)\<lparr>status := RUNNING\<rparr>"
  fix job' acc'
  assume "(case symbol_batches batch_size symbols of Inl e \<Rightarrow> Inl (e, ?job)
           | Inr batches \<Rightarrow> quotes_loop L rs 0 batches ?job []) = Inr (job', acc')"
  then obtain bs where "quotes_loop L rs 0 bs ?job [] = Inr (job', acc')"
    by (auto split: sum.splits)
  from quotes_loop_Inr [OF this] failed_symbols_nonneg [of rs 0 bs]
  show "processed_items job' = int (length acc') \<and> 0 \<le> failed_items job'"
    by (simp add: create_job_def)
next
  let ?job = "(create_job now ''extract'' STOCK_QUOTES)\<lparr>status := RUNNING\<rparr>"
  fix e job'
  assume a: "(case symbol_batches batch_size symbols of Inl e \<Rightarrow> Inl (e, ?job)
           | Inr batches \<Rightarrow> quotes_loop L rs 0 batches ?job []) = Inl (e, job')"
  show "total_items job' = None"
  proof (cases "symbol_batches batch_size symbols")
    case (Inl e')
    with a show ?thesis by (auto simp: create_job_def)
  next
    case (Inr bs)
    with a have "quotes_loop L rs 0 bs ?job [] = Inl (e, job')"
      by simp
    from quotes_loop_Inl [OF this] show ?thesis
      by (simp add: create_job_def)
  qed
qed

lemma news_total:
  assumes "total_items (StockNewsExtractor_extract now rs persist symbols) = Some t"
  shows "processed_items (StockNewsExtractor_extract now rs persist symbols) = t
    \<and> 0 \<le> failed_items (StockNewsExtractor_extract now rs persist symbols)"
  using assms unfolding StockNewsExtractor_extract_def Let_def
proof (rule finish_job_total [rotated 2])
  fix job' acc'
  assume "news_loop rs 0 symbols
      ((create_job now ''extract'' STOCK_NEWS)\<lparr>status := RUNNING\<rparr>) [] = Inr (job', acc')"
  from news_loop_Inr [OF this]
  show "processed_items job' = int (length acc') \<and> 0 \<le> failed_items job'"
    by (simp add: create_job_def)
next
  fix e job'
  assume "news_loop rs 0 symbols
      ((create_job now ''extract'' STOCK_NEWS)\<lparr>status := RUNNING\<rparr>) [] = Inl (e, job')"
  from news_loop_Inl [OF this] show "total_items job' = None"
    by (simp add: create_job_def)
qed

lemma history_total:
  assumes "total_items (StockHistoryExtractor_extract L now rs persist symbols intervals) = Some t"
  shows "processed_items (StockHistoryExtractor_extract L now rs persist symbols intervals) = t
    \<and> 0 \<le> failed_items (StockHistoryExtractor_extract L now rs persist symbols intervals)"
  using assms unfolding StockHistoryExtractor_extract_def Let_def
proof (rule finish_job_total [rotated 2])
  fix job' acc'
  assume "history_loop L rs 0
      (history_sub_calls symbols intervals)
      ((create_job now ''extract'' STOCK_HISTORY)\<lparr>status := RUNNING\<rparr>) [] = Inr (job', acc')"
  from history_loop_Inr [OF this]
  show "processed_items job' = int (length acc') \<and> 0 \<le> failed_items job'"
    by (simp add: create_job_def)
next
  fix e job'
  assume "history_loop L rs 0
      (history_sub_calls symbols intervals)
      ((create_job now ''extract'' STOCK_HISTORY)\<lparr>status := RUNNING\<rparr>) [] = Inl (e, job')"
  from history_loop_Inl [OF this] show "total_items job' = None"
    by (simp add: create_job_def)
qed

lemma screener_total:
  assumes "total_items (MarketScreenerExtractor_extract L now rs persist screener_lists) = Some t"
  shows "processed_items (MarketScreenerExtractor_extract L now rs persist screener_lists) = t
    \<and> 0 \<le> failed_items (MarketScreenerExtractor_extract L now rs persist screener_lists)"
  using assms unfolding MarketScreenerExtractor_extract_def Let_def
proof (rule finish_job_total [rotated 2])
  fix job' acc'
  assume "screener_loop L rs 0 screener_lists
      ((create_job now ''extract'' MARKET_SCREENERS)\<lparr>status := RUNNING\<rparr>) [] = Inr (job', acc')"
  from screener_loop_Inr [OF this]
  show "processed_items job' = int (length acc') \<and> 0 \<le> failed_items job'"
    by (simp add: create_job_def)
next
  fix e job'
  assume "screener_loop L rs 0 screener_lists
      ((create_job now ''extract'' MARKET_SCREENERS)\<lparr>status := RUNNING\<rparr>) [] = Inl (e, job')"
  from screener_loop_Inl [OF this] show "total_items job' = None"
    by (simp add: create_job_def)
qed

text \<open>
  Claim C2, as amended.  For the job returned by the tickers, quotes and news extractors:
  once \<open>total_items\<close> is set, it is the number of parsed records and \<open>processed_items\<close> is
  equal to it, so \<open>processed_items + failed_items \<le> total_items\<close> holds exactly when
  \<open>failed_items\<close> is 0, that is, when no sub-call was unsuccessful.
\<close>

theorem processed_items_equal_total_items:
  "(total_items (MarketTickersExtractor_extract L now responses persist pages types) = Some t \<longrightarrow>
      processed_items (MarketTickersExtractor_extract L now responses persist pages types) = t
      \<and> (processed_items (MarketTickersExtractor_extract L now responses persist pages types)
           + failed_items (MarketTickersExtractor_extract L now responses persist pages types) \<le> t
         \<longleftrightarrow> failed_items (MarketTickersExtractor_extract L now responses persist pages types) = 0))
   \<and> (total_items (StockQuotesExtractor_extract L now responses persist batch_size symbols) = Some t \<longrightarrow>
      processed_items (StockQuotesExtractor_extract L now responses persist batch_size symbols) = t
      \<and> (processed_items (StockQuotesExtractor_extract L now responses persist batch_size symbols)
           + failed_items (StockQuotesExtractor_extract L now responses persist batch_size symbols) \<le> t
         \<longleftrightarrow> failed_items (StockQuotesExtractor_extract L now responses persist batch_size symbols) = 0))
   \<and> (total_items (StockNewsExtractor_extract now responses persist symbols) = Some t \<longrightarrow>
      processed_items (StockNewsExtractor_extract now responses persist symbols) = t
      \<and> (processed_items (StockNewsExtractor_extract now responses persist symbols)
           + failed_items (StockNewsExtractor_extract now responses persist symbols) \<le> t
         \<longleftrightarrow> failed_items (StockNewsExtractor_extract now responses persist symbols) = 0))"
proof (intro conjI impI)
  assume "total_items (MarketTickersExtractor_extract L now responses persist pages types) = Some t"
  from tickers_total [OF this]
  show "processed_items (MarketTickersExtractor_extract L now responses persist pages types) = t"
    and "processed_items (MarketTickersExtractor_extract L now responses persist pages types)
           + failed_items (MarketTickersExtractor_extract L now responses persist pages types) \<le> t
         \<longleftrightarrow> failed_items (MarketTickersExtractor_extract L now responses persist pages types) = 0"
    by auto
next
  assume "total_items (StockQuotesExtractor_extract L now responses persist batch_size symbols) = Some t"
  from quotes_total [OF this]
  show "processed_items (StockQuotesExtractor_extract L now responses persist batch_size symbols) = t"
    and "processed_items (StockQuotesExtractor_extract L now responses persist batch_size symbols)
           + failed_items (StockQuotesExtractor_extract L now responses persist batch_size symbols) \<le> t
         \<longleftrightarrow> failed_items (StockQuotesExtractor_extract L now responses persist batch_size symbols) = 0"
    by auto
next
  assume "total_items (StockNewsExtractor_extract now responses persist symbols) = Some t"
  from news_total [OF this]
  show "processed_items (StockNewsExtractor_extract now responses persist symbols) = t"
    and "processed_items (StockNewsExtractor_extract now responses persist symbols)
           + failed_items (StockNewsExtractor_extract now responses persist symbols) \<le> t
         \<longleftrightarrow> failed_items (StockNewsExtractor_extract now responses persist symbols) = 0"
    by auto
qed

theorem processed_items_equal_total_items_witness:
  "total_items (MarketTickersExtractor_extract ref_lib 0 (\<lambda>k. quote_response ''AAPL'') None 2
       [''STOCKS'']) = Some 2
   \<and> processed_items (MarketTickersExtractor_extract ref_lib 0 (\<lambda>k. quote_response ''AAPL'') None 2
       [''STOCKS'']) = 2
   \<and> failed_items (MarketTickersExtractor_extract ref_lib 0 (\<lambda>k. quote_response ''AAPL'') None 2
       [''STOCKS'']) = 0
   \<and> total_items (StockQuotesExtractor_extract ref_lib 0 one_each_quote_responses None 1
       [''AAPL'', ''MSFT'', ''GOOGL'']) = Some 2
   \<and> processed_items (StockQuotesExtractor_extract ref_lib 0 one_each_quote_responses None 1
       [''AAPL'', ''MSFT'', ''GOOGL'']) = 2
   \<and> failed_items (StockQuotesExtractor_extract ref_lib 0 one_each_quote_responses None 1
       [''AAPL'', ''MSFT'', ''GOOGL'']) \<noteq> 0
   \<and> total_items (StockNewsExtractor_extract 0 mixed_news_responses None
       [''AAPL'', ''MSFT'', ''GOOGL'']) = Some 3
   \<and> processed_items (StockNewsExtractor_extract 0 mixed_news_responses None
       [''AAPL'', ''MSFT'', ''GOOGL'']) = 3
   \<and> \<not> processed_items (StockNewsExtractor_extract 0 mixed_news_responses None
         [''AAPL'', ''MSFT'', ''GOOGL''])
       + failed_items (StockNewsExtractor_extract 0 mixed_news_responses None
         [''AAPL'', ''MSFT'', ''GOOGL'']) \<le> 3"
proof -
  have t: "total_items (MarketTickersExtractor_extract ref_lib 0 (\<lambda>k. quote_response ''AAPL'') None 2
       [''STOCKS'']) = Some 2"
    by code_simp
  have tf: "failed_items (MarketTickersExtractor_extract ref_lib 0 (\<lambda>k. quote_response ''AAPL'') None 2
       [''STOCKS'']) = 0"
    by code_simp
  have q: "total_items (StockQuotesExtractor_extract ref_lib 0 one_each_quote_responses None 1
       [''AAPL'', ''MSFT'', ''GOOGL'']) = Some 2"
    by code_simp
  have qf: "failed_items (StockQuotesExtractor_extract ref_lib 0 one_each_quote_responses None 1
       [''AAPL'', ''MSFT'', ''GOOGL'']) \<noteq> 0"
    by code_simp
  have n: "total_items (StockNewsExtractor_extract 0 mixed_news_responses None
       [''AAPL'', ''MSFT'', ''GOOGL'']) = Some 3"
    by code_simp
  have nf: "failed_items (StockNewsExtractor_extract 0 mixed_news_responses None
       [''AAPL'', ''MSFT'', ''GOOGL'']) \<noteq> 0"
    by code_simp
  from processed_items_equal_total_items
         [where L = ref_lib and now = 0 and responses = "\<lambda>k. quote_response ''AAPL''"
            and persist = None and pages = 2 and types = "[''STOCKS'']" and t = 2] t
       processed_items_equal_total_items
         [where L = ref_lib and now = 0 and responses = one_each_quote_responses
            and persist = None and batch_size = 1 and symbols = "[''AAPL'', ''MSFT'', ''GOOGL'']"
            and t = 2] q
       processed_items_equal_total_items
         [where now = 0 and responses = mixed_news_responses
            and persist = None and symbols = "[''AAPL'', ''MSFT'', ''GOOGL'']" and t = 3] n
       t tf q qf n nf
  show ?thesis
    by blast
qed

text \<open>
  Claim C2 as stated fails: when the single batch of a quotes extraction is unsuccessful,
  the job is \<open>COMPLETED\<close> with \<open>total_items = 0\<close>, \<open>processed_items = 0\<close> and
  \<open>failed_items = 3\<close>; in the news extraction above the total is 3 and the sum is 4.
\<close>

theorem processed_plus_failed_exceeds_total_counterexample:
  "status (StockQuotesExtractor_extract ref_lib 0 (\<lambda>k. failed_response) None 100
       [''AAPL'', ''MSFT'', ''GOOGL'']) = COMPLETED
   \<and> total_items (StockQuotesExtractor_extract ref_lib 0 (\<lambda>k. failed_response) None 100
       [''AAPL'', ''MSFT'', ''GOOGL'']) = Some 0
   \<and> processed_items (StockQuotesExtractor_extract ref_lib 0 (\<lambda>k. failed_response) None 100
       [''AAPL'', ''MSFT'', ''GOOGL'']) = 0
   \<and> failed_items (StockQuotesExtractor_extract ref_lib 0 (\<lambda>k. failed_response) None 100
       [''AAPL'', ''MSFT'', ''GOOGL'']) = 3
   \<and> \<not> processed_items (StockQuotesExtractor_extract ref_lib 0 (\<lambda>k. failed_response) None 100
         [''AAPL'', ''MSFT'', ''GOOGL''])
       + failed_items (StockQuotesExtractor_extract ref_lib 0 (\<lambda>k. failed_response) None 100
         [''AAPL'', ''MSFT'', ''GOOGL'']) \<le> 0
   \<and> total_items (StockNewsExtractor_extract 0 mixed_news_responses None
       [''AAPL'', ''MSFT'', ''GOOGL'']) = Some 3
   \<and> processed_items (StockNewsExtractor_extract 0 mixed_news_responses None
       [''AAPL'', ''MSFT'', ''GOOGL''])
     + failed_items (StockNewsExtractor_extract 0 mixed_news_responses None
       [''AAPL'', ''MSFT'', ''GOOGL'']) = 4"
  by code_simp

section \<open>Completeness check: the thresholds\<close>

lemma length_missing:
  "length (concat (map (\<lambda>record. filter (lacks record) req_fields) records))
     = missing_entries records req_fields"
  by (induction records) (simp_all add: missing_entries_def)

lemma get_required_fields_nonempty: "get_required_fields data_type \<noteq> []"
  by (simp add: get_required_fields_def)

lemma percentage_gt:
  assumes "0 < s"
  shows "(real m / real s * 100 > real c) = (c * s < 100 * m)"
proof -
  have "(real m / real s * 100 > real c) = (real (c * s) < real (100 * m))"
    using assms by (simp add: field_simps)
  also have "\<dots> = (c * s < 100 * m)"
    by (rule of_nat_less_iff)
  finally show ?thesis .
qed

lemma check_status_by_counts:
  assumes "records \<noteq> []"
  shows "check_status (check_completeness records data_type) =
     (if 100 * missing_entries records (get_required_fields data_type)
           > 20 * (length records * length (get_required_fields data_type)) then ERROR
      else if 100 * missing_entries records (get_required_fields data_type)
           > 10 * (length records * length (get_required_fields data_type)) then WARNING
      else VALID)"
proof -
  let ?m = "missing_entries records (get_required_fields data_type)"
  let ?s = "length records * length (get_required_fields data_type)"
  have pos: "0 < ?s"
    using assms get_required_fields_nonempty [of data_type] by simp
  have st: "check_status (check_completeness records data_type) =
     (if real ?m / real ?s * 100 > 20 then ERROR
      else if real ?m / real ?s * 100 > 10 then WARNING else VALID)"
    using assms by (simp add: check_completeness_def Let_def length_missing)
  have p20: "(real ?m / real ?s * 100 > 20) = (20 * ?s < 100 * ?m)"
    using percentage_gt [OF pos, where m = ?m and c = 20] by simp
  have p10: "(real ?m / real ?s * 100 > 10) = (10 * ?s < 100 * ?m)"
    using percentage_gt [OF pos, where m = ?m and c = 10] by simp
  show ?thesis
    by (simp only: st p20 p10)
qed

lemma missing_entries_all_or_none:
  assumes "all_or_none req_fields records"
  shows "missing_entries records req_fields
     = length (filter (lacks_all req_fields) records) * length req_fields"
  using assms
proof (induction records)
  case Nil
  then show ?case by (simp add: missing_entries_def)
next
  case (Cons r records)
  then have rest: "missing_entries records req_fields
     = length (filter (lacks_all req_fields) records) * length req_fields"
    by (simp add: all_or_none_def)
  have step: "missing_entries (r # records) req_fields
     = length (filter (lacks r) req_fields) + missing_entries records req_fields"
    by (simp add: missing_entries_def)
  show ?case
  proof (cases "lacks_all req_fields r")
    case True
    then have "filter (lacks r) req_fields = req_fields"
      by (simp add: lacks_all_def list_all_iff)
    with True rest step show ?thesis
      by simp
  next
    case False
    with Cons.prems have "lacks_none req_fields r"
      by (simp add: all_or_none_def)
    then have "filter (lacks r) req_fields = []"
      by (simp add: lacks_none_def list_all_iff filter_empty_conv)
    with False rest step show ?thesis
      by simp
  qed
qed

lemma scenario_status:
  assumes ne: "records \<noteq> []" and aon: "all_or_none (get_required_fields data_type) records"
  shows "check_status (check_completeness records data_type) =
     (if 20 * length records
          < 100 * length (filter (lacks_all (get_required_fields data_type)) records) then ERROR
      else if 10 * length records
          < 100 * length (filter (lacks_all (get_required_fields data_type)) records) then WARNING
      else VALID)"
proof -
  let ?req = "get_required_fields data_type"
  let ?m = "length (filter (lacks_all ?req) records)"
  have k: "0 < length ?req"
    using get_required_fields_nonempty [of data_type] by simp
  have me: "missing_entries records ?req = ?m * length ?req"
    using aon by (rule missing_entries_all_or_none)
  have c: "(c * (length records * length ?req) < 100 * (?m * length ?req))
      = (c * length records < 100 * ?m)" for c
  proof -
    have "c * (length records * length ?req) = (c * length records) * length ?req"
      by (simp only: mult.assoc)
    moreover have "100 * (?m * length ?req) = (100 * ?m) * length ?req"
      by (simp only: mult.assoc)
    ultimately show ?thesis
      using k by (simp only: mult_less_cancel2) simp
  qed
  show ?thesis
    by (simp only: check_status_by_counts [OF ne] me c)
qed

text \<open>
  Claim C7, as amended.  On a non-empty batch the status is \<open>ERROR\<close> when the missing
  entries, counted over all pairs of a record and a required field, are more than 20% of
  these pairs, \<open>WARNING\<close> when they are more than 10%, and \<open>VALID\<close> otherwise, for the
  required fields of every source type; an empty batch is \<open>ERROR\<close>.  Hence, when every
  record lacks either all its required fields or none, a batch where exactly 25% of the
  records lack them is \<open>ERROR\<close>, one with exactly 15% is \<open>WARNING\<close> and one with
  exactly 5% is \<open>VALID\<close>.
\<close>

theorem completeness_thresholds:
  "check_status (check_completeness [] data_type) = ERROR
   \<and> (records \<noteq> [] \<longrightarrow>
        check_status (check_completeness records data_type) =
          (if 20 * (length records * length (get_required_fields data_type))
                < 100 * missing_entries records (get_required_fields data_type) then ERROR
           else if 10 * (length records * length (get_required_fields data_type))
                < 100 * missing_entries records (get_required_fields data_type) then WARNING
           else VALID))
   \<and> (records \<noteq> [] \<and> all_or_none (get_required_fields data_type) records \<longrightarrow>
        (100 * length (filter (lacks_all (get_required_fields data_type)) records)
           = 25 * length records \<longrightarrow>
         check_status (check_completeness records data_type) = ERROR)
        \<and> (100 * length (filter (lacks_all (get_required_fields data_type)) records)
           = 15 * length records \<longrightarrow>
         check_status (check_completeness records data_type) = WARNING)
        \<and> (100 * length (filter (lacks_all (get_required_fields data_type)) records)
           = 5 * length records \<longrightarrow>
         check_status (check_completeness records data_type) = VALID))"
proof (intro conjI impI)
  show "check_status (check_completeness [] data_type) = ERROR"
    by (simp add: check_completeness_def)
next
  assume "records \<noteq> []"
  then show "check_status (check_completeness records data_type) =
          (if 20 * (length records * length (get_required_fields data_type))
                < 100 * missing_entries records (get_required_fields data_type) then ERROR
           else if 10 * (length records * length (get_required_fields data_type))
                < 100 * missing_entries records (get_required_fields data_type) then WARNING
           else VALID)"
    by (rule check_status_by_counts)
next
  assume a: "records \<noteq> [] \<and> all_or_none (get_required_fields data_type) records"
    and b: "100 * length (filter (lacks_all (get_required_fields data_type)) records)
           = 25 * length records"
  from a have n: "0 < length records"
    by simp
  from a have st: "check_status (check_completeness records data_type) =
     (if 20 * length records
          < 100 * length (filter (lacks_all (get_required_fields data_type)) records) then ERROR
      else if 10 * length records
          < 100 * length (filter (lacks_all (get_required_fields data_type)) records) then WARNING
      else VALID)"
    by (simp add: scenario_status)
  have "20 * length records
      < 100 * length (filter (lacks_all (get_required_fields data_type)) records)"
    using b n by linarith
  then show "check_status (check_completeness records data_type) = ERROR"
    by (simp only: st if_True)
next
  assume a: "records \<noteq> [] \<and> all_or_none (get_required_fields data_type) records"
    and b: "100 * length (filter (lacks_all (get_required_fields data_type)) records)
           = 15 * length records"
  from a have n: "0 < length records"
    by simp
  from a have st: "check_status (check_completeness records data_type) =
     (if 20 * length records
          < 100 * length (filter (lacks_all (get_required_fields data_type)) records) then ERROR
      else if 10 * length records
          < 100 * length (filter (lacks_all (get_required_fields data_type)) records) then WARNING
      else VALID)"
    by (simp add: scenario_status)
  have "\<not> 20 * length records
      < 100 * length (filter (lacks_all (get_required_fields data_type)) records)"
    and "10 * length records
      < 100 * length (filter (lacks_all (get_required_fields data_type)) records)"
    using b n by linarith+
  then show "check_status (check_completeness records data_type) = WARNING"
    by (simp only: st if_True if_False)
next
  assume a: "records \<noteq> [] \<and> all_or_none (get_required_fields data_type) records"
    and b: "100 * length (filter (lacks_all (get_required_fields data_type)) records)
           = 5 * length records"
  from a have n: "0 < length records"
    by simp
  from a have st: "check_status (check_completeness records data_type) =
     (if 20 * length records
          < 100 * length (filter (lacks_all (get_required_fields data_type)) records) then ERROR
      else if 10 * length records
          < 100 * length (filter (lacks_all (get_required_fields data_type)) records) then WARNING
      else VALID)"
    by (simp add: scenario_status)
  have "\<not> 20 * length records
      < 100 * length (filter (lacks_all (get_required_fields data_type)) records)"
    and "\<not> 10 * length records
      < 100 * length (filter (lacks_all (get_required_fields data_type)) records)"
    using b n by linarith+
  then show "check_status (check_completeness records data_type) = VALID"
    by (simp only: st if_False)
qed

theorem completeness_thresholds_witness:
  "replicate 3 full_quote @ [empty_quote] \<noteq> []
   \<and> all_or_none (get_required_fields ''stock_quotes'') (replicate 3 full_quote @ [empty_quote])
   \<and> 100 * length (filter (lacks_all (get_required_fields ''stock_quotes''))
        (replicate 3 full_quote @ [empty_quote]))
      = 25 * length (replicate 3 full_quote @ [empty_quote])
   \<and> check_status (check_completeness (replicate 3 full_quote @ [empty_quote]) ''stock_quotes'')
      = ERROR
   \<and> all_or_none (get_required_fields ''stock_quotes'') (replicate 17 full_quote @ replicate 3 empty_quote)
   \<and> 100 * length (filter (lacks_all (get_required_fields ''stock_quotes''))
        (replicate 17 full_quote @ replicate 3 empty_quote))
      = 15 * length (replicate 17 full_quote @ replicate 3 empty_quote)
   \<and> check_status (check_completeness (replicate 17 full_quote @ replicate 3 empty_quote)
        ''stock_quotes'') = WARNING
   \<and> all_or_none (get_required_fields ''stock_quotes'') (replicate 19 full_quote @ [empty_quote])
   \<and> 100 * length (filter (lacks_all (get_required_fields ''stock_quotes''))
        (replicate 19 full_quote @ [empty_quote]))
      = 5 * length (replicate 19 full_quote @ [empty_quote])
   \<and> check_status (check_completeness (replicate 19 full_quote @ [empty_quote]) ''stock_quotes'')
      = VALID"
proof -
  have e: "replicate 3 full_quote @ [empty_quote] \<noteq> []
      \<and> all_or_none (get_required_fields ''stock_quotes'') (replicate 3 full_quote @ [empty_quote])"
    "100 * length (filter (lacks_all (get_required_fields ''stock_quotes''))
        (replicate 3 full_quote @ [empty_quote]))
      = 25 * length (replicate 3 full_quote @ [empty_quote])"
    by code_simp+
  have w: "replicate 17 full_quote @ replicate 3 empty_quote \<noteq> []
      \<and> all_or_none (get_required_fields ''stock_quotes'') (replicate 17 full_quote @ replicate 3 empty_quote)"
    "100 * length (filter (lacks_all (get_required_fields ''stock_quotes''))
        (replicate 17 full_quote @ replicate 3 empty_quote))
      = 15 * length (replicate 17 full_quote @ replicate 3 empty_quote)"
    by code_simp+
  have v: "replicate 19 full_quote @ [empty_quote] \<noteq> []
      \<and> all_or_none (get_required_fields ''stock_quotes'') (replicate 19 full_quote @ [empty_quote])"
    "100 * length (filter (lacks_all (get_required_fields ''stock_quotes''))
        (replicate 19 full_quote @ [empty_quote]))
      = 5 * length (replicate 19 full_quote @ [empty_quote])"
    by code_simp+
  from completeness_thresholds [of "''stock_quotes''" "replicate 3 full_quote @ [empty_quote]"] e
       completeness_thresholds [of "''stock_quotes''" "replicate 17 full_quote @ replicate 3 empty_quote"] w
       completeness_thresholds [of "''stock_quotes''" "replicate 19 full_quote @ [empty_quote]"] v
  show ?thesis
    by blast
qed

text \<open>
  Claim C7 as stated fails: in a batch of four quote records where exactly one (25%) has
  no price, one of the two required fields, the missing entries are 12.5% of the pairs and
  the status is \<open>WARNING\<close>, not \<open>ERROR\<close>; with three of twenty (15%) the percentage
  is 7.5 and the status is \<open>VALID\<close>, not \<open>WARNING\<close>.
\<close>

theorem completeness_per_record_percentage_counterexample:
  "missing_percentage (check_completeness (replicate 3 full_quote @ [quote_without_price])
       ''stock_quotes'') = Some (25 / 2)
   \<and> check_status (check_completeness (replicate 3 full_quote @ [quote_without_price])
       ''stock_quotes'') = WARNING
   \<and> missing_percentage (check_completeness
       (replicate 17 full_quote @ replicate 3 quote_without_price) ''stock_quotes'') = Some (15 / 2)
   \<and> check_status (check_completeness
       (replicate 17 full_quote @ replicate 3 quote_without_price) ''stock_quotes'') = VALID"
  by code_simp

section \<open>Cleaning: when a second pass changes nothing\<close>

lemma upper_char_range:
  "97 \<le> (of_char c :: nat) \<Longrightarrow> (of_char c :: nat) \<le> 122 \<Longrightarrow>
   (of_char (upper_char c) :: nat) = of_char c - 32"
  by (simp add: upper_char_def)

lemma upper_char_idem: "upper_char (upper_char c) = upper_char c"
proof (cases "97 \<le> (of_char c :: nat) \<and> (of_char c :: nat) \<le> 122")
  case True
  then have "(of_char (upper_char c) :: nat) = of_char c - 32"
    by (simp add: upper_char_range)
  with True have "\<not> (97 \<le> (of_char (upper_char c) :: nat))"
    by linarith
  then show ?thesis
    by (simp add: upper_char_def [of "upper_char c"])
next
  case False
  then show ?thesis
    by (auto simp: upper_char_def)
qed

lemma is_space_upper: "is_space (upper_char c) = is_space c"
proof (cases "97 \<le> (of_char c :: nat) \<and> (of_char c :: nat) \<le> 122")
  case True
  then have "(of_char (upper_char c) :: nat) = of_char c - 32"
    by (simp add: upper_char_range)
  with True show ?thesis
    by (auto simp: is_space_def)
next
  case False
  then show ?thesis
    by (auto simp: upper_char_def)
qed

lemma dropWhile_rev_fix:
  assumes "dropWhile P t = t"
  shows "dropWhile P (rev (dropWhile P (rev t))) = rev (dropWhile P (rev t))"
proof (cases "dropWhile P (rev t) = []")
  case True
  show ?thesis
    by (simp only: True rev.simps(1) dropWhile.simps(1))
next
  case False
  then have ne: "t \<noteq> []"
    by auto
  have "rev t = takeWhile P (rev t) @ dropWhile P (rev t)"
    by simp
  then have "last (rev t) = last (dropWhile P (rev t))"
    using False by (metis last_appendR)
  then have "hd (rev (dropWhile P (rev t))) = hd t"
    using False ne by (simp add: hd_rev last_rev)
  moreover from assms ne have "\<not> P (hd t)"
    by (metis dropWhile_eq_self_iff)
  ultimately show ?thesis
    by (simp add: dropWhile_eq_self_iff)
qed

lemma py_strip_idem: "py_strip (py_strip s) = py_strip s"
proof -
  let ?t = "dropWhile is_space s"
  have "dropWhile is_space ?t = ?t"
    by simp
  from dropWhile_rev_fix [OF this] show ?thesis
    by (simp add: py_strip_def)
qed

lemma py_strip_upper: "py_strip (py_upper s) = py_upper (py_strip s)"
proof -
  have c: "is_space \<circ> upper_char = is_space"
    by (rule ext) (simp add: is_space_upper)
  show ?thesis
    by (simp add: py_strip_def py_upper_def dropWhile_map rev_map c)
qed

lemma py_upper_idem: "py_upper (py_upper s) = py_upper s"
  by (simp add: py_upper_def upper_char_idem)

lemma clean_text_idem:
  "py_upper (py_strip (py_upper (py_strip s))) = py_upper (py_strip s)"
  by (simp add: py_strip_upper py_strip_idem py_upper_idem)


lemma map_of_dict_set:
  "map_of (dict_set d k v) k' = (if k' = k then Some v else map_of d k')"
  by (simp add: dict_set_def update_conv')

lemma dict_set_same: "map_of d k = Some v \<Longrightarrow> dict_set d k v = d"
  by (simp add: dict_set_def update_triv)

lemma dict_set_nonempty: "dict_set d k v \<noteq> []"
  by (cases d) (simp_all add: dict_set_def)

lemma drop_none_fix: "list_all (\<lambda>kv. snd kv \<noteq> PNone) d \<Longrightarrow> drop_none d = d"
  by (simp add: drop_none_def list_all_iff)

lemma no_none_lookup:
  assumes "list_all (\<lambda>kv. snd kv \<noteq> PNone) d"
  shows "map_of d k \<noteq> Some PNone"
proof
  assume "map_of d k = Some PNone"
  then have "(k, PNone) \<in> set d"
    by (rule map_of_SomeD)
  with assms have "snd (k, PNone) \<noteq> PNone"
    unfolding list_all_iff by blast
  then show False by simp
qed

lemma parse_numeric_result:
  "parse_numeric L v = Inr w \<Longrightarrow> w = PNone \<or> (\<exists>x. w = PFloat x)"
  by (auto simp: parse_numeric_def split: pyval.splits option.splits)

lemma parse_numeric_float: "parse_numeric L (PFloat x) = Inr (PFloat x)"
  by (simp add: parse_numeric_def)

lemma clean_numeric_fields_result:
  "clean_numeric_fields L fs d = Inr d' \<Longrightarrow>
   (\<forall>k. k \<notin> set fs \<longrightarrow> map_of d' k = map_of d k)
   \<and> (\<forall>k\<in>set fs. \<forall>w. map_of d' k = Some w \<longrightarrow> w = PNone \<or> (\<exists>x. w = PFloat x))"
proof (induction fs arbitrary: d)
  case Nil
  then show ?case by simp
next
  case (Cons f fs)
  show ?case
  proof (cases "map_of d f")
    case None
    with Cons.prems have run: "clean_numeric_fields L fs d = Inr d'"
      by simp
    from Cons.IH [OF run] have
      out: "\<And>k. k \<notin> set fs \<Longrightarrow> map_of d' k = map_of d k"
      and inn: "\<And>k w. k \<in> set fs \<Longrightarrow> map_of d' k = Some w \<Longrightarrow> w = PNone \<or> (\<exists>x. w = PFloat x)"
      by blast+
    show ?thesis
    proof (intro conjI allI impI ballI)
      fix k
      assume "k \<notin> set (f # fs)"
      then show "map_of d' k = map_of d k"
        using out [of k] by simp
    next
      fix k w
      assume k: "k \<in> set (f # fs)" and w: "map_of d' k = Some w"
      show "w = PNone \<or> (\<exists>x. w = PFloat x)"
      proof (cases "k \<in> set fs")
        case True
        then show ?thesis using inn w by blast
      next
        case False
        with k have "k = f" by simp
        with False out [of k] w None show ?thesis
          by simp
      qed
    qed
  next
    case (Some v)
    with Cons.prems obtain parsed where p: "parse_numeric L v = Inr parsed"
      and run: "clean_numeric_fields L fs (dict_set d f parsed) = Inr d'"
      by (auto split: sum.splits)
    from Cons.IH [OF run] have
      out: "\<And>k. k \<notin> set fs \<Longrightarrow> map_of d' k = map_of (dict_set d f parsed) k"
      and inn: "\<And>k w. k \<in> set fs \<Longrightarrow> map_of d' k = Some w \<Longrightarrow> w = PNone \<or> (\<exists>x. w = PFloat x)"
      by blast+
    show ?thesis
    proof (intro conjI allI impI ballI)
      fix k
      assume "k \<notin> set (f # fs)"
      then show "map_of d' k = map_of d k"
        using out [of k] by (simp add: map_of_dict_set)
    next
      fix k w
      assume k: "k \<in> set (f # fs)" and w: "map_of d' k = Some w"
      show "w = PNone \<or> (\<exists>x. w = PFloat x)"
      proof (cases "k \<in> set fs")
        case True
        then show ?thesis using inn w by blast
      next
        case False
        with k have "k = f" by simp
        with False out [of k] w have "w = parsed"
          by (simp add: map_of_dict_set)
        with parse_numeric_result [OF p] show ?thesis by simp
      qed
    qed
  qed
qed

lemma clean_numeric_fields_fix:
  assumes "list_all (\<lambda>kv. snd kv \<noteq> PNone) d"
    and "\<forall>k\<in>set fs. \<forall>w. map_of d k = Some w \<longrightarrow> w = PNone \<or> (\<exists>x. w = PFloat x)"
  shows "clean_numeric_fields L fs d = Inr d"
  using assms(2)
proof (induction fs)
  case Nil
  then show ?case by simp
next
  case (Cons f fs)
  then have rest: "clean_numeric_fields L fs d = Inr d"
    by simp
  show ?case
  proof (cases "map_of d f")
    case None
    with rest show ?thesis by simp
  next
    case (Some w)
    with Cons.prems no_none_lookup [OF assms(1), of f] obtain x where "w = PFloat x"
      by auto
    with Some rest show ?thesis
      by (simp add: parse_numeric_float dict_set_same)
  qed
qed

lemma clean_symbol_result:
  "\<forall>v. map_of (clean_symbol L d) ''symbol'' = Some v \<longrightarrow>
       (\<exists>s. v = PStr s \<and> py_upper (py_strip s) = s)"
  by (auto simp: clean_symbol_def map_of_dict_set clean_text_idem split: option.splits)

lemma clean_symbol_other:
  "k \<noteq> ''symbol'' \<Longrightarrow> map_of (clean_symbol L d) k = map_of d k"
  by (simp add: clean_symbol_def map_of_dict_set split: option.splits)

lemma clean_symbol_fix:
  assumes "\<forall>v. map_of d ''symbol'' = Some v \<longrightarrow> (\<exists>s. v = PStr s \<and> py_upper (py_strip s) = s)"
  shows "clean_symbol L d = d"
proof (cases "map_of d ''symbol''")
  case None
  then show ?thesis by (simp add: clean_symbol_def)
next
  case (Some v)
  with assms obtain s where "v = PStr s" and "py_upper (py_strip s) = s"
    by blast
  with Some show ?thesis
    by (simp add: clean_symbol_def py_str_def dict_set_same)
qed

lemma clean_currency_result: "map_of (clean_currency d) ''currency'' \<noteq> None"
  by (simp add: clean_currency_def map_of_dict_set split: option.splits)

lemma clean_currency_other:
  "k \<noteq> ''currency'' \<Longrightarrow> map_of (clean_currency d) k = map_of d k"
  by (simp add: clean_currency_def map_of_dict_set split: option.splits)

lemma clean_currency_fix: "map_of d ''currency'' \<noteq> None \<Longrightarrow> clean_currency d = d"
  by (auto simp: clean_currency_def)

lemma clean_currency_nonempty: "clean_currency d \<noteq> []"
  by (cases d) (auto simp: clean_currency_def dict_set_nonempty split: option.splits)

lemma symbol_not_numeric: "''symbol'' \<notin> set numeric_fields"
  by (simp add: numeric_fields_def)

lemma currency_not_numeric: "''currency'' \<notin> set numeric_fields"
  by (simp add: numeric_fields_def)

lemma clean_quote_record_result:
  assumes "clean_quote_record L quote = Some y"
  shows "(\<forall>v. map_of y ''symbol'' = Some v \<longrightarrow> (\<exists>s. v = PStr s \<and> py_upper (py_strip s) = s))
    \<and> (\<forall>k\<in>set numeric_fields. \<forall>w. map_of y k = Some w \<longrightarrow> w = PNone \<or> (\<exists>x. w = PFloat x))
    \<and> map_of y ''currency'' \<noteq> None \<and> y \<noteq> []"
proof -
  let ?d1 = "clean_symbol L (drop_none quote)"
  from assms obtain d2 where run: "clean_numeric_fields L numeric_fields ?d1 = Inr d2"
    and y: "y = clean_currency d2"
    by (auto simp: clean_quote_record_def Let_def split: sum.splits)
  from clean_numeric_fields_result [OF run] have
    out: "\<And>k. k \<notin> set numeric_fields \<Longrightarrow> map_of d2 k = map_of ?d1 k"
    and inn: "\<And>k w. k \<in> set numeric_fields \<Longrightarrow> map_of d2 k = Some w \<Longrightarrow>
               w = PNone \<or> (\<exists>x. w = PFloat x)"
    by blast+
  have "map_of y ''symbol'' = map_of ?d1 ''symbol''"
    using out [OF symbol_not_numeric] by (simp add: y clean_currency_other)
  then have a: "\<forall>v. map_of y ''symbol'' = Some v \<longrightarrow> (\<exists>s. v = PStr s \<and> py_upper (py_strip s) = s)"
    using clean_symbol_result [of L "drop_none quote"] by simp
  have b: "\<forall>k\<in>set numeric_fields. \<forall>w. map_of y k = Some w \<longrightarrow> w = PNone \<or> (\<exists>x. w = PFloat x)"
  proof (intro ballI allI impI)
    fix k w
    assume k: "k \<in> set numeric_fields" and w: "map_of y k = Some w"
    from k currency_not_numeric have "k \<noteq> ''currency''"
      by auto
    with w have "map_of d2 k = Some w"
      by (simp add: y clean_currency_other)
    with inn [OF k] show "w = PNone \<or> (\<exists>x. w = PFloat x)"
      by blast
  qed
  from a b show ?thesis
    by (simp add: y clean_currency_result clean_currency_nonempty)
qed

lemma clean_quote_record_fix:
  assumes "clean_quote_record L quote = Some y"
    and nn: "list_all (\<lambda>kv. snd kv \<noteq> PNone) y"
  shows "clean_quote_record L y = Some y"
proof -
  from clean_quote_record_result [OF assms(1)] have
    a: "\<forall>v. map_of y ''symbol'' = Some v \<longrightarrow> (\<exists>s. v = PStr s \<and> py_upper (py_strip s) = s)"
    and b: "\<forall>k\<in>set numeric_fields. \<forall>w. map_of y k = Some w \<longrightarrow> w = PNone \<or> (\<exists>x. w = PFloat x)"
    and c: "map_of y ''currency'' \<noteq> None"
    by blast+
  show ?thesis
    by (simp add: clean_quote_record_def Let_def drop_none_fix [OF nn] clean_symbol_fix [OF a]
        clean_numeric_fields_fix [OF nn b] clean_currency_fix [OF c])
qed

lemma clean_quote_data_members:
  "y \<in> set (clean_quote_data L quotes) \<Longrightarrow> \<exists>quote. clean_quote_record L quote = Some y"
proof (induction quotes)
  case Nil
  then show ?case by simp
next
  case (Cons q quotes)
  then show ?case
    by (cases "clean_quote_record L q") (auto split: if_splits)
qed

lemma clean_quote_data_fix:
  "(\<And>y. y \<in> set ys \<Longrightarrow> clean_quote_record L y = Some y \<and> y \<noteq> []) \<Longrightarrow>
   clean_quote_data L ys = ys"
  by (induction ys) simp_all

lemma clean_quote_data_idempotent:
  assumes "no_none_values (clean_quote_data L quotes)"
  shows "clean_quote_data L (clean_quote_data L quotes) = clean_quote_data L quotes"
proof (rule clean_quote_data_fix)
  fix y
  assume y: "y \<in> set (clean_quote_data L quotes)"
  with assms have nn: "list_all (\<lambda>kv. snd kv \<noteq> PNone) y"
    by (simp add: no_none_values_def list_all_iff)
  from clean_quote_data_members [OF y] obtain quote where q: "clean_quote_record L quote = Some y"
    by blast
  from clean_quote_record_fix [OF q nn] clean_quote_record_result [OF q]
  show "clean_quote_record L y = Some y \<and> y \<noteq> []"
    by blast
qed

lemma clean_name_result:
  "\<forall>v. map_of (clean_name L d) ''name'' = Some v \<longrightarrow> (\<exists>s. v = PStr s \<and> py_strip s = s)"
  by (auto simp: clean_name_def map_of_dict_set py_strip_idem split: option.splits)

lemma clean_name_other: "k \<noteq> ''name'' \<Longrightarrow> map_of (clean_name L d) k = map_of d k"
  by (simp add: clean_name_def map_of_dict_set split: option.splits)

lemma clean_name_fix:
  assumes "\<forall>v. map_of d ''name'' = Some v \<longrightarrow> (\<exists>s. v = PStr s \<and> py_strip s = s)"
  shows "clean_name L d = d"
proof (cases "map_of d ''name''")
  case None
  then show ?thesis by (simp add: clean_name_def)
next
  case (Some v)
  with assms obtain s where "v = PStr s" and "py_strip s = s"
    by blast
  with Some show ?thesis
    by (simp add: clean_name_def py_str_def dict_set_same)
qed

lemma clean_market_cap_result:
  "map_of (clean_market_cap L d) ''market_cap'' \<noteq> Some (PStr s)"
  by (auto simp: clean_market_cap_def map_of_dict_set parse_market_cap_def
      split: option.splits pyval.splits)

lemma clean_market_cap_other:
  "k \<noteq> ''market_cap'' \<Longrightarrow> map_of (clean_market_cap L d) k = map_of d k"
  by (simp add: clean_market_cap_def map_of_dict_set split: option.splits pyval.splits)

lemma clean_market_cap_fix:
  "\<forall>s. map_of d ''market_cap'' \<noteq> Some (PStr s) \<Longrightarrow> clean_market_cap L d = d"
  by (auto simp: clean_market_cap_def split: option.splits pyval.splits)

lemma clean_stock_record_result:
  assumes "clean_stock_record L stock = Some y"
  shows "(\<forall>v. map_of y ''symbol'' = Some v \<longrightarrow> (\<exists>s. v = PStr s \<and> py_upper (py_strip s) = s))
    \<and> (\<forall>v. map_of y ''name'' = Some v \<longrightarrow> (\<exists>s. v = PStr s \<and> py_strip s = s))
    \<and> (\<forall>s. map_of y ''market_cap'' \<noteq> Some (PStr s))
    \<and> map_of y ''currency'' \<noteq> None \<and> y \<noteq> []"
proof -
  let ?d1 = "clean_symbol L (drop_none stock)"
  let ?d2 = "clean_name L ?d1"
  let ?d3 = "clean_market_cap L ?d2"
  from assms have y: "y = clean_currency ?d3"
    by (simp add: clean_stock_record_def Let_def)
  have "map_of y ''symbol'' = map_of ?d1 ''symbol''"
    by (simp add: y clean_currency_other clean_market_cap_other clean_name_other)
  then have a: "\<forall>v. map_of y ''symbol'' = Some v \<longrightarrow> (\<exists>s. v = PStr s \<and> py_upper (py_strip s) = s)"
    using clean_symbol_result [of L "drop_none stock"] by simp
  have "map_of y ''name'' = map_of ?d2 ''name''"
    by (simp add: y clean_currency_other clean_market_cap_other)
  then have b: "\<forall>v. map_of y ''name'' = Some v \<longrightarrow> (\<exists>s. v = PStr s \<and> py_strip s = s)"
    using clean_name_result [of L ?d1] by simp
  have "map_of y ''market_cap'' = map_of ?d3 ''market_cap''"
    by (simp add: y clean_currency_other)
  then have c: "\<forall>s. map_of y ''market_cap'' \<noteq> Some (PStr s)"
    using clean_market_cap_result [of L ?d2] by simp
  from a b c show ?thesis
    by (simp add: y clean_currency_result clean_currency_nonempty)
qed

lemma clean_stock_record_fix:
  assumes "clean_stock_record L stock = Some y"
    and nn: "list_all (\<lambda>kv. snd kv \<noteq> PNone) y"
  shows "clean_stock_record L y = Some y"
proof -
  from clean_stock_record_result [OF assms(1)] have
    a: "\<forall>v. map_of y ''symbol'' = Some v \<longrightarrow> (\<exists>s. v = PStr s \<and> py_upper (py_strip s) = s)"
    and b: "\<forall>v. map_of y ''name'' = Some v \<longrightarrow> (\<exists>s. v = PStr s \<and> py_strip s = s)"
    and c: "\<forall>s. map_of y ''market_cap'' \<noteq> Some (PStr s)"
    and d: "map_of y ''currency'' \<noteq> None"
    by blast+
  show ?thesis
    by (simp add: clean_stock_record_def Let_def drop_none_fix [OF nn] clean_symbol_fix [OF a]
        clean_name_fix [OF b] clean_market_cap_fix [OF c] clean_currency_fix [OF d])
qed

lemma clean_stock_data_members:
  "y \<in> set (clean_stock_data L stocks) \<Longrightarrow> \<exists>stock. clean_stock_record L stock = Some y"
proof (induction stocks)
  case Nil
  then show ?case by simp
next
  case (Cons q stocks)
  then show ?case
    by (cases "clean_stock_record L q") (auto split: if_splits)
qed

lemma clean_stock_data_fix:
  "(\<And>y. y \<in> set ys \<Longrightarrow> clean_stock_record L y = Some y \<and> y \<noteq> []) \<Longrightarrow>
   clean_stock_data L ys = ys"
  by (induction ys) simp_all

lemma clean_stock_data_idempotent:
  assumes "no_none_values (clean_stock_data L stocks)"
  shows "clean_stock_data L (clean_stock_data L stocks) = clean_stock_data L stocks"
proof (rule clean_stock_data_fix)
  fix y
  assume y: "y \<in> set (clean_stock_data L stocks)"
  with assms have nn: "list_all (\<lambda>kv. snd kv \<noteq> PNone) y"
    by (simp add: no_none_values_def list_all_iff)
  from clean_stock_data_members [OF y] obtain stock where q: "clean_stock_record L stock = Some y"
    by blast
  from clean_stock_record_fix [OF q nn] clean_stock_record_result [OF q]
  show "clean_stock_record L y = Some y \<and> y \<noteq> []"
    by blast
qed

lemmas cleaner_eval =
  clean_quote_record_def clean_stock_record_def Let_def drop_none_def clean_symbol_def
  clean_name_def clean_market_cap_def clean_currency_def dict_set_def numeric_fields_def
  parse_numeric_def parse_market_cap_def ref_lib_def py_str_def py_upper_def py_strip_def
  is_space_def upper_char_def remove_char_def decimal_float_def unsigned_decimal_def
  digit_val_def no_none_values_def

text \<open>
  Claim C8, as amended.  When the cleaned records hold no \<open>None\<close> (every value of a
  numeric field was a number or a string that \<open>float\<close> accepts), cleaning them again
  gives the same records, for the quote cleaner and for the stock cleaner that the
  transformation pipeline calls.
\<close>

theorem cleaning_idempotent_without_none:
  "(no_none_values (clean_quote_data L quotes) \<longrightarrow>
      clean_quote_data L (clean_quote_data L quotes) = clean_quote_data L quotes)
   \<and> (no_none_values (clean_stock_data L stocks) \<longrightarrow>
      clean_stock_data L (clean_stock_data L stocks) = clean_stock_data L stocks)"
  by (simp add: clean_quote_data_idempotent clean_stock_data_idempotent)

theorem cleaning_idempotent_without_none_witness:
  "clean_quote_data ref_lib
       [[(''symbol'', PStr '' aapl ''), (''price'', PStr ''$1,200.5''), (''volume'', PInt 10),
         (''exchange'', PNone)]]
     = [[(''symbol'', PStr ''AAPL''), (''price'', PFloat (2401 / 2)), (''volume'', PFloat 10),
         (''currency'', PStr ''USD'')]]
   \<and> no_none_values (clean_quote_data ref_lib
       [[(''symbol'', PStr '' aapl ''), (''price'', PStr ''$1,200.5''), (''volume'', PInt 10),
         (''exchange'', PNone)]])
   \<and> clean_quote_data ref_lib (clean_quote_data ref_lib
       [[(''symbol'', PStr '' aapl ''), (''price'', PStr ''$1,200.5''), (''volume'', PInt 10),
         (''exchange'', PNone)]])
     = clean_quote_data ref_lib
       [[(''symbol'', PStr '' aapl ''), (''price'', PStr ''$1,200.5''), (''volume'', PInt 10),
         (''exchange'', PNone)]]
   \<and> no_none_values (clean_stock_data ref_lib
       [[(''symbol'', PStr ''msft''), (''name'', PStr '' Microsoft ''), (''market_cap'', PStr ''3,000'')]])
   \<and> clean_stock_data ref_lib (clean_stock_data ref_lib
       [[(''symbol'', PStr ''msft''), (''name'', PStr '' Microsoft ''), (''market_cap'', PStr ''3,000'')]])
     = clean_stock_data ref_lib
       [[(''symbol'', PStr ''msft''), (''name'', PStr '' Microsoft ''), (''market_cap'', PStr ''3,000'')]]"
proof -
  have v: "clean_quote_data ref_lib
       [[(''symbol'', PStr '' aapl ''), (''price'', PStr ''$1,200.5''), (''volume'', PInt 10),
         (''exchange'', PNone)]]
     = [[(''symbol'', PStr ''AAPL''), (''price'', PFloat (2401 / 2)), (''volume'', PFloat 10),
         (''currency'', PStr ''USD'')]]"
    by (simp add: cleaner_eval) code_simp
  have q: "no_none_values (clean_quote_data ref_lib
       [[(''symbol'', PStr '' aapl ''), (''price'', PStr ''$1,200.5''), (''volume'', PInt 10),
         (''exchange'', PNone)]])"
    unfolding v by (simp add: no_none_values_def)
  have s: "no_none_values (clean_stock_data ref_lib
       [[(''symbol'', PStr ''msft''), (''name'', PStr '' Microsoft ''), (''market_cap'', PStr ''3,000'')]])"
    by (simp add: cleaner_eval)
  from cleaning_idempotent_without_none
         [of ref_lib "[[(''symbol'', PStr '' aapl ''), (''price'', PStr ''$1,200.5''),
            (''volume'', PInt 10), (''exchange'', PNone)]]"
            "[[(''symbol'', PStr ''msft''), (''name'', PStr '' Microsoft ''),
               (''market_cap'', PStr ''3,000'')]]"] v q s
  show ?thesis
    by blast
qed

text \<open>
  Claim C8 as stated fails: a price that \<open>float\<close> rejects is replaced by \<open>None\<close> after
  the \<open>None\<close> entries have been removed, so the first pass returns a record with a
  \<open>None\<close> price and the second pass removes that key; the stock cleaner does the same
  with an unparseable market cap.
\<close>

theorem cleaning_not_idempotent_counterexample:
  "clean_quote_data ref_lib [[(''symbol'', PStr ''aapl''), (''price'', PStr ''N/A'')]]
     = [[(''symbol'', PStr ''AAPL''), (''price'', PNone), (''currency'', PStr ''USD'')]]
   \<and> clean_quote_data ref_lib
       (clean_quote_data ref_lib [[(''symbol'', PStr ''aapl''), (''price'', PStr ''N/A'')]])
     = [[(''symbol'', PStr ''AAPL''), (''currency'', PStr ''USD'')]]
   \<and> clean_stock_data ref_lib [[(''symbol'', PStr ''aapl''), (''market_cap'', PStr ''N/A'')]]
     = [[(''symbol'', PStr ''AAPL''), (''market_cap'', PNone), (''currency'', PStr ''USD'')]]
   \<and> clean_stock_data ref_lib
       (clean_stock_data ref_lib [[(''symbol'', PStr ''aapl''), (''market_cap'', PStr ''N/A'')]])
     = [[(''symbol'', PStr ''AAPL''), (''currency'', PStr ''USD'')]]"
  by (simp add: cleaner_eval) code_simp

section \<open>Job store: what the cleanup removes\<close>

lemma fold_delete_filter:
  "fold AList.delete ks al = filter (\<lambda>p. fst p \<notin> set ks) al"
proof (induction ks arbitrary: al)
  case Nil
  then show ?case by simp
next
  case (Cons k ks)
  have "AList.delete k al = filter (\<lambda>p. fst p \<noteq> k) al"
    unfolding AList.delete_eq by (rule filter_cong) auto
  then show ?case
    by (simp add: Cons.IH conj_commute)
qed

lemma old_keys:
  assumes "distinct (map fst jobs)" and "p \<in> set jobs"
  shows "fst p \<in> set (map fst (filter P jobs)) \<longleftrightarrow> P p"
proof
  assume "fst p \<in> set (map fst (filter P jobs))"
  then obtain q where q: "q \<in> set jobs" "P q" "fst q = fst p"
    by auto
  with assms have "q = p"
    by (metis eq_key_imp_eq_value prod.collapse)
  with q show "P p" by simp
next
  assume "P p"
  with assms(2) show "fst p \<in> set (map fst (filter P jobs))"
    by auto
qed

lemma cutoff_date_value:
  "cutoff_date now days = Inr cutoff \<Longrightarrow> cutoff = now - real_of_int days * 86400"
  by (auto simp: cutoff_date_def timedelta_days_def split: if_splits sum.splits)

text \<open>
  Claim C9, as amended.  When the cutoff can be computed, it is the current time minus the
  given number of days, and the cleanup keeps exactly the job records that were not created
  before it, in their order: a record is removed if and only if it was created before the
  cutoff, whatever its status.
\<close>

theorem cleanup_removes_by_age_only:
  "distinct (map fst jobs) \<and> cutoff_date now days = Inr cutoff \<longrightarrow>
     cutoff = now - real_of_int days * 86400
     \<and> cleanup_old_jobs now days jobs
         = Inr (filter (\<lambda>(job_id, job). \<not> created_at job < cutoff) jobs)"
proof (intro impI conjI)
  assume a: "distinct (map fst jobs) \<and> cutoff_date now days = Inr cutoff"
  then show "cutoff = now - real_of_int days * 86400"
    by (simp add: cutoff_date_value)
  let ?P = "\<lambda>(job_id, job). created_at job < cutoff"
  have "filter (\<lambda>p. fst p \<notin> set (map fst (filter ?P jobs))) jobs
      = filter (\<lambda>p. \<not> ?P p) jobs"
    using a by (intro filter_cong refl) (simp only: old_keys)
  also have "\<dots> = filter (\<lambda>(job_id, job). \<not> created_at job < cutoff) jobs"
    by (rule filter_cong) auto
  finally show "cleanup_old_jobs now days jobs
         = Inr (filter (\<lambda>(job_id, job). \<not> created_at job < cutoff) jobs)"
    using a by (simp add: cleanup_old_jobs_def fold_delete_filter)
qed

theorem cleanup_removes_by_age_only_witness:
  "distinct (map fst
       [(''stock_quotes_extract_1'', old_job COMPLETED),
        (''stock_quotes_extract_2'', old_job FAILED),
        (''stock_quotes_extract_3'', recent_job COMPLETED)])
   \<and> cutoff_date 864000 7 = Inr 259200
   \<and> cleanup_old_jobs 864000 7
       [(''stock_quotes_extract_1'', old_job COMPLETED),
        (''stock_quotes_extract_2'', old_job FAILED),
        (''stock_quotes_extract_3'', recent_job COMPLETED)]
     = Inr [(''stock_quotes_extract_3'', recent_job COMPLETED)]"
proof -
  have d: "distinct (map fst
       [(''stock_quotes_extract_1'', old_job COMPLETED),
        (''stock_quotes_extract_2'', old_job FAILED),
        (''stock_quotes_extract_3'', recent_job COMPLETED)])"
    by simp
  have c: "cutoff_date 864000 7 = Inr 259200"
    by (simp add: cutoff_date_def timedelta_days_def datetime_min_def datetime_max_def)
  from cleanup_removes_by_age_only
         [of "[(''stock_quotes_extract_1'', old_job COMPLETED),
               (''stock_quotes_extract_2'', old_job FAILED),
               (''stock_quotes_extract_3'', recent_job COMPLETED)]" 864000 7 259200] d c
  have "cleanup_old_jobs 864000 7
       [(''stock_quotes_extract_1'', old_job COMPLETED),
        (''stock_quotes_extract_2'', old_job FAILED),
        (''stock_quotes_extract_3'', recent_job COMPLETED)]
     = Inr (filter (\<lambda>(job_id, job). \<not> created_at job < 259200)
       [(''stock_quotes_extract_1'', old_job COMPLETED),
        (''stock_quotes_extract_2'', old_job FAILED),
        (''stock_quotes_extract_3'', recent_job COMPLETED)])"
    by blast
  then have "cleanup_old_jobs 864000 7
       [(''stock_quotes_extract_1'', old_job COMPLETED),
        (''stock_quotes_extract_2'', old_job FAILED),
        (''stock_quotes_extract_3'', recent_job COMPLETED)]
     = Inr [(''stock_quotes_extract_3'', recent_job COMPLETED)]"
    by (simp add: old_job_def recent_job_def)
  with d c show ?thesis
    by blast
qed

text \<open>
  Claim C9 as stated fails: ten days after their creation and with a retention of seven
  days, a job that is still \<open>RUNNING\<close> and a \<open>PENDING\<close> one are removed together with
  the completed one; only the recent job is kept.
\<close>

theorem cleanup_removes_running_job_counterexample:
  "cleanup_old_jobs 864000 7
       [(''stock_quotes_extract_1'', old_job RUNNING),
        (''stock_quotes_extract_2'', old_job COMPLETED),
        (''stock_quotes_extract_3'', old_job PENDING),
        (''stock_quotes_extract_4'', recent_job COMPLETED)]
     = Inr [(''stock_quotes_extract_4'', recent_job COMPLETED)]"
  by (simp add: cleanup_old_jobs_def cutoff_date_def timedelta_days_def datetime_min_def
      datetime_max_def old_job_def recent_job_def)

section \<open>Monitor: alerts created in the same second\<close>

lemma map_of_dict_set_any:
  "map_of (dict_set_any d k v) k' = (if k' = k then Some v else map_of d k')"
  by (simp add: dict_set_any_def update_conv')

lemma store_alerts_lookup:
  "map_of (store_alerts alerts store) aid =
     (if with_id aid alerts = [] then map_of store aid else Some (last (with_id aid alerts)))"
proof (induction alerts arbitrary: store)
  case Nil
  then show ?case by (simp add: store_alerts_def with_id_def)
next
  case (Cons a alerts)
  have "store_alerts (a # alerts) store = store_alerts alerts (dict_set_any store (alert_id a) a)"
    by (simp add: store_alerts_def)
  then show ?case
    by (simp add: Cons.IH map_of_dict_set_any with_id_def)
qed

lemma last_filter_index:
  "j < length xs \<Longrightarrow> P (xs ! j) \<Longrightarrow>
   \<exists>k. j \<le> k \<and> k < length xs \<and> last (filter P xs) = xs ! k"
proof (induction xs rule: rev_induct)
  case Nil
  then show ?case by simp
next
  case (snoc x xs)
  show ?case
  proof (cases "P x")
    case True
    then have "last (filter P (xs @ [x])) = (xs @ [x]) ! length xs"
      by simp
    moreover from snoc.prems(1) have "j \<le> length xs" "length xs < length (xs @ [x])"
      by simp_all
    ultimately show ?thesis
      by blast
  next
    case False
    with snoc.prems have j: "j < length xs"
      by (cases "j = length xs") auto
    with snoc.prems(2) have "P (xs ! j)"
      by (simp add: nth_append)
    from snoc.IH [OF j this] obtain k where "j \<le> k" "k < length xs" "last (filter P xs) = xs ! k"
      by blast
    with False show ?thesis
      by (auto simp: nth_append intro!: exI [of _ k])
  qed
qed

lemma create_alert_id:
  "alert_id (create_alert now a_type sev ttl msg src) = a_type @ ''_'' @ str_of_int (int_of_float now)"
  "alert_type (create_alert now a_type sev ttl msg src) = a_type"
  by (simp_all add: create_alert_def)

lemma check_alerts_ids:
  "n < length (check_alerts clock i checks) \<Longrightarrow>
   alert_id (check_alerts clock i checks ! n)
     = alert_type (check_alerts clock i checks ! n) @ ''_'' @ str_of_int (int_of_float (clock (i + n)))"
proof (induction checks arbitrary: i n)
  case Nil
  then show ?case by simp
next
  case (Cons c checks)
  show ?case
  proof (cases "check_status c = ERROR \<or> check_status c = WARNING")
    case False
    with Cons show ?thesis by simp
  next
    case True
    show ?thesis
    proof (cases n)
      case 0
      with True show ?thesis
        by (auto simp: create_alert_id)
    next
      case (Suc m)
      with True Cons.prems have "m < length (check_alerts clock (Suc i) checks)"
        by (auto split: if_splits)
      from Cons.IH [OF this] True Suc show ?thesis
        by auto
    qed
  qed
qed

lemma monitor_alert_ids:
  assumes "monitor_data_quality L clock store quality_checks = (alerts, store')"
    and "n < length alerts"
  shows "alert_id (alerts ! n)
     = alert_type (alerts ! n) @ ''_'' @ str_of_int (int_of_float (clock n))"
proof -
  let ?as = "check_alerts clock 0 quality_checks"
  show ?thesis
  proof (cases "n < length ?as")
    case True
    from assms(1) have "alerts ! n = ?as ! n"
      using True by (auto simp: monitor_data_quality_def Let_def nth_append split: if_splits)
    with check_alerts_ids [OF True] show ?thesis
      by simp
  next
    case False
    show ?thesis
    proof (cases "calculate_average_quality_score L quality_checks < data_quality_score_threshold")
      case low: True
      with assms(1) have al: "alerts = ?as @ [create_alert (clock (length ?as)) ''warning'' ''medium''
            ''Low Data Quality Score''
            (AverageScore (calculate_average_quality_score L quality_checks)) None]"
        by (simp add: monitor_data_quality_def Let_def)
      with assms(2) False have "n = length ?as"
        by simp
      with al show ?thesis
        by (simp add: create_alert_id)
    next
      case high: False
      with assms(1) have "alerts = ?as"
        by (simp add: monitor_data_quality_def Let_def)
      with assms(2) False show ?thesis
        by simp
    qed
  qed
qed

lemma monitor_store:
  "monitor_data_quality L clock store quality_checks = (alerts, store') \<Longrightarrow>
   store' = store_alerts alerts store"
  by (auto simp: monitor_data_quality_def Let_def split: if_splits)

text \<open>
  Claim C10.  The identifier of an alert is its type, an underscore and the whole second of
  its creation.  When \<open>monitor_data_quality\<close> creates two alerts of the same type within
  the same second, both are in the returned list, they have the same identifier, and the
  store holds under that identifier the last alert of the list that carries it, which is
  the later of the two or one created after it: the earlier alert has been overwritten.
\<close>

theorem same_second_alerts_overwrite:
  assumes run: "monitor_data_quality L clock store quality_checks = (alerts, store')"
    and ij: "i < j" "j < length alerts"
    and same_type: "alert_type (alerts ! i) = alert_type (alerts ! j)"
    and same_second: "int_of_float (clock i) = int_of_float (clock j)"
  shows "alerts ! i \<in> set alerts \<and> alerts ! j \<in> set alerts
    \<and> alert_id (alerts ! i) = alert_id (alerts ! j)
    \<and> map_of store' (alert_id (alerts ! i)) = Some (last (with_id (alert_id (alerts ! i)) alerts))
    \<and> (\<exists>k. j \<le> k \<and> k < length alerts
          \<and> last (with_id (alert_id (alerts ! i)) alerts) = alerts ! k)"
proof -
  from ij have i: "i < length alerts"
    by simp
  have ids: "alert_id (alerts ! i) = alert_id (alerts ! j)"
    using monitor_alert_ids [OF run i] monitor_alert_ids [OF run ij(2)] same_type same_second
    by simp
  have "alert_id (alerts ! j) = alert_id (alerts ! i)"
    using ids by simp
  from last_filter_index [of j alerts "\<lambda>alert. alert_id alert = alert_id (alerts ! i)", OF ij(2) this]
  have later: "\<exists>k. j \<le> k \<and> k < length alerts
      \<and> last (with_id (alert_id (alerts ! i)) alerts) = alerts ! k"
    by (simp add: with_id_def)
  have "alerts ! i \<in> set (with_id (alert_id (alerts ! i)) alerts)"
    using i by (simp add: with_id_def)
  then have "with_id (alert_id (alerts ! i)) alerts \<noteq> []"
    by auto
  then have "map_of store' (alert_id (alerts ! i))
      = Some (last (with_id (alert_id (alerts ! i)) alerts))"
    by (simp add: monitor_store [OF run] store_alerts_lookup)
  with ids later i ij show ?thesis
    by simp
qed

lemma sample_second: "str_of_int (int_of_float 1700000000) = ''1700000000''"
  by (simp add: str_of_int_def int_of_float_def str_of_nat.simps) code_simp

lemma sample_quality_run:
  "monitor_data_quality ref_lib (\<lambda>i. 1700000000) [] [failed_completeness, failed_validity]
     = ([completeness_alert, validity_alert, low_score_alert],
        [(''error_1700000000'', validity_alert), (''warning_1700000000'', low_score_alert)])"
  by (simp add: monitor_data_quality_def Let_def failed_completeness_def failed_validity_def
      create_alert_def calculate_average_quality_score_def ref_lib_def status_score_def
      data_quality_score_threshold_def store_alerts_def dict_set_any_def sample_second
      completeness_alert_def validity_alert_def low_score_alert_def)

theorem same_second_alerts_overwrite_witness:
  "monitor_data_quality ref_lib (\<lambda>i. 1700000000) [] [failed_completeness, failed_validity]
     = ([completeness_alert, validity_alert, low_score_alert],
        [(''error_1700000000'', validity_alert), (''warning_1700000000'', low_score_alert)])
   \<and> alert_type completeness_alert = alert_type validity_alert
   \<and> int_of_float ((\<lambda>i::nat. 1700000000) 0) = int_of_float ((\<lambda>i::nat. 1700000000) 1)
   \<and> completeness_alert \<noteq> validity_alert
   \<and> alert_id completeness_alert = alert_id validity_alert
   \<and> map_of [(''error_1700000000'', validity_alert), (''warning_1700000000'', low_score_alert)]
        (alert_id completeness_alert) = Some validity_alert"
proof -
  have t: "alert_type ([completeness_alert, validity_alert, low_score_alert] ! 0)
      = alert_type ([completeness_alert, validity_alert, low_score_alert] ! 1)"
    by (simp add: completeness_alert_def validity_alert_def)
  have ne: "completeness_alert \<noteq> validity_alert"
    by (simp add: completeness_alert_def validity_alert_def)
  have l: "last (with_id (alert_id completeness_alert)
      [completeness_alert, validity_alert, low_score_alert]) = validity_alert"
    by (simp add: with_id_def completeness_alert_def validity_alert_def low_score_alert_def)
  have h1: "(0::nat) < 1"
    by simp
  have h2: "1 < length [completeness_alert, validity_alert, low_score_alert]"
    by simp
  have h4: "int_of_float ((\<lambda>i::nat. 1700000000) 0) = int_of_float ((\<lambda>i::nat. 1700000000) 1)"
    by simp
  have n0: "[completeness_alert, validity_alert, low_score_alert] ! 0 = completeness_alert"
    and n1: "[completeness_alert, validity_alert, low_score_alert] ! 1 = validity_alert"
    by simp_all
  from same_second_alerts_overwrite [OF sample_quality_run h1 h2 t h4]
  have "alert_id completeness_alert = alert_id validity_alert
      \<and> map_of [(''error_1700000000'', validity_alert), (''warning_1700000000'', low_score_alert)]
          (alert_id completeness_alert)
        = Some (last (with_id (alert_id completeness_alert)
            [completeness_alert, validity_alert, low_score_alert]))"
    unfolding n0 n1 by blast
  then have ids: "alert_id completeness_alert = alert_id validity_alert"
    and look: "map_of [(''error_1700000000'', validity_alert), (''warning_1700000000'', low_score_alert)]
          (alert_id completeness_alert)
        = Some (last (with_id (alert_id completeness_alert)
            [completeness_alert, validity_alert, low_score_alert]))"
    by blast+
  from look have stored:
    "map_of [(''error_1700000000'', validity_alert), (''warning_1700000000'', low_score_alert)]
          (alert_id completeness_alert) = Some validity_alert"
    by (simp only: l)
  from t have ty: "alert_type completeness_alert = alert_type validity_alert"
    by (simp only: n0 n1)
  show ?thesis
    using sample_quality_run ty h4 ne ids stored by (intro conjI)
qed

end
